theory Spec2Isabelle
  imports Main
begin

section \<open>Documents of the solana_approvals collection\<close>

text \<open>
  The two services of the repository (the verifier script and the transfer script) share
  one MongoDB collection, \<open>solana_approvals\<close>. A document is written by the POST handler
  of \<open>route.ts\<close> and afterwards changed only through \<open>updateOne\<close> with a \<open>$set\<close> document.

  A thrown JavaScript \<open>Error\<close> is modelled by its \<open>message\<close>; a \<open>PublicKey\<close> by the string
  its \<open>toString()\<close> returns; a \<open>Date\<close> by a number; a \<open>bigint\<close> read from a token account
  (an unsigned quantity) by a natural number. The collection is a list of documents in the
  order \<open>find\<close> returns them, and its calls (\<open>connect\<close>, \<open>find\<close>, \<open>updateOne\<close>) are taken
  to succeed; what can fail is the ledger and the library calls.
\<close>

type_synonym error = string
type_synonym pubkey = string
type_synonym date = nat

text \<open>\<open>interface SolanaApprovalDetail\<close> of \<open>route.ts\<close>.\<close>

record approvalDetail =
  tokenAccount :: string
  mint :: string
  amount :: string
  decimals :: nat
  symbol :: "string option"

text \<open>An element pushed on \<open>verificationResults\<close> by the verifier.\<close>

record verificationResult =
  vr_tokenAccount :: string
  vr_verified :: bool
  vr_delegatedAmount :: "string option"
  vr_reason :: "string option"

text \<open>An element pushed on \<open>transferResults\<close> by the transfer script.\<close>

record transferResult =
  tr_tokenAccount :: string
  tr_mint :: "string option"
  tr_amount :: "string option"
  tr_success :: bool
  tr_reason :: "string option"

text \<open>
  A stored document. A field that may be absent, \<open>null\<close> or \<open>undefined\<close> is an option
  (\<open>None\<close> for all three). \<open>doc_id\<close> is the field \<open>_id\<close>.
\<close>

record approvalDoc =
  doc_id :: nat
  owner :: string
  delegate :: "string option"
  approvals :: "approvalDetail list"
  transactionSignature :: string
  network :: "string option"
  createdAt :: "date option"
  submitted :: "bool option"
  submittedAt :: "date option"
  executed :: "bool option"
  executedAt :: "date option"
  verified :: "bool option"
  verifiedAt :: "date option"
  reason :: "string option"
  verificationResults :: "verificationResult list option"
  transferred :: "bool option"
  transferredAt :: "date option"
  transferTransactionSignature :: "string option"
  transferResults :: "transferResult list option"

text \<open>The document that the POST handler inserts (\<open>insertOne\<close>, route.ts lines 49-63).\<close>

definition insertedDoc ::
  "nat \<Rightarrow> string \<Rightarrow> string \<Rightarrow> approvalDetail list \<Rightarrow> string \<Rightarrow> string \<Rightarrow> date \<Rightarrow> approvalDoc" where
  "insertedDoc i own del apps sig nw now =
     \<lparr> doc_id = i, owner = own, delegate = Some del, approvals = apps,
       transactionSignature = sig, network = Some nw, createdAt = Some now,
       submitted = Some True, submittedAt = Some now, executed = Some False,
       executedAt = None, verified = Some False, verifiedAt = None, reason = None,
       verificationResults = None, transferred = None, transferredAt = None,
       transferTransactionSignature = None, transferResults = None \<rparr>"

text \<open>
  A \<open>$set\<close> document: for every field, \<open>Some v\<close> when the update sets the field to \<open>v\<close>.
  Only the fields that some \<open>updateOne\<close> of the two services sets are listed.
\<close>

record setDoc =
  set_executed :: "bool option"
  set_executedAt :: "date option"
  set_reason :: "string option"
  set_verified :: "bool option"
  set_verifiedAt :: "date option"
  set_verificationResults :: "verificationResult list option"
  set_transferred :: "bool option"
  set_transferredAt :: "date option"
  set_transferTransactionSignature :: "string option"
  set_transferResults :: "transferResult list option"

definition emptySet :: setDoc where
  "emptySet =
     \<lparr> set_executed = None, set_executedAt = None, set_reason = None, set_verified = None,
       set_verifiedAt = None, set_verificationResults = None, set_transferred = None,
       set_transferredAt = None, set_transferTransactionSignature = None,
       set_transferResults = None \<rparr>"

definition orElse :: "'a option \<Rightarrow> 'a option \<Rightarrow> 'a option" where
  "orElse new old = (case new of None \<Rightarrow> old | Some v \<Rightarrow> Some v)"

definition applySet :: "setDoc \<Rightarrow> approvalDoc \<Rightarrow> approvalDoc" where
  "applySet s d =
     d \<lparr> executed := orElse (set_executed s) (executed d),
         executedAt := orElse (set_executedAt s) (executedAt d),
         reason := orElse (set_reason s) (reason d),
         verified := orElse (set_verified s) (verified d),
         verifiedAt := orElse (set_verifiedAt s) (verifiedAt d),
         verificationResults := orElse (set_verificationResults s) (verificationResults d),
         transferred := orElse (set_transferred s) (transferred d),
         transferredAt := orElse (set_transferredAt s) (transferredAt d),
         transferTransactionSignature :=
           orElse (set_transferTransactionSignature s) (transferTransactionSignature d),
         transferResults := orElse (set_transferResults s) (transferResults d) \<rparr>"

text \<open>
  \<open>collection.updateOne(filter, { $set: s })\<close>: the first document that matches the
  filter is updated, every other document is left as it is; with no match nothing changes.
\<close>

fun updateOne :: "(approvalDoc \<Rightarrow> bool) \<Rightarrow> setDoc \<Rightarrow> approvalDoc list \<Rightarrow> approvalDoc list" where
  "updateOne flt s [] = []"
| "updateOne flt s (d # ds) = (if flt d then applySet s d # ds else d # updateOne flt s ds)"

section \<open>The environment: libraries and the ledger\<close>

text \<open>
  The pure library calls the scripts make. \<open>newPublicKey\<close> is \<open>new PublicKey(s)\<close>, which
  throws on a malformed address; \<open>newConnection\<close> is \<open>new Connection(rpcUrl, 'confirmed')\<close>,
  which throws on a malformed endpoint; \<open>bufferFromBase64\<close> is \<open>Buffer.from(s, 'base64')\<close>;
  \<open>jsonParseBytes\<close> is \<open>Uint8Array.from(JSON.parse(s))\<close> and \<open>keypairFromSecretKey\<close> is
  \<open>Keypair.fromSecretKey\<close>, both \<open>None\<close> where they throw.
\<close>

record keypair =
  publicKey :: pubkey
  secretKey :: "nat list"

record lib =
  newPublicKey :: "string \<Rightarrow> error + pubkey"
  newConnection :: "string \<Rightarrow> error + unit"
  bufferFromBase64 :: "string \<Rightarrow> nat list"
  jsonParseBytes :: "string \<Rightarrow> nat list option"
  keypairFromSecretKey :: "nat list \<Rightarrow> keypair option"

text \<open>What \<open>getAccount\<close> of spl-token returns, as far as the scripts read it.\<close>

record accountInfo =
  acc_delegate :: "pubkey option"
  acc_delegatedAmount :: nat
  acc_amount :: nat

text \<open>
  What \<open>connection.getTransaction\<close> returns: \<open>meta\<close> may be \<open>null\<close>, \<open>meta.err\<close> is \<open>null\<close> for
  a transaction that succeeded and otherwise the error object, held here as the text that
  \<open>JSON.stringify\<close> gives for it.
\<close>

record txMeta =
  err :: "string option"

record txResponse =
  meta :: "txMeta option"

text \<open>A transfer instruction built by \<open>createTransferInstruction\<close>.\<close>

record transferInstruction =
  ti_source :: pubkey
  ti_destination :: pubkey
  ti_authority :: pubkey
  ti_amount :: nat

text \<open>The transaction that is signed, serialized and handed to \<open>sendRawTransaction\<close>.\<close>

record signedTransaction =
  instructions :: "transferInstruction list"
  recentBlockhash :: string
  feePayer :: pubkey
  signer :: keypair

text \<open>
  The world outside the process (the ledger behind the RPC endpoint and the wall clock) is a
  state of an arbitrary type \<open>'w\<close>. Every awaited RPC call takes the endpoint of its
  \<open>Connection\<close> and the world, and returns either the message of the error it throws or its
  result, together with the world after the call; so the ledger may answer differently at
  each call. \<open>dateNow\<close> is \<open>new Date()\<close>.
\<close>

record 'w rpc =
  dateNow :: "'w \<Rightarrow> date"
  getTransaction :: "string \<Rightarrow> string \<Rightarrow> 'w \<Rightarrow> (error + txResponse option) \<times> 'w"
  getAccount :: "string \<Rightarrow> pubkey \<Rightarrow> 'w \<Rightarrow> (error + accountInfo) \<times> 'w"
  getParsedTokenAccountsByOwner :: "string \<Rightarrow> pubkey \<Rightarrow> pubkey \<Rightarrow> 'w \<Rightarrow> (error + pubkey list) \<times> 'w"
  getLatestBlockhash :: "string \<Rightarrow> 'w \<Rightarrow> (error + string) \<times> 'w"
  sendRawTransaction :: "string \<Rightarrow> signedTransaction \<Rightarrow> 'w \<Rightarrow> (error + string) \<times> 'w"
  confirmTransaction :: "string \<Rightarrow> string \<Rightarrow> 'w \<Rightarrow> (error + unit) \<times> 'w"

text \<open>JavaScript truthiness of a value that is a string, \<open>null\<close> or \<open>undefined\<close>.\<close>

definition truthy :: "string option \<Rightarrow> bool" where
  "truthy s = (case s of None \<Rightarrow> False | Some x \<Rightarrow> x \<noteq> [])"

text \<open>\<open>bigint.toString()\<close>: the decimal digits.\<close>

definition digit :: "nat \<Rightarrow> char" where
  "digit n = ''0123456789'' ! n"

fun toString_bigint :: "nat \<Rightarrow> string" where
  "toString_bigint n =
     (if n < 10 then [digit n] else toString_bigint (n div 10) @ [digit (n mod 10)])"

declare toString_bigint.simps [simp del]

section \<open>The verifier (verifySolanaApprovals)\<close>

text \<open>The verifier's \<open>solanaConfig\<close>: per network name, the endpoint and the delegate address.\<close>

record verifierNetConfig =
  v_rpcUrl :: string
  delegateAddress :: "string option"

type_synonym verifierConfig = "string \<Rightarrow> verifierNetConfig option"

text \<open>The query of \<open>find\<close>: \<open>{ verified: { $ne: true }, executed: false }\<close>.\<close>

definition verifyQuery :: "approvalDoc \<Rightarrow> bool" where
  "verifyQuery d = (verified d \<noteq> Some True \<and> executed d = Some False)"

text \<open>
  The body of the inner loop over \<open>approvalList\<close> (lines 104-140): one grant line is checked
  against the token account read from the ledger; a throw of \<open>new PublicKey\<close> or of
  \<open>getAccount\<close> is caught and becomes the grant's result.
\<close>

definition verifyApproval ::
  "lib \<Rightarrow> 'w rpc \<Rightarrow> string \<Rightarrow> pubkey \<Rightarrow> approvalDetail \<Rightarrow> 'w \<Rightarrow> verificationResult \<times> 'w" where
  "verifyApproval L R rpcUrl delegatePublicKey approval w =
     (case newPublicKey L (tokenAccount approval) of
        Inl verifyError \<Rightarrow>
          (\<lparr> vr_tokenAccount = tokenAccount approval, vr_verified = False,
             vr_delegatedAmount = None, vr_reason = Some verifyError \<rparr>, w)
      | Inr tokenAccountPubkey \<Rightarrow>
          (case getAccount R rpcUrl tokenAccountPubkey w of
             (Inl verifyError, w') \<Rightarrow>
               (\<lparr> vr_tokenAccount = tokenAccount approval, vr_verified = False,
                  vr_delegatedAmount = None, vr_reason = Some verifyError \<rparr>, w')
           | (Inr info, w') \<Rightarrow>
               (let isDelegateSet =
                      (case acc_delegate info of None \<Rightarrow> False
                       | Some d \<Rightarrow> d = delegatePublicKey);
                    hasAllowance = (acc_delegatedAmount info > 0)
                in if isDelegateSet \<and> hasAllowance
                   then (\<lparr> vr_tokenAccount = tokenAccount approval, vr_verified = True,
                           vr_delegatedAmount = Some (toString_bigint (acc_delegatedAmount info)),
                           vr_reason = None \<rparr>, w')
                   else (\<lparr> vr_tokenAccount = tokenAccount approval, vr_verified = False,
                           vr_delegatedAmount = None,
                           vr_reason = Some (if isDelegateSet then ''No allowance set''
                                             else ''Delegate not set'') \<rparr>, w'))))"

text \<open>
  The inner loop: the accumulator is \<open>(allVerified, verificationResults)\<close>; a failed grant
  sets \<open>allVerified\<close> to false.
\<close>

fun verifyApprovalList ::
  "lib \<Rightarrow> 'w rpc \<Rightarrow> string \<Rightarrow> pubkey \<Rightarrow> approvalDetail list \<Rightarrow> bool \<times> verificationResult list \<Rightarrow> 'w
   \<Rightarrow> (bool \<times> verificationResult list) \<times> 'w" where
  "verifyApprovalList L R rpcUrl pk [] acc w = (acc, w)"
| "verifyApprovalList L R rpcUrl pk (approval # rest) (allVerified, results) w =
     (case verifyApproval L R rpcUrl pk approval w of
        (r, w') \<Rightarrow>
          verifyApprovalList L R rpcUrl pk rest
            (if vr_verified r then allVerified else False, results @ [r]) w')"

text \<open>The three \<open>$set\<close> documents the verifier writes.\<close>

definition setExecuted :: "date \<Rightarrow> string \<Rightarrow> setDoc" where
  "setExecuted now why =
     emptySet \<lparr> set_executed := Some True, set_executedAt := Some now, set_reason := Some why \<rparr>"

definition setVerified :: "date \<Rightarrow> verificationResult list \<Rightarrow> setDoc" where
  "setVerified now results =
     emptySet \<lparr> set_verified := Some True, set_verifiedAt := Some now,
                set_verificationResults := Some results \<rparr>"

definition setUnverified :: "date \<Rightarrow> verificationResult list \<Rightarrow> setDoc" where
  "setUnverified now results =
     emptySet \<lparr> set_verified := Some False, set_verifiedAt := Some now,
                set_verificationResults := Some results,
                set_reason := Some ''Some approvals failed verification'' \<rparr>"

text \<open>\<open>`Transaction failed: ${JSON.stringify(transaction.meta?.err)}`\<close>.\<close>

definition failedReason :: "txResponse \<Rightarrow> string" where
  "failedReason transaction =
     ''Transaction failed: '' @
       (case meta transaction of None \<Rightarrow> ''undefined''
        | Some m \<Rightarrow> (case err m of None \<Rightarrow> ''null'' | Some e \<Rightarrow> e))"

text \<open>\<open>const delegateToCheck = delegateAddress || delegate\<close> (line 50).\<close>

definition delegateToCheck :: "verifierNetConfig \<Rightarrow> approvalDoc \<Rightarrow> string option" where
  "delegateToCheck conf approvalData =
     (if truthy (delegateAddress conf) then delegateAddress conf else delegate approvalData)"

text \<open>
  The \<open>try\<close> block of the outer loop's body with its \<open>catch\<close> (lines 64-183), for the
  connection's endpoint and the delegate's public key. Every path through it ends in one
  \<open>updateOne\<close> with the filter \<open>{ _id: approvalData._id }\<close>; the function gives the \<open>$set\<close>
  document of that call and the world after the RPC calls.
\<close>

definition verifyTransaction ::
  "lib \<Rightarrow> 'w rpc \<Rightarrow> string \<Rightarrow> pubkey \<Rightarrow> approvalDoc \<Rightarrow> 'w \<Rightarrow> setDoc \<times> 'w" where
  "verifyTransaction L R rpcUrl delegatePublicKey approvalData w =
     (case getTransaction R rpcUrl (transactionSignature approvalData) w of
        (Inl txError, w1) \<Rightarrow>
          (setExecuted (dateNow R w1) (''Transaction fetch error: '' @ txError), w1)
      | (Inr None, w1) \<Rightarrow>
          (setExecuted (dateNow R w1) ''Transaction not found on-chain'', w1)
      | (Inr (Some transaction), w1) \<Rightarrow>
          (if (case meta transaction of None \<Rightarrow> True | Some m \<Rightarrow> err m \<noteq> None)
           then (setExecuted (dateNow R w1) (failedReason transaction), w1)
           else (case verifyApprovalList L R rpcUrl delegatePublicKey
                        (approvals approvalData) (True, []) w1 of
                   ((allVerified, results), w2) \<Rightarrow>
                     (if allVerified then (setVerified (dateNow R w2) results, w2)
                      else (setUnverified (dateNow R w2) results, w2)))))"

text \<open>
  The body of the outer loop (lines 40-183) for one document of the query's result: the
  \<open>$set\<close> document of its \<open>updateOne\<close> (\<open>None\<close> for a \<open>continue\<close> that writes nothing) and
  the world afterwards. \<open>Inl\<close> is an exception that leaves the loop: \<open>new Connection\<close> and
  \<open>new PublicKey\<close> at lines 57-58 stand outside the inner \<open>try\<close>, so their throw reaches
  the \<open>catch\<close> at line 185.
\<close>

definition verifyApprovalData ::
  "lib \<Rightarrow> 'w rpc \<Rightarrow> verifierConfig \<Rightarrow> approvalDoc \<Rightarrow> 'w \<Rightarrow> error + (setDoc option \<times> 'w)" where
  "verifyApprovalData L R solanaConfig approvalData w =
     (if \<not> truthy (network approvalData) then Inr (None, w)
      else case network approvalData of None \<Rightarrow> Inr (None, w) | Some nw \<Rightarrow>
      (case solanaConfig nw of None \<Rightarrow> Inr (None, w) | Some conf \<Rightarrow>
      (if \<not> truthy (delegateToCheck conf approvalData) then Inr (None, w)
       else case delegateToCheck conf approvalData of None \<Rightarrow> Inr (None, w)
            | Some delegateString \<Rightarrow>
       (case newConnection L (v_rpcUrl conf) of Inl e \<Rightarrow> Inl e | Inr connection \<Rightarrow>
       (case newPublicKey L delegateString of Inl e \<Rightarrow> Inl e | Inr delegatePublicKey \<Rightarrow>
       (case verifyTransaction L R (v_rpcUrl conf) delegatePublicKey approvalData w of
          (s, w') \<Rightarrow> Inr (Some s, w')))))))"

text \<open>
  The outer loop over the documents the query returned, on the collection and the world.
  An exception that leaves the loop body ends the cycle (the \<open>catch\<close> at line 185 logs it);
  what was written before stays written.
\<close>

fun verifyLoop ::
  "lib \<Rightarrow> 'w rpc \<Rightarrow> verifierConfig \<Rightarrow> approvalDoc list \<Rightarrow> approvalDoc list \<times> 'w
   \<Rightarrow> approvalDoc list \<times> 'w" where
  "verifyLoop L R solanaConfig [] sw = sw"
| "verifyLoop L R solanaConfig (approvalData # rest) (store, w) =
     (case verifyApprovalData L R solanaConfig approvalData w of
        Inl e \<Rightarrow> (store, w)
      | Inr (None, w') \<Rightarrow> verifyLoop L R solanaConfig rest (store, w')
      | Inr (Some s, w') \<Rightarrow>
          verifyLoop L R solanaConfig rest
            (updateOne (\<lambda>d. doc_id d = doc_id approvalData) s store, w'))"

text \<open>One cycle of the verifier: \<open>find(...).toArray()\<close>, then the loop.\<close>

definition verifySolanaApprovals ::
  "lib \<Rightarrow> 'w rpc \<Rightarrow> verifierConfig \<Rightarrow> approvalDoc list \<times> 'w \<Rightarrow> approvalDoc list \<times> 'w" where
  "verifySolanaApprovals L R solanaConfig sw =
     (let approvalDocs = filter verifyQuery (fst sw)
      in if approvalDocs = [] then sw else verifyLoop L R solanaConfig approvalDocs sw)"

section \<open>The transfer script (transferApprovedTokens)\<close>

text \<open>
  The transfer script's \<open>solanaConfig\<close>: per network name, the endpoint, the delegate's
  private key and the destination address.
\<close>

record transferNetConfig =
  t_rpcUrl :: string
  delegatePrivateKey :: "string option"
  destinationAddress :: "string option"

type_synonym transferConfig = "string \<Rightarrow> transferNetConfig option"

text \<open>
  The query of \<open>find\<close>:
  \<open>{ verified: true, executed: { $ne: true }, transferred: { $ne: true } }\<close>.
\<close>

definition transferQuery :: "approvalDoc \<Rightarrow> bool" where
  "transferQuery d =
     (verified d = Some True \<and> executed d \<noteq> Some True \<and> transferred d \<noteq> Some True)"

text \<open>
  \<open>getKeypairFromPrivateKey\<close> (lines 105-118): whatever is thrown inside is replaced by
  one fixed error.
\<close>

definition getKeypairFromPrivateKey :: "lib \<Rightarrow> string \<Rightarrow> error + keypair" where
  "getKeypairFromPrivateKey L privateKeyString =
     (let secretKey = bufferFromBase64 L privateKeyString
      in case (if length secretKey = 64 then keypairFromSecretKey L secretKey
               else (case jsonParseBytes L privateKeyString of None \<Rightarrow> None
                     | Some keyArray \<Rightarrow> keypairFromSecretKey L keyArray)) of
           None \<Rightarrow>
             Inl ''Invalid private key format. Use base64 encoded 64-byte secret key or JSON array.''
         | Some kp \<Rightarrow> Inr kp)"

definition failedTransfer :: "string \<Rightarrow> string \<Rightarrow> transferResult" where
  "failedTransfer acct why =
     \<lparr> tr_tokenAccount = acct, tr_mint = None, tr_amount = None, tr_success = False,
       tr_reason = Some why \<rparr>"

text \<open>
  The body of the inner loop over \<open>approvalList\<close> (lines 183-271): the result pushed on
  \<open>transferResults\<close> and the instruction added to the transaction, if any.
\<close>

definition transferApproval ::
  "lib \<Rightarrow> 'w rpc \<Rightarrow> string \<Rightarrow> pubkey \<Rightarrow> pubkey \<Rightarrow> approvalDetail \<Rightarrow> 'w
   \<Rightarrow> (transferResult \<times> transferInstruction option) \<times> 'w" where
  "transferApproval L R rpcUrl delegatePublicKey destinationPublicKey approval w =
     (case newPublicKey L (tokenAccount approval) of
        Inl tokenError \<Rightarrow> ((failedTransfer (tokenAccount approval) tokenError, None), w)
      | Inr tokenAccountPubkey \<Rightarrow>
     (case getAccount R rpcUrl tokenAccountPubkey w of
        (Inl tokenError, w1) \<Rightarrow> ((failedTransfer (tokenAccount approval) tokenError, None), w1)
      | (Inr info, w1) \<Rightarrow>
     (if (case acc_delegate info of None \<Rightarrow> True | Some d \<Rightarrow> d \<noteq> delegatePublicKey)
      then ((failedTransfer (tokenAccount approval) ''Delegate not set'', None), w1)
      else if acc_delegatedAmount info = 0
      then ((failedTransfer (tokenAccount approval) ''No delegated amount'', None), w1)
      else
     (let transferAmount =
            (if acc_delegatedAmount info < acc_amount info then acc_delegatedAmount info
             else acc_amount info)
      in if transferAmount = 0
         then ((failedTransfer (tokenAccount approval) ''No balance to transfer'', None), w1)
         else
     (case newPublicKey L (mint approval) of
        Inl tokenError \<Rightarrow> ((failedTransfer (tokenAccount approval) tokenError, None), w1)
      | Inr mintPubkey \<Rightarrow>
     (case getParsedTokenAccountsByOwner R rpcUrl destinationPublicKey mintPubkey w1 of
        (Inl tokenError, w2) \<Rightarrow> ((failedTransfer (tokenAccount approval) tokenError, None), w2)
      | (Inr [], w2) \<Rightarrow>
          ((failedTransfer (tokenAccount approval) ''Destination token account not found'', None),
           w2)
      | (Inr (destinationTokenAccountPubkey # others), w2) \<Rightarrow>
          ((\<lparr> tr_tokenAccount = tokenAccount approval, tr_mint = Some (mint approval),
              tr_amount = Some (toString_bigint transferAmount), tr_success = True,
              tr_reason = None \<rparr>,
            Some \<lparr> ti_source = tokenAccountPubkey,
                   ti_destination = destinationTokenAccountPubkey,
                   ti_authority = delegatePublicKey, ti_amount = transferAmount \<rparr>),
           w2)))))))"

text \<open>The inner loop: the accumulator is \<open>(transferResults, transaction.instructions)\<close>.\<close>

fun transferApprovalList ::
  "lib \<Rightarrow> 'w rpc \<Rightarrow> string \<Rightarrow> pubkey \<Rightarrow> pubkey \<Rightarrow> approvalDetail list
   \<Rightarrow> transferResult list \<times> transferInstruction list \<Rightarrow> 'w
   \<Rightarrow> (transferResult list \<times> transferInstruction list) \<times> 'w" where
  "transferApprovalList L R rpcUrl pk dest [] acc w = (acc, w)"
| "transferApprovalList L R rpcUrl pk dest (approval # rest) (results, batch) w =
     (case transferApproval L R rpcUrl pk dest approval w of
        ((r, None), w') \<Rightarrow> transferApprovalList L R rpcUrl pk dest rest (results @ [r], batch) w'
      | ((r, Some instruction), w') \<Rightarrow>
          transferApprovalList L R rpcUrl pk dest rest (results @ [r], batch @ [instruction]) w')"

text \<open>The \<open>$set\<close> documents the transfer script writes (the third is \<open>setExecuted\<close>).\<close>

definition setNothingToTransfer :: "date \<Rightarrow> transferResult list \<Rightarrow> setDoc" where
  "setNothingToTransfer now results =
     emptySet \<lparr> set_transferred := Some True, set_transferredAt := Some now,
                set_transferResults := Some results,
                set_reason := Some ''No valid transfers to execute'' \<rparr>"

definition setTransferred :: "date \<Rightarrow> string \<Rightarrow> transferResult list \<Rightarrow> setDoc" where
  "setTransferred now signature results =
     emptySet \<lparr> set_transferred := Some True, set_transferredAt := Some now,
                set_transferTransactionSignature := Some signature,
                set_transferResults := Some results \<rparr>"

text \<open>
  The part of the \<open>try\<close> block after the delegate check (lines 171-317), with the \<open>catch\<close>
  of line 320: the \<open>$set\<close> document of its one \<open>updateOne\<close>, the transaction it handed to
  \<open>sendRawTransaction\<close> (\<open>None\<close> when it did not call it), and the world after its RPC
  calls. Signing and serializing are part of \<open>sendRawTransaction\<close> here.
\<close>

definition transferBatch ::
  "lib \<Rightarrow> 'w rpc \<Rightarrow> string \<Rightarrow> keypair \<Rightarrow> string \<Rightarrow> approvalDoc \<Rightarrow> 'w
   \<Rightarrow> (setDoc \<times> signedTransaction option) \<times> 'w" where
  "transferBatch L R rpcUrl delegateKeypair destination approvalData w =
     (case newConnection L rpcUrl of
        Inl transferError \<Rightarrow>
          ((setExecuted (dateNow R w) (''Transfer error: '' @ transferError), None), w)
      | Inr connection \<Rightarrow>
     (case newPublicKey L destination of
        Inl transferError \<Rightarrow>
          ((setExecuted (dateNow R w) (''Transfer error: '' @ transferError), None), w)
      | Inr destinationPublicKey \<Rightarrow>
     (case newPublicKey L (owner approvalData) of
        Inl transferError \<Rightarrow>
          ((setExecuted (dateNow R w) (''Transfer error: '' @ transferError), None), w)
      | Inr ownerPublicKey \<Rightarrow>
     (case transferApprovalList L R rpcUrl (publicKey delegateKeypair)
             destinationPublicKey (approvals approvalData) ([], []) w of
        ((results, batch), w1) \<Rightarrow>
     (if batch = []
      then ((setNothingToTransfer (dateNow R w1) results, None), w1)
      else
     (case getLatestBlockhash R rpcUrl w1 of
        (Inl transferError, w2) \<Rightarrow>
          ((setExecuted (dateNow R w2) (''Transfer error: '' @ transferError), None), w2)
      | (Inr blockhash, w2) \<Rightarrow>
     (let transaction =
            \<lparr> instructions = batch, recentBlockhash = blockhash,
              feePayer = publicKey delegateKeypair, signer = delegateKeypair \<rparr>
      in case sendRawTransaction R rpcUrl transaction w2 of
        (Inl transferError, w3) \<Rightarrow>
          ((setExecuted (dateNow R w3) (''Transfer error: '' @ transferError),
            Some transaction), w3)
      | (Inr signature, w3) \<Rightarrow>
     (case confirmTransaction R rpcUrl signature w3 of
        (Inl transferError, w4) \<Rightarrow>
          ((setExecuted (dateNow R w4) (''Transfer error: '' @ transferError),
            Some transaction), w4)
      | (Inr confirmed, w4) \<Rightarrow>
          ((setTransferred (dateNow R w4) signature results, Some transaction), w4)))))))))"

text \<open>
  The body of the outer loop (lines 141-333) for one document of the query's result: the
  \<open>$set\<close> document of its \<open>updateOne\<close> (\<open>None\<close> for a \<open>continue\<close> that writes nothing), the
  transaction handed to \<open>sendRawTransaction\<close>, and the world afterwards. The call of
  \<open>getKeypairFromPrivateKey\<close> already stands inside the \<open>try\<close> whose \<open>catch\<close> (line 320)
  writes \<open>executed: true\<close>.
\<close>

definition transferApprovalData ::
  "lib \<Rightarrow> 'w rpc \<Rightarrow> transferConfig \<Rightarrow> approvalDoc \<Rightarrow> 'w
   \<Rightarrow> (setDoc option \<times> signedTransaction option) \<times> 'w" where
  "transferApprovalData L R solanaConfig approvalData w =
     (if \<not> truthy (network approvalData) then ((None, None), w)
      else case network approvalData of None \<Rightarrow> ((None, None), w) | Some nw \<Rightarrow>
     (case solanaConfig nw of None \<Rightarrow> ((None, None), w) | Some conf \<Rightarrow>
     (if \<not> truthy (delegatePrivateKey conf) then ((None, None), w)
      else if \<not> truthy (destinationAddress conf) then ((None, None), w)
      else case delegatePrivateKey conf of None \<Rightarrow> ((None, None), w) | Some privateKey \<Rightarrow>
     (case destinationAddress conf of None \<Rightarrow> ((None, None), w) | Some destination \<Rightarrow>
     (case getKeypairFromPrivateKey L privateKey of
        Inl transferError \<Rightarrow>
          ((Some (setExecuted (dateNow R w) (''Transfer error: '' @ transferError)), None), w)
      | Inr delegateKeypair \<Rightarrow>
     (if Some (publicKey delegateKeypair) \<noteq> delegate approvalData then ((None, None), w)
      else
     (case transferBatch L R (t_rpcUrl conf) delegateKeypair destination approvalData w of
        ((s, tx), w') \<Rightarrow> ((Some s, tx), w'))))))))"

text \<open>
  The outer loop, on the collection and the world; the third component collects, with the
  \<open>_id\<close> of its document, every transaction handed to \<open>sendRawTransaction\<close>.
\<close>

fun transferLoop ::
  "lib \<Rightarrow> 'w rpc \<Rightarrow> transferConfig \<Rightarrow> approvalDoc list
   \<Rightarrow> (approvalDoc list \<times> 'w) \<times> (nat \<times> signedTransaction) list
   \<Rightarrow> (approvalDoc list \<times> 'w) \<times> (nat \<times> signedTransaction) list" where
  "transferLoop L R solanaConfig [] st = st"
| "transferLoop L R solanaConfig (approvalData # rest) ((store, w), sent) =
     (case transferApprovalData L R solanaConfig approvalData w of
        ((upd, tx), w') \<Rightarrow>
          transferLoop L R solanaConfig rest
            (((case upd of None \<Rightarrow> store
               | Some s \<Rightarrow> updateOne (\<lambda>d. doc_id d = doc_id approvalData) s store), w'),
             (case tx of None \<Rightarrow> sent | Some t \<Rightarrow> sent @ [(doc_id approvalData, t)])))"

text \<open>One cycle of the transfer script: \<open>find(...).toArray()\<close>, then the loop.\<close>

definition transferApprovedTokens ::
  "lib \<Rightarrow> 'w rpc \<Rightarrow> transferConfig \<Rightarrow> approvalDoc list \<times> 'w
   \<Rightarrow> (approvalDoc list \<times> 'w) \<times> (nat \<times> signedTransaction) list" where
  "transferApprovedTokens L R solanaConfig sw =
     (let approvalDocs = filter transferQuery (fst sw)
      in if approvalDocs = [] then (sw, [])
         else transferLoop L R solanaConfig approvalDocs (sw, []))"

section \<open>The lifecycle states of the specification\<close>

text \<open>
  The specification speaks of one field \<open>lifecycleState\<close>; the code keeps three flags.
  A document counts as \<open>Transferred\<close> once \<open>transferred\<close> is true (written at lines 280
  and 311), as \<open>TransferFailed\<close> when it is verified and \<open>executed\<close> is true (line 326), as
  \<open>Verified\<close> when \<open>verified\<close> is true (line 149), as \<open>VerificationFailed\<close> when it is not
  verified and either \<open>executed\<close> is true (verifier, lines 75, 90, 176) or a \<open>reason\<close> has
  been recorded (line 164), and as \<open>Submitted\<close> otherwise (the inserted document).
\<close>

datatype lifecycle = Submitted | Verified | VerificationFailed | Transferred | TransferFailed

definition lifecycleState :: "approvalDoc \<Rightarrow> lifecycle" where
  "lifecycleState d =
     (if transferred d = Some True then Transferred
      else if verified d = Some True
           then (if executed d = Some True then TransferFailed else Verified)
      else if executed d = Some True \<or> reason d \<noteq> None then VerificationFailed
      else Submitted)"

section \<open>A small concrete environment\<close>

text \<open>
  A library, a ledger and two configurations on which the functions above can be run. The
  world is a counter of RPC calls; the clock shows 1000 plus the counter. Token account
  \<open>C\<close> gets its delegate only from the tenth call on, and the transaction \<open>sigFlaky\<close> can
  be fetched only before the tenth call. The transaction \<open>sigFailed\<close> failed with the error
  \<open>AccountInUse\<close>, whose JSON text carries its double quotes (character 0x22).
\<close>

definition exLib :: lib where
  "exLib =
     \<lparr> newPublicKey = (\<lambda>s. if s = [] then Inl ''Invalid public key input'' else Inr s),
       newConnection = (\<lambda>u. Inr ()),
       bufferFromBase64 = (\<lambda>s. if s = ''goodkey'' then replicate 64 0 else []),
       jsonParseBytes = (\<lambda>s. None),
       keypairFromSecretKey =
         (\<lambda>b. if length b = 64 then Some \<lparr> publicKey = ''DELEGATE'', secretKey = b \<rparr>
              else None) \<rparr>"

definition exRpc :: "nat rpc" where
  "exRpc =
     \<lparr> dateNow = (\<lambda>w. 1000 + w),
       getTransaction =
         (\<lambda>url sig w.
            (if sig = ''sigOK'' then Inr (Some \<lparr> meta = Some \<lparr> err = None \<rparr> \<rparr>)
             else if sig = ''sigFailed''
                  then Inr (Some \<lparr> meta = Some \<lparr> err = Some (CHR 0x22 # ''AccountInUse'' @ [CHR 0x22]) \<rparr> \<rparr>)
             else if sig = ''sigDown'' then Inl ''fetch failed''
             else if sig = ''sigFlaky''
                  then (if w < 10 then Inr (Some \<lparr> meta = Some \<lparr> err = None \<rparr> \<rparr>)
                        else Inl ''fetch failed'')
             else Inr None, Suc w)),
       getAccount =
         (\<lambda>url pk w.
            (if pk = ''A''
             then Inr \<lparr> acc_delegate = Some ''DELEGATE'', acc_delegatedAmount = 500,
                        acc_amount = 300 \<rparr>
             else if pk = ''B''
             then Inr \<lparr> acc_delegate = Some ''OTHER'', acc_delegatedAmount = 7,
                        acc_amount = 7 \<rparr>
             else if pk = ''C''
             then Inr \<lparr> acc_delegate = (if w < 10 then None else Some ''DELEGATE''),
                        acc_delegatedAmount = 40, acc_amount = 90 \<rparr>
             else if pk = ''Z''
             then Inr \<lparr> acc_delegate = Some ''DELEGATE'', acc_delegatedAmount = 25,
                        acc_amount = 0 \<rparr>
             else Inl ''timeout'', Suc w)),
       getParsedTokenAccountsByOwner =
         (\<lambda>url dest m w. (if m = ''USDC'' then Inr [''DESTUSDC''] else Inr [], Suc w)),
       getLatestBlockhash = (\<lambda>url w. (Inr ''hash'', Suc w)),
       sendRawTransaction = (\<lambda>url tx w. (Inr ''settled'', Suc w)),
       confirmTransaction = (\<lambda>url sig w. (Inr (), Suc w)) \<rparr>"

definition exVerifierConfig :: "string option \<Rightarrow> verifierConfig" where
  "exVerifierConfig addr =
     (\<lambda>n. if n = ''mainnet-beta''
          then Some \<lparr> v_rpcUrl = ''https://rpc'', delegateAddress = addr \<rparr>
          else None)"

definition exTransferConfig :: "string \<Rightarrow> transferConfig" where
  "exTransferConfig key =
     (\<lambda>n. if n = ''mainnet-beta''
          then Some \<lparr> t_rpcUrl = ''https://rpc'', delegatePrivateKey = Some key,
                      destinationAddress = Some ''DEST'' \<rparr>
          else None)"

definition exGrant :: "string \<Rightarrow> approvalDetail" where
  "exGrant acct =
     \<lparr> tokenAccount = acct, mint = ''USDC'', amount = ''1000'', decimals = 6, symbol = None \<rparr>"

definition exDoc :: "nat \<Rightarrow> string \<Rightarrow> string list \<Rightarrow> approvalDoc" where
  "exDoc i sig accts =
     insertedDoc i ''OWNER'' ''DELEGATE'' (map exGrant accts) sig ''mainnet-beta'' 0"

section \<open>The collection under a cycle's writes\<close>

lemma applySet_doc_id [simp]: "doc_id (applySet s d) = doc_id d"
  by (simp add: applySet_def)

lemma updateOne_ids [simp]: "map doc_id (updateOne flt s st) = map doc_id st"
  by (induction st) auto

lemma updateOne_length [simp]: "length (updateOne flt s st) = length st"
  by (induction st) auto

lemma updateOne_split:
  "\<forall>x\<in>set pre. doc_id x \<noteq> k \<Longrightarrow> doc_id d = k \<Longrightarrow>
   updateOne (\<lambda>d. doc_id d = k) s (pre @ d # post) = pre @ applySet s d # post"
  by (induction pre) auto

lemma updateOne_nth:
  "distinct (map doc_id st) \<Longrightarrow> i < length st \<Longrightarrow> doc_id (st ! i) = k \<Longrightarrow>
   updateOne (\<lambda>d. doc_id d = k) s st = st[i := applySet s (st ! i)]"
proof (induction st arbitrary: i)
  case Nil
  then show ?case by simp
next
  case (Cons d ds)
  show ?case
  proof (cases i)
    case 0
    with Cons.prems show ?thesis by simp
  next
    case (Suc j)
    with Cons.prems have "doc_id d \<noteq> k" by (auto simp: image_iff)
    with Cons Suc show ?thesis by simp
  qed
qed

lemma distinct_ids_nth_eq:
  "distinct (map doc_id st) \<Longrightarrow> i < length st \<Longrightarrow> j < length st \<Longrightarrow>
   doc_id (st ! i) = doc_id (st ! j) \<Longrightarrow> i = j"
  by (metis distinct_conv_nth length_map nth_map)

text \<open>The writes of one cycle, applied in order.\<close>

lemma writes_nth:
  assumes "distinct (map doc_id st)" and "distinct (map (\<lambda>p. doc_id (fst p)) ws)"
    and "fst ` set ws \<subseteq> set st" and "i < length st"
  shows "length (foldl (\<lambda>st (a, s). updateOne (\<lambda>d. doc_id d = doc_id a) s st) st ws) = length st \<and>
     ((foldl (\<lambda>st (a, s). updateOne (\<lambda>d. doc_id d = doc_id a) s st) st ws ! i = st ! i \<and>
       st ! i \<notin> fst ` set ws) \<or>
      (\<exists>s. (st ! i, s) \<in> set ws \<and>
        foldl (\<lambda>st (a, s). updateOne (\<lambda>d. doc_id d = doc_id a) s st) st ws ! i =
          applySet s (st ! i)))"
  using assms
proof (induction ws arbitrary: st)
  case Nil
  then show ?case by simp
next
  case (Cons p ws)
  obtain a s where p: "p = (a, s)" by (cases p)
  let ?F = "\<lambda>st (a, s). updateOne (\<lambda>d. doc_id d = doc_id a) s st"
  from Cons.prems p have "a \<in> set st" by auto
  then obtain j where j: "j < length st" "st ! j = a" by (auto simp: in_set_conv_nth)
  let ?st = "st[j := applySet s a]"
  have upd: "updateOne (\<lambda>d. doc_id d = doc_id a) s st = ?st"
    using updateOne_nth [OF Cons.prems(1) j(1), of "doc_id a" s] j by simp
  have ids: "map doc_id ?st = map doc_id st"
    using upd updateOne_ids [of "\<lambda>d. doc_id d = doc_id a" s st] by simp
  have notin: "\<forall>q\<in>set ws. doc_id (fst q) \<noteq> doc_id a"
    using Cons.prems(2) p by (auto simp: image_iff)
  have sub: "fst ` set ws \<subseteq> set ?st"
  proof
    fix x assume x: "x \<in> fst ` set ws"
    with Cons.prems(3) have "x \<in> set st" by auto
    then obtain k where k: "k < length st" "st ! k = x" by (auto simp: in_set_conv_nth)
    from x notin have "doc_id x \<noteq> doc_id a" by auto
    with k j have "k \<noteq> j" by auto
    with k have "?st ! k = x" by simp
    with k show "x \<in> set ?st" by (metis length_list_update nth_mem)
  qed
  have IH: "length (foldl ?F ?st ws) = length ?st \<and>
     ((foldl ?F ?st ws ! i = ?st ! i \<and> ?st ! i \<notin> fst ` set ws) \<or>
      (\<exists>s. (?st ! i, s) \<in> set ws \<and> foldl ?F ?st ws ! i = applySet s (?st ! i)))"
    using Cons.IH [of ?st] Cons.prems ids sub by simp
  have fold: "foldl ?F st (p # ws) = foldl ?F ?st ws"
    using upd p by simp
  show ?case
  proof (cases "i = j")
    case True
    have "?st ! i \<notin> fst ` set ws"
    proof
      assume "?st ! i \<in> fst ` set ws"
      then obtain q where "q \<in> set ws" "fst q = ?st ! i" by auto
      with notin True j show False by (metis applySet_doc_id nth_list_update_eq)
    qed
    with IH have "foldl ?F ?st ws ! i = ?st ! i" by (force simp: image_iff)
    with True j p fold IH show ?thesis by auto
  next
    case False
    then have same: "?st ! i = st ! i" by simp
    have "st ! i \<noteq> a"
      using False j Cons.prems(1,4) distinct_ids_nth_eq [of st i j] by auto
    with IH same fold p show ?thesis by auto
  qed
qed

lemma verifyLoop_writes:
  "distinct (map doc_id as) \<Longrightarrow>
   \<exists>ws. fst (verifyLoop L R C as (st, w)) =
          foldl (\<lambda>st (a, s). updateOne (\<lambda>d. doc_id d = doc_id a) s st) st ws \<and>
        fst ` set ws \<subseteq> set as \<and> distinct (map (\<lambda>p. doc_id (fst p)) ws) \<and>
        (\<forall>(a, s)\<in>set ws. \<exists>w0 w1. verifyApprovalData L R C a w0 = Inr (Some s, w1))"
proof (induction as arbitrary: st w)
  case Nil
  show ?case by (rule exI [of _ "[]"]) simp
next
  case (Cons a as)
  show ?case
  proof (cases "verifyApprovalData L R C a w")
    case (Inl e)
    show ?thesis by (rule exI [of _ "[]"]) (simp add: Inl)
  next
    case (Inr r)
    obtain upd w' where r: "r = (upd, w')" by (cases r)
    show ?thesis
    proof (cases upd)
      case None
      from Cons.prems have d: "distinct (map doc_id as)" by simp
      from Cons.IH [OF d, of st w'] obtain ws where
        "fst (verifyLoop L R C as (st, w')) =
           foldl (\<lambda>st (a, s). updateOne (\<lambda>d. doc_id d = doc_id a) s st) st ws"
        "fst ` set ws \<subseteq> set as" "distinct (map (\<lambda>p. doc_id (fst p)) ws)"
        "\<forall>(a, s)\<in>set ws. \<exists>w0 w1. verifyApprovalData L R C a w0 = Inr (Some s, w1)"
        by blast
      then show ?thesis
        by (intro exI [of _ ws]) (auto simp: Inr r None)
    next
      case (Some s)
      let ?st = "updateOne (\<lambda>d. doc_id d = doc_id a) s st"
      from Cons.prems have d: "distinct (map doc_id as)" by simp
      from Cons.IH [OF d, of ?st w'] obtain ws where ws:
        "fst (verifyLoop L R C as (?st, w')) =
           foldl (\<lambda>st (a, s). updateOne (\<lambda>d. doc_id d = doc_id a) s st) ?st ws"
        "fst ` set ws \<subseteq> set as" "distinct (map (\<lambda>p. doc_id (fst p)) ws)"
        "\<forall>(a, s)\<in>set ws. \<exists>w0 w1. verifyApprovalData L R C a w0 = Inr (Some s, w1)"
        by blast
      have "doc_id a \<notin> (\<lambda>p. doc_id (fst p)) ` set ws"
        using ws(2) Cons.prems by (auto simp: image_iff)
      moreover have "\<exists>w0 w1. verifyApprovalData L R C a w0 = Inr (Some s, w1)"
        using Inr r Some by blast
      ultimately show ?thesis
        using ws by (intro exI [of _ "(a, s) # ws"]) (auto simp: Inr r Some)
    qed
  qed
qed

section \<open>The verifier, one document at a time\<close>

lemma verifyApprovalData_fetch:
  assumes "network a = Some nw" and "nw \<noteq> []" and "C nw = Some conf"
    and "delegateToCheck conf a = Some ds" and "ds \<noteq> []"
    and "newConnection L (v_rpcUrl conf) = Inr u" and "newPublicKey L ds = Inr pk"
  shows "verifyApprovalData L R C a w =
     Inr (Some (fst (verifyTransaction L R (v_rpcUrl conf) pk a w)),
          snd (verifyTransaction L R (v_rpcUrl conf) pk a w))"
  using assms by (simp add: verifyApprovalData_def truthy_def split: prod.splits)

lemma verifyApprovalData_no_delegate:
  assumes "network a = Some nw" and "C nw = Some conf" and "\<not> truthy (delegateToCheck conf a)"
  shows "verifyApprovalData L R C a w = Inr (None, w)"
  using assms by (simp add: verifyApprovalData_def)

lemma verifyTransaction_delegate_irrelevant:
  "verifyTransaction L R url pk (a\<lparr>delegate := x\<rparr>) w = verifyTransaction L R url pk a w"
  by (simp add: verifyTransaction_def split: prod.splits sum.splits option.splits)

lemma verifyApprovalData_delegate_irrelevant:
  assumes "network a = Some nw" and "C nw = Some conf" and "truthy (delegateAddress conf)"
  shows "verifyApprovalData L R C (a\<lparr>delegate := x\<rparr>) w = verifyApprovalData L R C a w"
  using assms
  by (simp add: verifyApprovalData_def delegateToCheck_def verifyTransaction_delegate_irrelevant
        split: option.splits sum.splits)

lemma verifyApproval_verified_iff:
  "vr_verified (fst (verifyApproval L R url pk g w)) =
     (\<exists>tpk info w'. newPublicKey L (tokenAccount g) = Inr tpk \<and>
        getAccount R url tpk w = (Inr info, w') \<and> acc_delegate info = Some pk \<and>
        0 < acc_delegatedAmount info)"
  by (auto simp: verifyApproval_def Let_def split: sum.splits prod.splits option.splits)

lemma verifyTransaction_error:
  "getTransaction R url (transactionSignature a) w = (Inl e, w1) \<Longrightarrow>
   verifyTransaction L R url pk a w =
     (setExecuted (dateNow R w1) (''Transaction fetch error: '' @ e), w1)"
  by (simp add: verifyTransaction_def)

lemma verifyTransaction_missing:
  "getTransaction R url (transactionSignature a) w = (Inr None, w1) \<Longrightarrow>
   verifyTransaction L R url pk a w =
     (setExecuted (dateNow R w1) ''Transaction not found on-chain'', w1)"
  by (simp add: verifyTransaction_def)

lemma verifyTransaction_failed:
  "getTransaction R url (transactionSignature a) w = (Inr (Some t), w1) \<Longrightarrow>
   meta t = None \<or> (\<exists>m. meta t = Some m \<and> err m \<noteq> None) \<Longrightarrow>
   verifyTransaction L R url pk a w = (setExecuted (dateNow R w1) (failedReason t), w1)"
  by (auto simp: verifyTransaction_def)

lemma verifyTransaction_grants:
  "getTransaction R url (transactionSignature a) w = (Inr (Some t), w1) \<Longrightarrow>
   meta t = Some m \<Longrightarrow> err m = None \<Longrightarrow>
   verifyApprovalList L R url pk (approvals a) (True, []) w1 = ((allVerified, results), w2) \<Longrightarrow>
   verifyTransaction L R url pk a w =
     (if allVerified then setVerified (dateNow R w2) results
      else setUnverified (dateNow R w2) results, w2)"
  by (simp add: verifyTransaction_def)

lemma lifecycle_setExecuted:
  "verified d \<noteq> Some True \<Longrightarrow> transferred d \<noteq> Some True \<Longrightarrow>
   lifecycleState (applySet (setExecuted now why) d) = VerificationFailed"
  by (simp add: lifecycleState_def applySet_def setExecuted_def emptySet_def orElse_def)

lemma setExecuted_fields:
  "executed (applySet (setExecuted now why) d) = Some True \<and>
   executedAt (applySet (setExecuted now why) d) = Some now \<and>
   reason (applySet (setExecuted now why) d) = Some why \<and>
   verified (applySet (setExecuted now why) d) = verified d \<and>
   verifiedAt (applySet (setExecuted now why) d) = verifiedAt d \<and>
   verificationResults (applySet (setExecuted now why) d) = verificationResults d \<and>
   transferred (applySet (setExecuted now why) d) = transferred d"
  by (simp add: applySet_def setExecuted_def emptySet_def orElse_def)



lemma verifyApproval_failing_condition:
  "newPublicKey L (tokenAccount g) = Inr tpk \<Longrightarrow> getAccount R url tpk w = (Inr info, w') \<Longrightarrow>
   \<not> (acc_delegate info = Some pk \<and> 0 < acc_delegatedAmount info) \<Longrightarrow>
   verifyApproval L R url pk g w =
     (\<lparr> vr_tokenAccount = tokenAccount g, vr_verified = False, vr_delegatedAmount = None,
        vr_reason = Some (if acc_delegate info = Some pk then ''No allowance set''
                          else ''Delegate not set'') \<rparr>, w')"
  by (auto simp: verifyApproval_def Let_def split: option.splits)

lemma verifyApproval_throws:
  "newPublicKey L (tokenAccount g) = Inr tpk \<Longrightarrow> getAccount R url tpk w = (Inl e, w') \<Longrightarrow>
   verifyApproval L R url pk g w =
     (\<lparr> vr_tokenAccount = tokenAccount g, vr_verified = False, vr_delegatedAmount = None,
        vr_reason = Some e \<rparr>, w')"
  by (simp add: verifyApproval_def)



lemma verifyApprovalList_append:
  "verifyApprovalList L R url pk (xs @ ys) acc w =
     (case verifyApprovalList L R url pk xs acc w of
        (acc', w') \<Rightarrow> verifyApprovalList L R url pk ys acc' w')"
proof (induction xs arbitrary: acc w)
  case Nil
  show ?case by simp
next
  case (Cons g gs)
  obtain b rs where acc: "acc = (b, rs)" by (cases acc)
  show ?case
    by (simp add: acc Cons.IH split: prod.splits)
qed

lemma verifyApprovalList_results:
  "\<exists>new. snd (fst (verifyApprovalList L R url pk gs (b, rs) w)) = rs @ new \<and>
     fst (fst (verifyApprovalList L R url pk gs (b, rs) w)) = (b \<and> list_all vr_verified new) \<and>
     list_all2 (\<lambda>g r. \<exists>wi. r = fst (verifyApproval L R url pk g wi)) gs new"
proof (induction gs arbitrary: b rs w)
  case Nil
  show ?case by simp
next
  case (Cons g gs)
  obtain r w' where step: "verifyApproval L R url pk g w = (r, w')"
    by (cases "verifyApproval L R url pk g w")
  let ?b = "if vr_verified r then b else False"
  from Cons.IH [of ?b "rs @ [r]" w'] obtain new where new:
    "snd (fst (verifyApprovalList L R url pk gs (?b, rs @ [r]) w')) = (rs @ [r]) @ new"
    "fst (fst (verifyApprovalList L R url pk gs (?b, rs @ [r]) w')) =
       (?b \<and> list_all vr_verified new)"
    "list_all2 (\<lambda>g r. \<exists>wi. r = fst (verifyApproval L R url pk g wi)) gs new"
    by blast
  have "r = fst (verifyApproval L R url pk g w)" using step by simp
  then have "\<exists>wi. r = fst (verifyApproval L R url pk g wi)" by blast
  with new show ?case
    by (intro exI [of _ "r # new"]) (auto simp: step)
qed

lemma verifyApprovalList_false:
  "fst (fst (verifyApprovalList L R url pk gs (False, rs) w)) = False"
  using verifyApprovalList_results [of L R url pk gs False rs w] by auto




lemma lifecycle_setUnverified:
  "verifyQuery d \<Longrightarrow> transferred d \<noteq> Some True \<Longrightarrow>
   lifecycleState (applySet (setUnverified now rs) d) = VerificationFailed"
  by (simp add: lifecycleState_def applySet_def setUnverified_def emptySet_def orElse_def
      verifyQuery_def)

lemma setUnverified_fields:
  "verified (applySet (setUnverified now rs) d) = Some False \<and>
   verifiedAt (applySet (setUnverified now rs) d) = Some now \<and>
   verificationResults (applySet (setUnverified now rs) d) = Some rs \<and>
   reason (applySet (setUnverified now rs) d) = Some ''Some approvals failed verification'' \<and>
   executed (applySet (setUnverified now rs) d) = executed d \<and>
   transferred (applySet (setUnverified now rs) d) = transferred d"
  by (simp add: applySet_def setUnverified_def emptySet_def orElse_def)

lemma verifyApprovalList_throwing_grant:
  assumes "verifyApprovalList L R url pk before (True, []) w1 = (acc, wi)"
    and "newPublicKey L (tokenAccount g) = Inr tpk"
    and "getAccount R url tpk wi = (Inl e, wj)"
  shows "\<exists>results w2.
     verifyApprovalList L R url pk (before @ g # after) (True, []) w1 = ((False, results), w2) \<and>
     \<lparr> vr_tokenAccount = tokenAccount g, vr_verified = False, vr_delegatedAmount = None,
       vr_reason = Some e \<rparr> \<in> set results"
proof -
  let ?r = "\<lparr> vr_tokenAccount = tokenAccount g, vr_verified = False,
              vr_delegatedAmount = None, vr_reason = Some e \<rparr>"
  obtain b rs where acc: "acc = (b, rs)" by (cases acc)
  have step: "verifyApproval L R url pk g wi = (?r, wj)"
    using assms(2,3) by (rule verifyApproval_throws)
  have eq: "verifyApprovalList L R url pk (before @ g # after) (True, []) w1 =
      verifyApprovalList L R url pk after (False, rs @ [?r]) wj"
    by (simp add: verifyApprovalList_append assms(1) acc step)
  obtain b' results w2 where res:
    "verifyApprovalList L R url pk after (False, rs @ [?r]) wj = ((b', results), w2)"
    by (metis surj_pair)
  from verifyApprovalList_false [of L R url pk after "rs @ [?r]" wj] res
  have "b' = False" by simp
  moreover from verifyApprovalList_results [of L R url pk after False "rs @ [?r]" wj] res
  have "?r \<in> set results" by auto
  ultimately show ?thesis using eq res by simp
qed

section \<open>The transfer script, one grant and one document at a time\<close>

lemma transferApproval_instruction:
  assumes "transferApproval L R url pk dest g w = ((r, Some ins), w')"
  shows "\<exists>tpk info w1. newPublicKey L (tokenAccount g) = Inr tpk \<and>
     getAccount R url tpk w = (Inr info, w1) \<and> acc_delegate info = Some pk \<and>
     ti_source ins = tpk \<and> ti_authority ins = pk \<and>
     ti_amount ins = min (acc_delegatedAmount info) (acc_amount info) \<and>
     0 < ti_amount ins \<and> tr_success r \<and>
     tr_amount r = Some (toString_bigint (ti_amount ins))"
  using assms
  by (auto simp: transferApproval_def failedTransfer_def Let_def min_def
      split: sum.splits prod.splits option.splits if_splits list.splits)

lemma transferApproval_zero:
  assumes "newPublicKey L (tokenAccount g) = Inr tpk"
    and "getAccount R url tpk w = (Inr info, w1)"
    and "min (acc_delegatedAmount info) (acc_amount info) = 0"
  shows "transferApproval L R url pk dest g w =
     ((failedTransfer (tokenAccount g)
         (if acc_delegate info \<noteq> Some pk then ''Delegate not set''
          else if acc_delegatedAmount info = 0 then ''No delegated amount''
          else ''No balance to transfer''), None), w1)"
  using assms
  by (auto simp: transferApproval_def Let_def min_def split: option.splits if_splits)

lemma transferApproval_no_destination:
  assumes "newPublicKey L (tokenAccount g) = Inr tpk"
    and "getAccount R url tpk w = (Inr info, w1)"
    and "acc_delegate info = Some pk"
    and "0 < min (acc_delegatedAmount info) (acc_amount info)"
    and "newPublicKey L (mint g) = Inr mpk"
    and "getParsedTokenAccountsByOwner R url dest mpk w1 = (Inr [], w2)"
  shows "transferApproval L R url pk dest g w =
     ((failedTransfer (tokenAccount g) ''Destination token account not found'', None), w2)"
  using assms
  by (auto simp: transferApproval_def Let_def min_def split: option.splits if_splits)

lemma transferApproval_failed:
  "transferApproval L R url pk dest g w = ((r, None), w') \<Longrightarrow>
   \<not> tr_success r \<and> tr_reason r \<noteq> None \<and> tr_tokenAccount r = tokenAccount g"
  by (auto simp: transferApproval_def failedTransfer_def Let_def
      split: sum.splits prod.splits option.splits if_splits list.splits)

lemma transferApprovalList_batch:
  "transferApprovalList L R url pk dest gs (rs, bs) w = ((results, batch), w') \<Longrightarrow>
   \<exists>new. batch = bs @ new \<and>
     (\<forall>ins\<in>set new. \<exists>g\<in>set gs. \<exists>wi r wj.
        transferApproval L R url pk dest g wi = ((r, Some ins), wj))"
proof (induction gs arbitrary: rs bs w)
  case Nil
  then show ?case by simp
next
  case (Cons g gs)
  obtain r i w1 where step: "transferApproval L R url pk dest g w = ((r, i), w1)"
    by (metis surj_pair)
  show ?case
  proof (cases i)
    case None
    with Cons.prems step
    have "transferApprovalList L R url pk dest gs (rs @ [r], bs) w1 = ((results, batch), w')"
      by simp
    from Cons.IH [OF this] show ?thesis by auto
  next
    case (Some ins)
    with Cons.prems step
    have "transferApprovalList L R url pk dest gs (rs @ [r], bs @ [ins]) w1 =
        ((results, batch), w')"
      by simp
    from Cons.IH [OF this] obtain new where new: "batch = (bs @ [ins]) @ new"
      "\<forall>ins\<in>set new. \<exists>g\<in>set gs. \<exists>wi r wj.
        transferApproval L R url pk dest g wi = ((r, Some ins), wj)"
      by blast
    have "\<exists>wi r wj. transferApproval L R url pk dest g wi = ((r, Some ins), wj)"
      using step Some by blast
    with new show ?thesis
      by (intro exI [of _ "ins # new"]) auto
  qed
qed

lemma distinct_ids_eq:
  "distinct (map doc_id st) \<Longrightarrow> x \<in> set st \<Longrightarrow> y \<in> set st \<Longrightarrow> doc_id x = doc_id y \<Longrightarrow> x = y"
  by (auto simp: distinct_map dest: inj_onD)

lemma transferLoop_sent:
  "set (snd (transferLoop L R C as (sw, sent))) \<subseteq> set sent \<union> {p. fst p \<in> doc_id ` set as}"
proof (induction as arbitrary: sw sent)
  case Nil
  show ?case by simp
next
  case (Cons a as)
  obtain store w where sw: "sw = (store, w)" by (cases sw)
  obtain upd tx w' where step: "transferApprovalData L R C a w = ((upd, tx), w')"
    by (metis surj_pair)
  let ?sw = "((case upd of None \<Rightarrow> store
               | Some s \<Rightarrow> updateOne (\<lambda>d. doc_id d = doc_id a) s store), w')"
  let ?sent = "(case tx of None \<Rightarrow> sent | Some t \<Rightarrow> sent @ [(doc_id a, t)])"
  have "transferLoop L R C (a # as) (sw, sent) = transferLoop L R C as (?sw, ?sent)"
    by (simp add: sw step)
  moreover have "set ?sent \<subseteq> set sent \<union> {p. fst p = doc_id a}"
    by (cases tx) auto
  ultimately show ?case
    using Cons.IH [of ?sw ?sent] by auto
qed

lemma transferApprovalData_skip:
  "\<not> truthy (network a) \<Longrightarrow> transferApprovalData L R C a w = ((None, None), w)"
  "network a = Some nw \<Longrightarrow> C nw = None \<Longrightarrow> transferApprovalData L R C a w = ((None, None), w)"
  "network a = Some nw \<Longrightarrow> C nw = Some conf \<Longrightarrow>
     \<not> truthy (delegatePrivateKey conf) \<or> \<not> truthy (destinationAddress conf) \<Longrightarrow>
     transferApprovalData L R C a w = ((None, None), w)"
  by (auto simp: transferApprovalData_def split: option.splits)

lemma transferApprovalData_mismatch:
  "network a = Some nw \<Longrightarrow> C nw = Some conf \<Longrightarrow> delegatePrivateKey conf = Some key \<Longrightarrow>
   getKeypairFromPrivateKey L key = Inr kp \<Longrightarrow> Some (publicKey kp) \<noteq> delegate a \<Longrightarrow>
   transferApprovalData L R C a w = ((None, None), w)"
  by (auto simp: transferApprovalData_def split: option.splits)

lemma transferApprovalData_invalid_key:
  "network a = Some nw \<Longrightarrow> nw \<noteq> [] \<Longrightarrow> C nw = Some conf \<Longrightarrow>
   delegatePrivateKey conf = Some key \<Longrightarrow> key \<noteq> [] \<Longrightarrow> truthy (destinationAddress conf) \<Longrightarrow>
   getKeypairFromPrivateKey L key = Inl e \<Longrightarrow>
   transferApprovalData L R C a w =
     ((Some (setExecuted (dateNow R w) (''Transfer error: '' @ e)), None), w)"
  by (auto simp: transferApprovalData_def truthy_def split: option.splits)

lemma getKeypairFromPrivateKey_error:
  "getKeypairFromPrivateKey L key = Inl e \<Longrightarrow>
   e = ''Invalid private key format. Use base64 encoded 64-byte secret key or JSON array.''"
  by (auto simp: getKeypairFromPrivateKey_def Let_def split: option.splits if_splits)

lemma applySet_flags:
  "(set_executed s = Some b \<longrightarrow> executed (applySet s d) = Some b) \<and>
   (set_verified s = Some b \<longrightarrow> verified (applySet s d) = Some b) \<and>
   (set_transferred s = Some b \<longrightarrow> transferred (applySet s d) = Some b)"
  by (simp add: applySet_def orElse_def)

section \<open>A whole cycle, document by document\<close>

lemma transferLoop_writes:
  "distinct (map doc_id as) \<Longrightarrow>
   \<exists>ws. fst (fst (transferLoop L R T as ((st, w), sent))) =
          foldl (\<lambda>st (a, s). updateOne (\<lambda>d. doc_id d = doc_id a) s st) st ws \<and>
        fst ` set ws \<subseteq> set as \<and> distinct (map (\<lambda>p. doc_id (fst p)) ws) \<and>
        (\<forall>(a, s)\<in>set ws. \<exists>w0 tx w1. transferApprovalData L R T a w0 = ((Some s, tx), w1))"
proof (induction as arbitrary: st w sent)
  case Nil
  show ?case by (rule exI [of _ "[]"]) simp
next
  case (Cons a as)
  from Cons.prems have d: "distinct (map doc_id as)" by simp
  obtain upd tx w' where step: "transferApprovalData L R T a w = ((upd, tx), w')"
    by (metis surj_pair)
  let ?sent = "(case tx of None \<Rightarrow> sent | Some t \<Rightarrow> sent @ [(doc_id a, t)])"
  show ?case
  proof (cases upd)
    case None
    from Cons.IH [OF d, of st w' ?sent] obtain ws where
      "fst (fst (transferLoop L R T as ((st, w'), ?sent))) =
         foldl (\<lambda>st (a, s). updateOne (\<lambda>d. doc_id d = doc_id a) s st) st ws"
      "fst ` set ws \<subseteq> set as" "distinct (map (\<lambda>p. doc_id (fst p)) ws)"
      "\<forall>(a, s)\<in>set ws. \<exists>w0 tx w1. transferApprovalData L R T a w0 = ((Some s, tx), w1)"
      by blast
    then show ?thesis
      by (intro exI [of _ ws]) (auto simp: step None)
  next
    case (Some s)
    let ?st = "updateOne (\<lambda>d. doc_id d = doc_id a) s st"
    from Cons.IH [OF d, of ?st w' ?sent] obtain ws where ws:
      "fst (fst (transferLoop L R T as ((?st, w'), ?sent))) =
         foldl (\<lambda>st (a, s). updateOne (\<lambda>d. doc_id d = doc_id a) s st) ?st ws"
      "fst ` set ws \<subseteq> set as" "distinct (map (\<lambda>p. doc_id (fst p)) ws)"
      "\<forall>(a, s)\<in>set ws. \<exists>w0 tx w1. transferApprovalData L R T a w0 = ((Some s, tx), w1)"
      by blast
    have "doc_id a \<notin> (\<lambda>p. doc_id (fst p)) ` set ws"
      using ws(2) Cons.prems by (auto simp: image_iff)
    moreover have "\<exists>w0 tx w1. transferApprovalData L R T a w0 = ((Some s, tx), w1)"
      using step Some by blast
    ultimately show ?thesis
      using ws by (intro exI [of _ "(a, s) # ws"]) (auto simp: step Some)
  qed
qed

lemma verifySolanaApprovals_nth:
  assumes "distinct (map doc_id store)" and "i < length store"
  shows "length (fst (verifySolanaApprovals L R C (store, w))) = length store \<and>
     (fst (verifySolanaApprovals L R C (store, w)) ! i = store ! i \<or>
      (verifyQuery (store ! i) \<and>
       (\<exists>s w0 w1. verifyApprovalData L R C (store ! i) w0 = Inr (Some s, w1) \<and>
          fst (verifySolanaApprovals L R C (store, w)) ! i = applySet s (store ! i))))"
proof (cases "filter verifyQuery store = []")
  case True
  then show ?thesis by (simp add: verifySolanaApprovals_def)
next
  case False
  let ?as = "filter verifyQuery store"
  have run: "fst (verifySolanaApprovals L R C (store, w)) = fst (verifyLoop L R C ?as (store, w))"
    using False by (simp add: verifySolanaApprovals_def)
  have das: "distinct (map doc_id ?as)"
    using assms(1) by (rule distinct_map_filter)
  from verifyLoop_writes [OF das, of L R C store w] obtain ws where ws:
    "fst (verifyLoop L R C ?as (store, w)) =
       foldl (\<lambda>st (a, s). updateOne (\<lambda>d. doc_id d = doc_id a) s st) store ws"
    "fst ` set ws \<subseteq> set ?as" "distinct (map (\<lambda>p. doc_id (fst p)) ws)"
    "\<forall>(a, s)\<in>set ws. \<exists>w0 w1. verifyApprovalData L R C a w0 = Inr (Some s, w1)"
    by blast
  from ws(2) have sub: "fst ` set ws \<subseteq> set store" by auto
  from writes_nth [OF assms(1) ws(3) sub assms(2)] ws(1) run
  have len: "length (fst (verifySolanaApprovals L R C (store, w))) = length store"
    and cases: "(fst (verifySolanaApprovals L R C (store, w)) ! i = store ! i \<and>
         store ! i \<notin> fst ` set ws) \<or>
      (\<exists>s. (store ! i, s) \<in> set ws \<and>
         fst (verifySolanaApprovals L R C (store, w)) ! i = applySet s (store ! i))"
    by simp_all
  from cases show ?thesis
  proof
    assume "fst (verifySolanaApprovals L R C (store, w)) ! i = store ! i \<and>
         store ! i \<notin> fst ` set ws"
    with len show ?thesis by simp
  next
    assume "\<exists>s. (store ! i, s) \<in> set ws \<and>
         fst (verifySolanaApprovals L R C (store, w)) ! i = applySet s (store ! i)"
    then obtain s where s: "(store ! i, s) \<in> set ws"
      "fst (verifySolanaApprovals L R C (store, w)) ! i = applySet s (store ! i)" by blast
    from s(1) ws(2) have "verifyQuery (store ! i)" by force
    moreover from s(1) ws(4)
    have "\<exists>w0 w1. verifyApprovalData L R C (store ! i) w0 = Inr (Some s, w1)" by auto
    ultimately show ?thesis using len s(2) by blast
  qed
qed

lemma transferApprovedTokens_nth:
  assumes "distinct (map doc_id store)" and "i < length store"
  shows "length (fst (fst (transferApprovedTokens L R T (store, w)))) = length store \<and>
     (fst (fst (transferApprovedTokens L R T (store, w))) ! i = store ! i \<or>
      (transferQuery (store ! i) \<and>
       (\<exists>s w0 tx w1. transferApprovalData L R T (store ! i) w0 = ((Some s, tx), w1) \<and>
          fst (fst (transferApprovedTokens L R T (store, w))) ! i = applySet s (store ! i))))"
proof (cases "filter transferQuery store = []")
  case True
  then show ?thesis by (simp add: transferApprovedTokens_def)
next
  case False
  let ?as = "filter transferQuery store"
  let ?res = "fst (fst (transferApprovedTokens L R T (store, w)))"
  have run: "?res = fst (fst (transferLoop L R T ?as ((store, w), [])))"
    using False by (simp add: transferApprovedTokens_def)
  have das: "distinct (map doc_id ?as)"
    using assms(1) by (rule distinct_map_filter)
  from transferLoop_writes [OF das, of L R T store w "[]"] obtain ws where ws:
    "fst (fst (transferLoop L R T ?as ((store, w), []))) =
       foldl (\<lambda>st (a, s). updateOne (\<lambda>d. doc_id d = doc_id a) s st) store ws"
    "fst ` set ws \<subseteq> set ?as" "distinct (map (\<lambda>p. doc_id (fst p)) ws)"
    "\<forall>(a, s)\<in>set ws. \<exists>w0 tx w1. transferApprovalData L R T a w0 = ((Some s, tx), w1)"
    by blast
  from ws(2) have sub: "fst ` set ws \<subseteq> set store" by auto
  from writes_nth [OF assms(1) ws(3) sub assms(2)] ws(1) run
  have len: "length ?res = length store"
    and cases: "(?res ! i = store ! i \<and> store ! i \<notin> fst ` set ws) \<or>
      (\<exists>s. (store ! i, s) \<in> set ws \<and> ?res ! i = applySet s (store ! i))"
    by simp_all
  from cases show ?thesis
  proof
    assume "?res ! i = store ! i \<and> store ! i \<notin> fst ` set ws"
    with len show ?thesis by simp
  next
    assume "\<exists>s. (store ! i, s) \<in> set ws \<and> ?res ! i = applySet s (store ! i)"
    then obtain s where s: "(store ! i, s) \<in> set ws" "?res ! i = applySet s (store ! i)"
      by blast
    from s(1) ws(2) have "transferQuery (store ! i)" by force
    moreover from s(1) ws(4)
    have "\<exists>w0 tx w1. transferApprovalData L R T (store ! i) w0 = ((Some s, tx), w1)" by auto
    ultimately show ?thesis using len s(2) by blast
  qed
qed

lemma verifyApprovalData_writes:
  "verifyApprovalData L R C a w = Inr (Some s, w') \<Longrightarrow>
   (\<exists>now why. s = setExecuted now why) \<or> (\<exists>now rs. s = setVerified now rs) \<or>
   (\<exists>now rs. s = setUnverified now rs)"
  by (auto simp: verifyApprovalData_def verifyTransaction_def
      split: option.splits sum.splits prod.splits if_splits)

lemma transferBatch_writes:
  "transferBatch L R url kp dest a w = ((s, tx), w') \<Longrightarrow>
   (\<exists>now why. s = setExecuted now why) \<or> (\<exists>now rs. s = setNothingToTransfer now rs) \<or>
   (\<exists>now sig rs. s = setTransferred now sig rs)"
  by (simp add: transferBatch_def Let_def
      split: option.splits sum.splits prod.splits if_splits; blast)

lemma transferApprovalData_writes:
  "transferApprovalData L R T a w = ((Some s, tx), w') \<Longrightarrow>
   (\<exists>now why. s = setExecuted now why) \<or> (\<exists>now rs. s = setNothingToTransfer now rs) \<or>
   (\<exists>now sig rs. s = setTransferred now sig rs)"
  by (auto simp: transferApprovalData_def dest: transferBatch_writes
      split: option.splits sum.splits prod.splits if_splits)

lemma verifier_edges:
  assumes "verifyQuery d" and "verifyApprovalData L R C d w = Inr (Some s, w')"
  shows "lifecycleState (applySet s d) = lifecycleState d \<or>
     (lifecycleState d, lifecycleState (applySet s d)) \<in>
       {(Submitted, Verified), (Submitted, VerificationFailed), (VerificationFailed, Verified)}"
  using verifyApprovalData_writes [OF assms(2)] assms(1)
  by (auto simp: verifyQuery_def lifecycleState_def applySet_def orElse_def setExecuted_def
      setVerified_def setUnverified_def emptySet_def)

lemma transfer_edges:
  assumes "transferQuery d" and "transferApprovalData L R T d w = ((Some s, tx), w')"
  shows "(lifecycleState d, lifecycleState (applySet s d)) \<in>
       {(Verified, Transferred), (Verified, TransferFailed)}"
  using transferApprovalData_writes [OF assms(2)] assms(1)
  by (auto simp: transferQuery_def lifecycleState_def applySet_def orElse_def setExecuted_def
      setNothingToTransfer_def setTransferred_def emptySet_def)

section \<open>The record a loop is at\<close>

lemma updateOne_other:
  "j < length st \<Longrightarrow> doc_id (st ! j) \<noteq> k \<Longrightarrow> updateOne (\<lambda>d. doc_id d = k) s st ! j = st ! j"
proof (induction st arbitrary: j)
  case Nil
  then show ?case by simp
next
  case (Cons d ds)
  then show ?case by (cases j) auto
qed

lemma nth_doc_id:
  "map doc_id st' = map doc_id st \<Longrightarrow> j < length st \<Longrightarrow> doc_id (st' ! j) = doc_id (st ! j)"
  by (metis length_map nth_map)

lemma verifyLoop_ids:
  "map doc_id (fst (verifyLoop L R C as (st, w))) = map doc_id st"
proof (induction as arbitrary: st w)
  case Nil
  show ?case by simp
next
  case (Cons a as)
  show ?case
    by (cases "verifyApprovalData L R C a w") (auto simp: Cons.IH split: option.splits)
qed

lemma verifyLoop_frame:
  "j < length st \<Longrightarrow> doc_id (st ! j) \<notin> doc_id ` set as \<Longrightarrow>
   fst (verifyLoop L R C as (st, w)) ! j = st ! j"
proof (induction as arbitrary: st w)
  case Nil
  show ?case by simp
next
  case (Cons a as)
  from Cons.prems have ne: "doc_id (st ! j) \<noteq> doc_id a"
    and rest: "doc_id (st ! j) \<notin> doc_id ` set as" by auto
  show ?case
  proof (cases "verifyApprovalData L R C a w")
    case (Inl e)
    then show ?thesis by simp
  next
    case (Inr r)
    obtain upd w' where r: "r = (upd, w')" by (cases r)
    show ?thesis
    proof (cases upd)
      case None
      with Inr r Cons.IH [OF Cons.prems(1) rest, of w'] show ?thesis by simp
    next
      case (Some s)
      let ?st = "updateOne (\<lambda>d. doc_id d = doc_id a) s st"
      have same: "?st ! j = st ! j"
        using Cons.prems(1) ne by (rule updateOne_other)
      have "fst (verifyLoop L R C as (?st, w')) ! j = ?st ! j"
        using Cons.IH [of ?st w'] Cons.prems(1) rest same by simp
      with Inr r Some same show ?thesis by simp
    qed
  qed
qed

lemma verifyLoop_head_write:
  assumes "verifyApprovalData L R C a w = Inr (Some s, w')"
    and "distinct (map doc_id st)" and "j < length st" and "doc_id (st ! j) = doc_id a"
    and "doc_id a \<notin> doc_id ` set rest"
  shows "length (fst (verifyLoop L R C (a # rest) (st, w))) = length st \<and>
     fst (verifyLoop L R C (a # rest) (st, w)) ! j = applySet s (st ! j)"
proof -
  let ?st = "updateOne (\<lambda>d. doc_id d = doc_id a) s st"
  have upd: "?st = st[j := applySet s (st ! j)]"
    using assms(2,3,4) by (rule updateOne_nth)
  have step: "verifyLoop L R C (a # rest) (st, w) = verifyLoop L R C rest (?st, w')"
    using assms(1) by simp
  have at: "?st ! j = applySet s (st ! j)"
    using upd assms(3) by simp
  have "doc_id (?st ! j) \<notin> doc_id ` set rest"
    using at assms(4,5) by simp
  then have "fst (verifyLoop L R C rest (?st, w')) ! j = ?st ! j"
    using assms(3) by (intro verifyLoop_frame) simp_all
  moreover have "length (fst (verifyLoop L R C rest (?st, w'))) = length st"
    using verifyLoop_ids [of L R C rest ?st w'] by (metis length_map updateOne_length)
  ultimately show ?thesis using step at by simp
qed

lemma verifySolanaApprovals_first:
  assumes "distinct (map doc_id store)" and "filter verifyQuery store = a # rest"
    and "j < length store" and "store ! j = a"
    and "verifyApprovalData L R C a w = Inr (Some s, w')"
  shows "length (fst (verifySolanaApprovals L R C (store, w))) = length store \<and>
     fst (verifySolanaApprovals L R C (store, w)) ! j = applySet s a"
proof -
  have "distinct (map doc_id (filter verifyQuery store))"
    using assms(1) by (rule distinct_map_filter)
  with assms(2) have notin: "doc_id a \<notin> doc_id ` set rest" by simp
  have run: "verifySolanaApprovals L R C (store, w) = verifyLoop L R C (a # rest) (store, w)"
    using assms(2) by (simp add: verifySolanaApprovals_def)
  from verifyLoop_head_write [OF assms(5,1,3) _ notin] assms(4) run
  show ?thesis by simp
qed

lemma transferLoop_ids:
  "map doc_id (fst (fst (transferLoop L R T as ((st, w), sent)))) = map doc_id st"
proof (induction as arbitrary: st w sent)
  case Nil
  show ?case by simp
next
  case (Cons a as)
  show ?case
    by (cases "transferApprovalData L R T a w") (auto simp: Cons.IH split: option.splits)
qed

lemma transferLoop_frame:
  "j < length st \<Longrightarrow> doc_id (st ! j) \<notin> doc_id ` set as \<Longrightarrow>
   fst (fst (transferLoop L R T as ((st, w), sent))) ! j = st ! j"
proof (induction as arbitrary: st w sent)
  case Nil
  show ?case by simp
next
  case (Cons a as)
  from Cons.prems have ne: "doc_id (st ! j) \<noteq> doc_id a"
    and rest: "doc_id (st ! j) \<notin> doc_id ` set as" by auto
  obtain upd tx w' where step: "transferApprovalData L R T a w = ((upd, tx), w')"
    by (metis surj_pair)
  let ?sent = "(case tx of None \<Rightarrow> sent | Some t \<Rightarrow> sent @ [(doc_id a, t)])"
  show ?case
  proof (cases upd)
    case None
    with step Cons.IH [OF Cons.prems(1) rest, where w = w' and sent = ?sent] show ?thesis by simp
  next
    case (Some s)
    let ?st = "updateOne (\<lambda>d. doc_id d = doc_id a) s st"
    have same: "?st ! j = st ! j"
      using Cons.prems(1) ne by (rule updateOne_other)
    have "fst (fst (transferLoop L R T as ((?st, w'), ?sent))) ! j = ?st ! j"
      using Cons.IH [where st = ?st and w = w' and sent = ?sent] Cons.prems(1) rest same by simp
    with step Some same show ?thesis by simp
  qed
qed

lemma transferLoop_sent_kept:
  "set sent \<subseteq> set (snd (transferLoop L R T as (sw, sent)))"
proof (induction as arbitrary: sw sent)
  case Nil
  show ?case by simp
next
  case (Cons a as)
  obtain store w where sw: "sw = (store, w)" by (cases sw)
  obtain upd tx w' where step: "transferApprovalData L R T a w = ((upd, tx), w')"
    by (metis surj_pair)
  let ?sw = "((case upd of None \<Rightarrow> store
               | Some s \<Rightarrow> updateOne (\<lambda>d. doc_id d = doc_id a) s store), w')"
  let ?sent = "(case tx of None \<Rightarrow> sent | Some t \<Rightarrow> sent @ [(doc_id a, t)])"
  have "transferLoop L R T (a # as) (sw, sent) = transferLoop L R T as (?sw, ?sent)"
    by (simp add: sw step)
  moreover have "set sent \<subseteq> set ?sent" by (cases tx) auto
  ultimately show ?case using Cons.IH [where sw = ?sw and sent = ?sent] by auto
qed

lemma transferLoop_head_write:
  assumes "transferApprovalData L R T a w = ((Some s, tx), w')"
    and "distinct (map doc_id st)" and "j < length st" and "doc_id (st ! j) = doc_id a"
    and "doc_id a \<notin> doc_id ` set rest"
  shows "length (fst (fst (transferLoop L R T (a # rest) ((st, w), sent)))) = length st \<and>
     fst (fst (transferLoop L R T (a # rest) ((st, w), sent))) ! j = applySet s (st ! j) \<and>
     (\<forall>t. tx = Some t \<longrightarrow>
        (doc_id a, t) \<in> set (snd (transferLoop L R T (a # rest) ((st, w), sent))))"
proof -
  let ?st = "updateOne (\<lambda>d. doc_id d = doc_id a) s st"
  let ?sent = "(case tx of None \<Rightarrow> sent | Some t \<Rightarrow> sent @ [(doc_id a, t)])"
  have upd: "?st = st[j := applySet s (st ! j)]"
    using assms(2,3,4) by (rule updateOne_nth)
  have step: "transferLoop L R T (a # rest) ((st, w), sent) =
      transferLoop L R T rest ((?st, w'), ?sent)"
    using assms(1) by simp
  have at: "?st ! j = applySet s (st ! j)"
    using upd assms(3) by simp
  have "doc_id (?st ! j) \<notin> doc_id ` set rest"
    using at assms(4,5) by simp
  then have "fst (fst (transferLoop L R T rest ((?st, w'), ?sent))) ! j = ?st ! j"
    using assms(3) by (intro transferLoop_frame) simp_all
  moreover have "length (fst (fst (transferLoop L R T rest ((?st, w'), ?sent)))) = length st"
    using transferLoop_ids [of L R T rest ?st w' ?sent] by (metis length_map updateOne_length)
  moreover have "(doc_id a, t) \<in> set (snd (transferLoop L R T rest ((?st, w'), ?sent)))"
    if "tx = Some t" for t
    using transferLoop_sent_kept [where sent = ?sent and L = L and R = R and T = T
        and as = rest and sw = "(?st, w')"] that by auto
  ultimately show ?thesis using step at by simp
qed

lemma transferApprovedTokens_first:
  assumes "distinct (map doc_id store)" and "filter transferQuery store = a # rest"
    and "j < length store" and "store ! j = a"
    and "transferApprovalData L R T a w = ((Some s, tx), w')"
  shows "length (fst (fst (transferApprovedTokens L R T (store, w)))) = length store \<and>
     fst (fst (transferApprovedTokens L R T (store, w))) ! j = applySet s a \<and>
     (\<forall>t. tx = Some t \<longrightarrow> (doc_id a, t) \<in> set (snd (transferApprovedTokens L R T (store, w))))"
proof -
  have "distinct (map doc_id (filter transferQuery store))"
    using assms(1) by (rule distinct_map_filter)
  with assms(2) have notin: "doc_id a \<notin> doc_id ` set rest" by simp
  have run: "transferApprovedTokens L R T (store, w) =
      transferLoop L R T (a # rest) ((store, w), [])"
    using assms(2) by (simp add: transferApprovedTokens_def)
  from transferLoop_head_write [OF assms(5,1,3) _ notin, where sent = "[]"] assms(4) run
  show ?thesis by simp
qed


lemma verifyApproval_wrong_delegate:
  "newPublicKey L (tokenAccount g) = Inr tpk \<Longrightarrow> getAccount R url tpk w = (Inr info, w') \<Longrightarrow>
   acc_delegate info \<noteq> Some pk \<Longrightarrow>
   verifyApproval L R url pk g w =
     (\<lparr> vr_tokenAccount = tokenAccount g, vr_verified = False, vr_delegatedAmount = None,
        vr_reason = Some ''Delegate not set'' \<rparr>, w')"
  using verifyApproval_failing_condition [of L g tpk R url w info w' pk] by simp

lemma transferApproval_tokenAccount:
  "tr_tokenAccount (fst (fst (transferApproval L R url pk dest g w))) = tokenAccount g"
  by (simp add: transferApproval_def failedTransfer_def Let_def
      split: sum.splits prod.splits option.splits list.splits)

lemma transferApprovalList_append:
  "transferApprovalList L R url pk dest (xs @ ys) acc w =
     (case transferApprovalList L R url pk dest xs acc w of
        (acc', w') \<Rightarrow> transferApprovalList L R url pk dest ys acc' w')"
proof (induction xs arbitrary: acc w)
  case Nil
  show ?case by simp
next
  case (Cons g gs)
  obtain rs bs where acc: "acc = (rs, bs)" by (cases acc)
  show ?case
    by (simp add: acc Cons.IH split: prod.splits option.splits)
qed

lemma transferApprovalList_extends:
  "transferApprovalList L R url pk dest gs (rs, bs) w = ((results, batch), w') \<Longrightarrow>
   (\<exists>rs1. results = rs @ rs1 \<and> map tr_tokenAccount rs1 = map tokenAccount gs) \<and>
   (\<exists>bs1. batch = bs @ bs1)"
proof (induction gs arbitrary: rs bs w)
  case Nil
  then show ?case by simp
next
  case (Cons g gs)
  obtain r i w1 where step: "transferApproval L R url pk dest g w = ((r, i), w1)"
    by (metis surj_pair)
  have tok: "tr_tokenAccount r = tokenAccount g"
    using transferApproval_tokenAccount [of L R url pk dest g w] step by simp
  let ?bs = "bs @ (case i of None \<Rightarrow> [] | Some ins \<Rightarrow> [ins])"
  have "transferApprovalList L R url pk dest gs (rs @ [r], ?bs) w1 = ((results, batch), w')"
    using Cons.prems step by (cases i) simp_all
  from Cons.IH [OF this] obtain rs1 bs1 where
    "results = (rs @ [r]) @ rs1" "map tr_tokenAccount rs1 = map tokenAccount gs"
    "batch = ?bs @ bs1"
    by blast
  with tok show ?case
    by (intro conjI exI [of _ "r # rs1"]
        exI [of _ "(case i of None \<Rightarrow> [] | Some ins \<Rightarrow> [ins]) @ bs1"]) simp_all
qed

lemma transferApprovalList_batch_at:
  "transferApprovalList L R url pk dest gs ([], []) w = ((results, batch), w') \<Longrightarrow>
   \<forall>ins\<in>set batch. \<exists>before g after rs bs wi r wj.
      gs = before @ g # after \<and>
      transferApprovalList L R url pk dest before ([], []) w = ((rs, bs), wi) \<and>
      transferApproval L R url pk dest g wi = ((r, Some ins), wj)"
proof (induction gs arbitrary: results batch w' rule: rev_induct)
  case Nil
  then show ?case by simp
next
  case (snoc g gs)
  obtain rs bs wi where pre: "transferApprovalList L R url pk dest gs ([], []) w = ((rs, bs), wi)"
    by (metis surj_pair)
  obtain r i wj where step: "transferApproval L R url pk dest g wi = ((r, i), wj)"
    by (metis surj_pair)
  have last: "batch = bs @ (case i of None \<Rightarrow> [] | Some ins \<Rightarrow> [ins])"
    using snoc.prems pre step by (cases i) (simp_all add: transferApprovalList_append)
  show ?case
  proof
    fix ins assume "ins \<in> set batch"
    with last have "ins \<in> set bs \<or> i = Some ins" by (cases i) auto
    then show "\<exists>before g' after rs bs wi r wj.
      gs @ [g] = before @ g' # after \<and>
      transferApprovalList L R url pk dest before ([], []) w = ((rs, bs), wi) \<and>
      transferApproval L R url pk dest g' wi = ((r, Some ins), wj)"
    proof
      assume "ins \<in> set bs"
      with snoc.IH [OF pre] obtain before g' after rs' bs' wi' r' wj' where
        "gs = before @ g' # after"
        "transferApprovalList L R url pk dest before ([], []) w = ((rs', bs'), wi')"
        "transferApproval L R url pk dest g' wi' = ((r', Some ins), wj')"
        by blast
      then show ?thesis
        by (intro exI [of _ before] exI [of _ g'] exI [of _ "after @ [g]"] exI [of _ rs']
            exI [of _ bs'] exI [of _ wi'] exI [of _ r'] exI [of _ wj']) simp
    next
      assume "i = Some ins"
      with pre step show ?thesis
        by (intro exI [of _ gs] exI [of _ g] exI [of _ "[]"] exI [of _ rs]
            exI [of _ bs] exI [of _ wi] exI [of _ r] exI [of _ wj]) simp
    qed
  qed
qed

lemma transferApprovalList_at:
  assumes "gs = before @ g # after"
    and "transferApprovalList L R url pk dest before ([], []) w = ((rs, bs), wi)"
    and "transferApproval L R url pk dest g wi = ((r, i), wj)"
    and "transferApprovalList L R url pk dest gs ([], []) w = ((results, batch), w')"
  shows "transferApprovalList L R url pk dest gs ([], []) w =
       transferApprovalList L R url pk dest after
         (rs @ [r], bs @ (case i of None \<Rightarrow> [] | Some ins \<Rightarrow> [ins])) wj \<and>
     r \<in> set results \<and> (\<forall>ins. i = Some ins \<longrightarrow> ins \<in> set batch)"
proof -
  have eq: "transferApprovalList L R url pk dest gs ([], []) w =
       transferApprovalList L R url pk dest after
         (rs @ [r], bs @ (case i of None \<Rightarrow> [] | Some ins \<Rightarrow> [ins])) wj"
    using assms(1-3) by (cases i) (simp_all add: transferApprovalList_append)
  with assms(4) have "transferApprovalList L R url pk dest after
         (rs @ [r], bs @ (case i of None \<Rightarrow> [] | Some ins \<Rightarrow> [ins])) wj = ((results, batch), w')"
    by simp
  from transferApprovalList_extends [OF this] have "r \<in> set results"
    and "\<forall>ins. i = Some ins \<longrightarrow> ins \<in> set batch" by auto
  with eq show ?thesis by simp
qed

lemma transferApprovalData_batch:
  assumes "network a = Some nw" and "nw \<noteq> []" and "T nw = Some conf"
    and "delegatePrivateKey conf = Some key" and "key \<noteq> []"
    and "destinationAddress conf = Some destination" and "destination \<noteq> []"
    and "getKeypairFromPrivateKey L key = Inr kp" and "delegate a = Some (publicKey kp)"
  shows "transferApprovalData L R T a w =
     ((Some (fst (fst (transferBatch L R (t_rpcUrl conf) kp destination a w))),
       snd (fst (transferBatch L R (t_rpcUrl conf) kp destination a w))),
      snd (transferBatch L R (t_rpcUrl conf) kp destination a w))"
  using assms by (simp add: transferApprovalData_def truthy_def split: prod.splits)

lemma transferBatch_empty:
  assumes "newConnection L url = Inr u" and "newPublicKey L destination = Inr dest"
    and "newPublicKey L (owner a) = Inr opk"
    and "transferApprovalList L R url (publicKey kp) dest (approvals a) ([], []) w =
           ((results, []), w1)"
  shows "transferBatch L R url kp destination a w =
     ((setNothingToTransfer (dateNow R w1) results, None), w1)"
  using assms by (simp add: transferBatch_def)

lemma transferBatch_confirmed:
  assumes "newConnection L url = Inr u" and "newPublicKey L destination = Inr dest"
    and "newPublicKey L (owner a) = Inr opk"
    and "transferApprovalList L R url (publicKey kp) dest (approvals a) ([], []) w =
           ((results, batch), w1)"
    and "batch \<noteq> []" and "getLatestBlockhash R url w1 = (Inr blockhash, w2)"
    and "sendRawTransaction R url
           \<lparr> instructions = batch, recentBlockhash = blockhash, feePayer = publicKey kp,
             signer = kp \<rparr> w2 = (Inr signature, w3)"
    and "confirmTransaction R url signature w3 = (Inr c, w4)"
  shows "transferBatch L R url kp destination a w =
     ((setTransferred (dateNow R w4) signature results,
       Some \<lparr> instructions = batch, recentBlockhash = blockhash, feePayer = publicKey kp,
              signer = kp \<rparr>), w4)"
  using assms by (simp add: transferBatch_def Let_def)

lemma transfer_results_stored:
  "transferred (applySet (setTransferred now sig rs) d) = Some True \<and>
   transferredAt (applySet (setTransferred now sig rs) d) = Some now \<and>
   transferTransactionSignature (applySet (setTransferred now sig rs) d) = Some sig \<and>
   transferResults (applySet (setTransferred now sig rs) d) = Some rs \<and>
   transferred (applySet (setNothingToTransfer now rs) d) = Some True \<and>
   transferredAt (applySet (setNothingToTransfer now rs) d) = Some now \<and>
   transferResults (applySet (setNothingToTransfer now rs) d) = Some rs \<and>
   reason (applySet (setNothingToTransfer now rs) d) = Some ''No valid transfers to execute''"
  by (simp add: applySet_def setTransferred_def setNothingToTransfer_def emptySet_def orElse_def)

lemma transferApproval_zero_record:
  assumes "newPublicKey L (tokenAccount g) = Inr tpk"
    and "getAccount R url tpk w = (Inr info, w1)"
    and "min (acc_delegatedAmount info) (acc_amount info) = 0"
  shows "transferApproval L R url pk dest g w =
     ((\<lparr> tr_tokenAccount = tokenAccount g, tr_mint = None, tr_amount = None,
         tr_success = False,
         tr_reason = Some (if acc_delegate info \<noteq> Some pk then ''Delegate not set''
                           else if acc_delegatedAmount info = 0 then ''No delegated amount''
                           else ''No balance to transfer'') \<rparr>, None), w1)"
  using transferApproval_zero [OF assms, of pk dest] by (simp add: failedTransfer_def)

lemma transferApproval_no_destination_record:
  assumes "newPublicKey L (tokenAccount g) = Inr tpk"
    and "getAccount R url tpk w = (Inr info, w1)"
    and "acc_delegate info = Some pk"
    and "0 < min (acc_delegatedAmount info) (acc_amount info)"
    and "newPublicKey L (mint g) = Inr mpk"
    and "getParsedTokenAccountsByOwner R url dest mpk w1 = (Inr [], w2)"
  shows "transferApproval L R url pk dest g w =
     ((\<lparr> tr_tokenAccount = tokenAccount g, tr_mint = None, tr_amount = None,
         tr_success = False, tr_reason = Some ''Destination token account not found'' \<rparr>,
       None), w2)"
  using transferApproval_no_destination [OF assms] by (simp add: failedTransfer_def)

lemma transferApproval_included:
  assumes "newPublicKey L (tokenAccount g) = Inr tpk"
    and "getAccount R url tpk w = (Inr info, w1)"
    and "acc_delegate info = Some pk"
    and "0 < min (acc_delegatedAmount info) (acc_amount info)"
    and "newPublicKey L (mint g) = Inr mpk"
    and "getParsedTokenAccountsByOwner R url dest mpk w1 = (Inr (d1 # others), w2)"
  shows "transferApproval L R url pk dest g w =
     ((\<lparr> tr_tokenAccount = tokenAccount g, tr_mint = Some (mint g),
         tr_amount = Some (toString_bigint (min (acc_delegatedAmount info) (acc_amount info))),
         tr_success = True, tr_reason = None \<rparr>,
       Some \<lparr> ti_source = tpk, ti_destination = d1, ti_authority = pk,
              ti_amount = min (acc_delegatedAmount info) (acc_amount info) \<rparr>), w2)"
  using assms
  by (auto simp: transferApproval_def Let_def min_def split: option.splits if_splits)

section \<open>The claims\<close>

text \<open>
  C10. For a record whose network is configured: when the configuration supplies a
  non-empty delegate address, that address is the one to check and the record's \<open>delegate\<close>
  field has no influence on the outcome; when it supplies none, the record's \<open>delegate\<close> is
  the one to check. With \<open>pk\<close> the public key made from the address to check, and the claim
  transaction found and succeeded, the verifier writes \<open>verified: true\<close> exactly when all
  grant results are verified, and each result is the one \<open>verifyApproval\<close> gives for \<open>pk\<close>:
  it is verified exactly when the token account can be read, its on-chain delegate equals
  \<open>pk\<close> and its delegated amount is above zero, and a readable account with another delegate
  gives the failed result \<open>Delegate not set\<close>. If neither address is present the record is
  skipped: nothing is written, the loop goes on with the next record, and a cycle that
  selected only this record leaves the collection and the world as they were.
\<close>

theorem C10_delegate_to_check:
  assumes "network a = Some nw" and "nw \<noteq> []" and "C nw = Some conf"
  shows
   "(delegateAddress conf = Some ds \<and> ds \<noteq> [] \<longrightarrow>
       delegateToCheck conf a = Some ds \<and>
       verifyApprovalData L R C (a\<lparr>delegate := x\<rparr>) w = verifyApprovalData L R C a w) \<and>
    (\<not> truthy (delegateAddress conf) \<longrightarrow> delegateToCheck conf a = delegate a) \<and>
    (delegateToCheck conf a = Some ds \<and> ds \<noteq> [] \<and>
     newConnection L (v_rpcUrl conf) = Inr u \<and> newPublicKey L ds = Inr pk \<and>
     getTransaction R (v_rpcUrl conf) (transactionSignature a) w = (Inr (Some t), w1) \<and>
     meta t = Some m \<and> err m = None \<and>
     verifyApprovalList L R (v_rpcUrl conf) pk (approvals a) (True, []) w1 =
       ((allVerified, results), w2) \<longrightarrow>
       verifyApprovalData L R C a w =
         Inr (Some (if list_all vr_verified results then setVerified (dateNow R w2) results
                    else setUnverified (dateNow R w2) results), w2) \<and>
       verifyLoop L R C (a # rest) (st, w) =
         verifyLoop L R C rest
           (updateOne (\<lambda>d. doc_id d = doc_id a)
              (if list_all vr_verified results then setVerified (dateNow R w2) results
               else setUnverified (dateNow R w2) results) st, w2) \<and>
       list_all2 (\<lambda>g r. \<exists>wi. r = fst (verifyApproval L R (v_rpcUrl conf) pk g wi) \<and>
                    vr_verified r =
                      (\<exists>tpk info w'. newPublicKey L (tokenAccount g) = Inr tpk \<and>
                         getAccount R (v_rpcUrl conf) tpk wi = (Inr info, w') \<and>
                         acc_delegate info = Some pk \<and> 0 < acc_delegatedAmount info))
         (approvals a) results) \<and>
    vr_verified (fst (verifyApproval L R url pk g wi)) =
      (\<exists>tpk info w'. newPublicKey L (tokenAccount g) = Inr tpk \<and>
         getAccount R url tpk wi = (Inr info, w') \<and>
         acc_delegate info = Some pk \<and> 0 < acc_delegatedAmount info) \<and>
    (newPublicKey L (tokenAccount g) = Inr tpk \<and> getAccount R url tpk wi = (Inr info, wj) \<and>
     acc_delegate info \<noteq> Some pk \<longrightarrow>
       verifyApproval L R url pk g wi =
         (\<lparr> vr_tokenAccount = tokenAccount g, vr_verified = False, vr_delegatedAmount = None,
            vr_reason = Some ''Delegate not set'' \<rparr>, wj)) \<and>
    (\<not> truthy (delegateAddress conf) \<and> \<not> truthy (delegate a) \<longrightarrow>
       verifyApprovalData L R C a w = Inr (None, w) \<and>
       verifyLoop L R C (a # rest) (st, w) = verifyLoop L R C rest (st, w) \<and>
       (filter verifyQuery st = [a] \<longrightarrow> verifySolanaApprovals L R C (st, w) = (st, w)))"
proof -
  have configured: "delegateToCheck conf a = Some ds \<and>
       verifyApprovalData L R C (a\<lparr>delegate := x\<rparr>) w = verifyApprovalData L R C a w"
    if "delegateAddress conf = Some ds" "ds \<noteq> []"
  proof -
    from that have t: "truthy (delegateAddress conf)" by (simp add: truthy_def)
    from verifyApprovalData_delegate_irrelevant [OF assms(1) _ t, where C = C] assms(3) that t
    show ?thesis by (simp add: delegateToCheck_def)
  qed
  have stored: "\<not> truthy (delegateAddress conf) \<Longrightarrow> delegateToCheck conf a = delegate a"
    by (simp add: delegateToCheck_def)
  have chain: "verifyApprovalData L R C a w =
         Inr (Some (if list_all vr_verified results then setVerified (dateNow R w2) results
                    else setUnverified (dateNow R w2) results), w2) \<and>
       verifyLoop L R C (a # rest) (st, w) =
         verifyLoop L R C rest
           (updateOne (\<lambda>d. doc_id d = doc_id a)
              (if list_all vr_verified results then setVerified (dateNow R w2) results
               else setUnverified (dateNow R w2) results) st, w2) \<and>
       list_all2 (\<lambda>g r. \<exists>wi. r = fst (verifyApproval L R (v_rpcUrl conf) pk g wi) \<and>
                    vr_verified r =
                      (\<exists>tpk info w'. newPublicKey L (tokenAccount g) = Inr tpk \<and>
                         getAccount R (v_rpcUrl conf) tpk wi = (Inr info, w') \<and>
                         acc_delegate info = Some pk \<and> 0 < acc_delegatedAmount info))
         (approvals a) results"
    if d: "delegateToCheck conf a = Some ds" "ds \<noteq> []"
      and l: "newConnection L (v_rpcUrl conf) = Inr u" "newPublicKey L ds = Inr pk"
      and t: "getTransaction R (v_rpcUrl conf) (transactionSignature a) w = (Inr (Some t), w1)"
        "meta t = Some m" "err m = None"
      and run: "verifyApprovalList L R (v_rpcUrl conf) pk (approvals a) (True, []) w1 =
         ((allVerified, results), w2)"
  proof -
    from verifyApprovalList_results [of L R "v_rpcUrl conf" pk "approvals a" True "[]" w1] run
    have all: "allVerified = list_all vr_verified results"
      and each: "list_all2 (\<lambda>g r. \<exists>wi. r = fst (verifyApproval L R (v_rpcUrl conf) pk g wi))
                   (approvals a) results"
      by auto
    have "verifyTransaction L R (v_rpcUrl conf) pk a w =
        (if allVerified then setVerified (dateNow R w2) results
         else setUnverified (dateNow R w2) results, w2)"
      using t run by (rule verifyTransaction_grants)
    moreover have "verifyApprovalData L R C a w =
       Inr (Some (fst (verifyTransaction L R (v_rpcUrl conf) pk a w)),
            snd (verifyTransaction L R (v_rpcUrl conf) pk a w))"
      using assms d l by (rule verifyApprovalData_fetch)
    ultimately have decision: "verifyApprovalData L R C a w =
         Inr (Some (if list_all vr_verified results then setVerified (dateNow R w2) results
                    else setUnverified (dateNow R w2) results), w2)"
      using all by simp
    have compared: "list_all2 (\<lambda>g r. \<exists>wi. r = fst (verifyApproval L R (v_rpcUrl conf) pk g wi) \<and>
                    vr_verified r =
                      (\<exists>tpk info w'. newPublicKey L (tokenAccount g) = Inr tpk \<and>
                         getAccount R (v_rpcUrl conf) tpk wi = (Inr info, w') \<and>
                         acc_delegate info = Some pk \<and> 0 < acc_delegatedAmount info))
         (approvals a) results"
    proof (rule list_all2_mono [OF each])
      fix y r assume "\<exists>wi. r = fst (verifyApproval L R (v_rpcUrl conf) pk y wi)"
      then obtain wi where r: "r = fst (verifyApproval L R (v_rpcUrl conf) pk y wi)" by blast
      with verifyApproval_verified_iff [of L R "v_rpcUrl conf" pk y wi]
      show "\<exists>wi. r = fst (verifyApproval L R (v_rpcUrl conf) pk y wi) \<and>
                    vr_verified r =
                      (\<exists>tpk info w'. newPublicKey L (tokenAccount y) = Inr tpk \<and>
                         getAccount R (v_rpcUrl conf) tpk wi = (Inr info, w') \<and>
                         acc_delegate info = Some pk \<and> 0 < acc_delegatedAmount info)"
        by (intro exI [of _ wi]) simp
    qed
    from decision compared show ?thesis by simp
  qed
  have skip: "verifyApprovalData L R C a w = Inr (None, w) \<and>
       verifyLoop L R C (a # rest) (st, w) = verifyLoop L R C rest (st, w) \<and>
       (filter verifyQuery st = [a] \<longrightarrow> verifySolanaApprovals L R C (st, w) = (st, w))"
    if "\<not> truthy (delegateAddress conf)" "\<not> truthy (delegate a)"
  proof -
    have "verifyApprovalData L R C a w = Inr (None, w)"
      using assms(1,3) that by (intro verifyApprovalData_no_delegate) (auto simp: delegateToCheck_def)
    then show ?thesis by (simp add: verifySolanaApprovals_def)
  qed
  show ?thesis
    using configured stored chain skip verifyApproval_verified_iff [of L R url pk g wi]
      verifyApproval_wrong_delegate [of L g tpk R url wi info wj pk]
    by blast
qed

theorem C10_delegate_to_check_witness:
  "verifyApprovalData exLib exRpc (exVerifierConfig (Some ''DELEGATE''))
       ((exDoc 1 ''sigOK'' [''A''])\<lparr>delegate := Some ''OTHER''\<rparr>) 0 =
     Inr (Some (setVerified 1002
            [\<lparr> vr_tokenAccount = ''A'', vr_verified = True,
               vr_delegatedAmount = Some (toString_bigint 500), vr_reason = None \<rparr>]), 2) \<and>
   verifyApprovalData exLib exRpc (exVerifierConfig (Some ''DELEGATE''))
       ((exDoc 2 ''sigOK'' [''B''])\<lparr>delegate := Some ''OTHER''\<rparr>) 0 =
     Inr (Some (setUnverified 1002
            [\<lparr> vr_tokenAccount = ''B'', vr_verified = False, vr_delegatedAmount = None,
               vr_reason = Some ''Delegate not set'' \<rparr>]), 2) \<and>
   verifyApprovalData exLib exRpc (exVerifierConfig None)
       ((exDoc 2 ''sigOK'' [''B''])\<lparr>delegate := Some ''OTHER''\<rparr>) 0 =
     Inr (Some (setVerified 1002
            [\<lparr> vr_tokenAccount = ''B'', vr_verified = True,
               vr_delegatedAmount = Some (toString_bigint 7), vr_reason = None \<rparr>]), 2) \<and>
   verifySolanaApprovals exLib exRpc (exVerifierConfig None)
       ([(exDoc 3 ''sigOK'' [''A''])\<lparr>delegate := None\<rparr>], 0) =
     ([(exDoc 3 ''sigOK'' [''A''])\<lparr>delegate := None\<rparr>], 0)"
proof -
  let ?t = "\<lparr> meta = Some \<lparr> err = None \<rparr> \<rparr>"
  let ?rA = "\<lparr> vr_tokenAccount = ''A'', vr_verified = True,
               vr_delegatedAmount = Some (toString_bigint 500), vr_reason = None \<rparr>"
  let ?rB = "\<lparr> vr_tokenAccount = ''B'', vr_verified = False, vr_delegatedAmount = None,
               vr_reason = Some ''Delegate not set'' \<rparr>"
  let ?rB' = "\<lparr> vr_tokenAccount = ''B'', vr_verified = True,
               vr_delegatedAmount = Some (toString_bigint 7), vr_reason = None \<rparr>"
  have w1: "verifyApprovalData exLib exRpc (exVerifierConfig (Some ''DELEGATE''))
       ((exDoc 1 ''sigOK'' [''A''])\<lparr>delegate := Some ''OTHER''\<rparr>) 0 =
     Inr (Some (setVerified 1002 [?rA]), 2)"
    using C10_delegate_to_check [where a = "(exDoc 1 ''sigOK'' [''A''])\<lparr>delegate := Some ''OTHER''\<rparr>"
      and nw = "''mainnet-beta''" and C = "exVerifierConfig (Some ''DELEGATE'')"
      and conf = "\<lparr> v_rpcUrl = ''https://rpc'', delegateAddress = Some ''DELEGATE'' \<rparr>"
      and ds = "''DELEGATE''" and L = exLib and u = "()" and pk = "''DELEGATE''"
      and R = exRpc and w = 0 and ?w1.0 = 1 and ?w2.0 = 2 and t = ?t and m = "\<lparr> err = None \<rparr>"
      and allVerified = True and results = "[?rA]"]
    by (simp add: exVerifierConfig_def exDoc_def insertedDoc_def exGrant_def truthy_def
        delegateToCheck_def exLib_def exRpc_def verifyApproval_def)
  have w2: "verifyApprovalData exLib exRpc (exVerifierConfig (Some ''DELEGATE''))
       ((exDoc 2 ''sigOK'' [''B''])\<lparr>delegate := Some ''OTHER''\<rparr>) 0 =
     Inr (Some (setUnverified 1002 [?rB]), 2)"
    using C10_delegate_to_check [where a = "(exDoc 2 ''sigOK'' [''B''])\<lparr>delegate := Some ''OTHER''\<rparr>"
      and nw = "''mainnet-beta''" and C = "exVerifierConfig (Some ''DELEGATE'')"
      and conf = "\<lparr> v_rpcUrl = ''https://rpc'', delegateAddress = Some ''DELEGATE'' \<rparr>"
      and ds = "''DELEGATE''" and L = exLib and u = "()" and pk = "''DELEGATE''"
      and R = exRpc and w = 0 and ?w1.0 = 1 and ?w2.0 = 2 and t = ?t and m = "\<lparr> err = None \<rparr>"
      and allVerified = False and results = "[?rB]"]
    by (simp add: exVerifierConfig_def exDoc_def insertedDoc_def exGrant_def truthy_def
        delegateToCheck_def exLib_def exRpc_def verifyApproval_def)
  have w3: "verifyApprovalData exLib exRpc (exVerifierConfig None)
       ((exDoc 2 ''sigOK'' [''B''])\<lparr>delegate := Some ''OTHER''\<rparr>) 0 =
     Inr (Some (setVerified 1002 [?rB']), 2)"
    using C10_delegate_to_check [where a = "(exDoc 2 ''sigOK'' [''B''])\<lparr>delegate := Some ''OTHER''\<rparr>"
      and nw = "''mainnet-beta''" and C = "exVerifierConfig None"
      and conf = "\<lparr> v_rpcUrl = ''https://rpc'', delegateAddress = None \<rparr>"
      and ds = "''OTHER''" and L = exLib and u = "()" and pk = "''OTHER''"
      and R = exRpc and w = 0 and ?w1.0 = 1 and ?w2.0 = 2 and t = ?t and m = "\<lparr> err = None \<rparr>"
      and allVerified = True and results = "[?rB']"]
    by (simp add: exVerifierConfig_def exDoc_def insertedDoc_def exGrant_def truthy_def
        delegateToCheck_def exLib_def exRpc_def verifyApproval_def)
  have w4: "verifySolanaApprovals exLib exRpc (exVerifierConfig None)
       ([(exDoc 3 ''sigOK'' [''A''])\<lparr>delegate := None\<rparr>], 0) =
     ([(exDoc 3 ''sigOK'' [''A''])\<lparr>delegate := None\<rparr>], 0)"
    using C10_delegate_to_check [where a = "(exDoc 3 ''sigOK'' [''A''])\<lparr>delegate := None\<rparr>"
      and nw = "''mainnet-beta''" and C = "exVerifierConfig None"
      and conf = "\<lparr> v_rpcUrl = ''https://rpc'', delegateAddress = None \<rparr>"
      and L = exLib and R = exRpc and w = 0
      and st = "[(exDoc 3 ''sigOK'' [''A''])\<lparr>delegate := None\<rparr>]"]
    by (simp add: exVerifierConfig_def exDoc_def insertedDoc_def truthy_def verifyQuery_def)
  from w1 w2 w3 w4 show ?thesis by simp
qed

text \<open>
  C7, as the code has it. For a record that reaches the fetch of its claim transaction
  (network configured, a delegate address to check, endpoint and address well-formed): if
  \<open>getTransaction\<close> returns nothing, the verifier's \<open>$set\<close> document \<open>S\<close> is
  \<open>executed: true\<close>, the time, and the reason \<open>Transaction not found on-chain\<close>; if the
  transaction has no \<open>meta\<close> or its \<open>meta.err\<close> is set, \<open>S\<close> is the same with the reason
  \<open>Transaction failed: \<close> followed by the JSON text of the ledger's error (\<open>undefined\<close>
  without \<open>meta\<close>). The loop writes \<open>S\<close> with \<open>updateOne\<close> on the record's \<open>_id\<close> and goes
  on; in a collection with distinct \<open>_id\<close>s the stored record is \<open>S\<close> applied to it when the
  loop ends, and so it is after the whole cycle when the record is the first the query
  selected. The stored record then has \<open>executed\<close> true, the time and the reason, keeps its
  \<open>verified\<close> and \<open>verificationResults\<close>, is no longer selected by the verifier's query, and
  counts as VerificationFailed. No grant is checked: the outcome is the same whatever
  \<open>getAccount\<close> would answer, and the world is the one right after the fetch.
\<close>

theorem C7_claim_transaction_missing_or_failed:
  assumes "network a = Some nw" and "nw \<noteq> []" and "C nw = Some conf"
    and "delegateToCheck conf a = Some ds" and "ds \<noteq> []"
    and "newConnection L (v_rpcUrl conf) = Inr u" and "newPublicKey L ds = Inr pk"
    and "getTransaction R (v_rpcUrl conf) (transactionSignature a) w = (r, w1)"
    and "(r = Inr None \<and> why = ''Transaction not found on-chain'') \<or>
         (\<exists>t. r = Inr (Some t) \<and> (meta t = None \<or> (\<exists>m. meta t = Some m \<and> err m \<noteq> None)) \<and>
              why = failedReason t)"
    and "S = setExecuted (dateNow R w1) why"
  shows
   "verifyApprovalData L (R\<lparr>getAccount := g\<rparr>) C a w = Inr (Some S, w1) \<and>
    verifyApprovalData L R C a w = Inr (Some S, w1) \<and>
    verifyLoop L R C (a # rest) (st, w) =
      verifyLoop L R C rest (updateOne (\<lambda>d. doc_id d = doc_id a) S st, w1) \<and>
    (distinct (map doc_id st) \<and> j < length st \<and> st ! j = a \<and> doc_id a \<notin> doc_id ` set rest \<longrightarrow>
       length (fst (verifyLoop L R C (a # rest) (st, w))) = length st \<and>
       fst (verifyLoop L R C (a # rest) (st, w)) ! j = applySet S a) \<and>
    (distinct (map doc_id st) \<and> j < length st \<and> st ! j = a \<and>
     filter verifyQuery st = a # rest \<longrightarrow>
       length (fst (verifySolanaApprovals L R C (st, w))) = length st \<and>
       fst (verifySolanaApprovals L R C (st, w)) ! j = applySet S a) \<and>
    executed (applySet S a) = Some True \<and>
    executedAt (applySet S a) = Some (dateNow R w1) \<and>
    reason (applySet S a) = Some why \<and>
    verified (applySet S a) = verified a \<and>
    verificationResults (applySet S a) = verificationResults a \<and>
    \<not> verifyQuery (applySet S a) \<and>
    (verifyQuery a \<and> transferred a \<noteq> Some True \<longrightarrow>
       lifecycleState (applySet S a) = VerificationFailed) \<and>
    (meta t = Some m \<and> err m = Some e \<longrightarrow> failedReason t = ''Transaction failed: '' @ e) \<and>
    (meta t = None \<longrightarrow> failedReason t = ''Transaction failed: undefined'')"
proof -
  have fetch: "verifyApprovalData L (R\<lparr>getAccount := g\<rparr>) C a w =
     Inr (Some (fst (verifyTransaction L (R\<lparr>getAccount := g\<rparr>) (v_rpcUrl conf) pk a w)),
          snd (verifyTransaction L (R\<lparr>getAccount := g\<rparr>) (v_rpcUrl conf) pk a w))" for g
    using assms(1-7) by (rule verifyApprovalData_fetch)
  have tx: "verifyTransaction L (R\<lparr>getAccount := g\<rparr>) (v_rpcUrl conf) pk a w = (S, w1)" for g
  proof -
    have get: "getTransaction (R\<lparr>getAccount := g\<rparr>) (v_rpcUrl conf) (transactionSignature a) w =
        (r, w1)"
      using assms(8) by simp
    from assms(9) show ?thesis
    proof
      assume "r = Inr None \<and> why = ''Transaction not found on-chain''"
      with get assms(10) verifyTransaction_missing [of "R\<lparr>getAccount := g\<rparr>" "v_rpcUrl conf" a w w1 L pk]
      show ?thesis by simp
    next
      assume "\<exists>t. r = Inr (Some t) \<and> (meta t = None \<or> (\<exists>m. meta t = Some m \<and> err m \<noteq> None)) \<and>
              why = failedReason t"
      then obtain t where t: "r = Inr (Some t)"
        "meta t = None \<or> (\<exists>m. meta t = Some m \<and> err m \<noteq> None)" "why = failedReason t"
        by blast
      from get t(1) have "getTransaction (R\<lparr>getAccount := g\<rparr>) (v_rpcUrl conf)
          (transactionSignature a) w = (Inr (Some t), w1)" by simp
      from verifyTransaction_failed [OF this t(2), of L pk] t(3) assms(10)
      show ?thesis by simp
    qed
  qed
  have decision_g: "verifyApprovalData L (R\<lparr>getAccount := g\<rparr>) C a w = Inr (Some S, w1)"
    by (simp add: fetch tx)
  have decision: "verifyApprovalData L R C a w = Inr (Some S, w1)"
    using fetch [of "getAccount R"] tx [of "getAccount R"] by simp
  have step: "verifyLoop L R C (a # rest) (st, w) =
      verifyLoop L R C rest (updateOne (\<lambda>d. doc_id d = doc_id a) S st, w1)"
    using decision by simp
  have loop: "length (fst (verifyLoop L R C (a # rest) (st, w))) = length st \<and>
       fst (verifyLoop L R C (a # rest) (st, w)) ! j = applySet S a"
    if "distinct (map doc_id st)" "j < length st" "st ! j = a" "doc_id a \<notin> doc_id ` set rest"
    using verifyLoop_head_write [OF decision that(1,2) _ that(4)] that(3) by simp
  have cycle: "length (fst (verifySolanaApprovals L R C (st, w))) = length st \<and>
       fst (verifySolanaApprovals L R C (st, w)) ! j = applySet S a"
    if "distinct (map doc_id st)" "j < length st" "st ! j = a" "filter verifyQuery st = a # rest"
    using verifySolanaApprovals_first [OF that(1,4,2,3) decision] .
  have fields: "executed (applySet S a) = Some True \<and>
    executedAt (applySet S a) = Some (dateNow R w1) \<and>
    reason (applySet S a) = Some why \<and>
    verified (applySet S a) = verified a \<and>
    verificationResults (applySet S a) = verificationResults a \<and>
    \<not> verifyQuery (applySet S a)"
    using setExecuted_fields [of "dateNow R w1" why a] assms(10)
    by (simp add: verifyQuery_def)
  have life: "lifecycleState (applySet S a) = VerificationFailed"
    if "verifyQuery a" "transferred a \<noteq> Some True"
    using that lifecycle_setExecuted [of a "dateNow R w1" why] assms(10)
    by (simp add: verifyQuery_def)
  have detail: "failedReason t = ''Transaction failed: '' @ e"
    if "meta t = Some m" "err m = Some e"
    using that by (simp add: failedReason_def)
  have nometa: "failedReason t = ''Transaction failed: undefined''" if "meta t = None"
    using that by (simp add: failedReason_def)
  from decision_g decision step loop cycle fields life detail nometa show ?thesis by blast
qed

theorem C7_claim_transaction_missing_or_failed_witness:
  "fst (verifySolanaApprovals exLib exRpc (exVerifierConfig (Some ''DELEGATE''))
          ([exDoc 1 ''gone'' [''A'']], 0)) ! 0 =
     applySet (setExecuted 1001 ''Transaction not found on-chain'') (exDoc 1 ''gone'' [''A'']) \<and>
   reason (applySet (setExecuted 1001 ''Transaction not found on-chain'')
       (exDoc 1 ''gone'' [''A''])) = Some ''Transaction not found on-chain'' \<and>
   lifecycleState (applySet (setExecuted 1001 ''Transaction not found on-chain'')
       (exDoc 1 ''gone'' [''A''])) = VerificationFailed \<and>
   fst (verifySolanaApprovals exLib exRpc (exVerifierConfig (Some ''DELEGATE''))
          ([exDoc 2 ''sigFailed'' [''A'']], 0)) ! 0 =
     applySet (setExecuted 1001
         (''Transaction failed: '' @ CHR 0x22 # ''AccountInUse'' @ [CHR 0x22]))
       (exDoc 2 ''sigFailed'' [''A'']) \<and>
   reason (applySet (setExecuted 1001
         (''Transaction failed: '' @ CHR 0x22 # ''AccountInUse'' @ [CHR 0x22]))
       (exDoc 2 ''sigFailed'' [''A''])) =
     Some (''Transaction failed: '' @ CHR 0x22 # ''AccountInUse'' @ [CHR 0x22])"
proof -
  let ?C = "exVerifierConfig (Some ''DELEGATE'')"
  let ?conf = "\<lparr> v_rpcUrl = ''https://rpc'', delegateAddress = Some ''DELEGATE'' \<rparr>"
  let ?e = "CHR 0x22 # ''AccountInUse'' @ [CHR 0x22]"
  let ?t = "\<lparr> meta = Some \<lparr> err = Some ?e \<rparr> \<rparr>"
  have one:
    "fst (verifySolanaApprovals exLib exRpc ?C ([exDoc 1 ''gone'' [''A'']], 0)) ! 0 =
       applySet (setExecuted 1001 ''Transaction not found on-chain'') (exDoc 1 ''gone'' [''A'']) \<and>
     reason (applySet (setExecuted 1001 ''Transaction not found on-chain'')
       (exDoc 1 ''gone'' [''A''])) = Some ''Transaction not found on-chain'' \<and>
     lifecycleState (applySet (setExecuted 1001 ''Transaction not found on-chain'')
       (exDoc 1 ''gone'' [''A''])) = VerificationFailed"
    using C7_claim_transaction_missing_or_failed [where a = "exDoc 1 ''gone'' [''A'']"
      and nw = "''mainnet-beta''" and C = ?C and conf = ?conf
      and ds = "''DELEGATE''" and L = exLib and u = "()" and pk = "''DELEGATE''"
      and R = exRpc and w = 0 and ?w1.0 = 1 and r = "Inr None"
      and why = "''Transaction not found on-chain''"
      and S = "setExecuted 1001 ''Transaction not found on-chain''"
      and st = "[exDoc 1 ''gone'' [''A'']]" and j = 0 and rest = "[]"]
    by (simp add: exVerifierConfig_def exDoc_def insertedDoc_def truthy_def
        delegateToCheck_def exLib_def exRpc_def verifyQuery_def)
  have two:
    "fst (verifySolanaApprovals exLib exRpc ?C ([exDoc 2 ''sigFailed'' [''A'']], 0)) ! 0 =
       applySet (setExecuted 1001 (''Transaction failed: '' @ ?e)) (exDoc 2 ''sigFailed'' [''A'']) \<and>
     reason (applySet (setExecuted 1001 (''Transaction failed: '' @ ?e))
       (exDoc 2 ''sigFailed'' [''A''])) = Some (''Transaction failed: '' @ ?e)"
    using C7_claim_transaction_missing_or_failed [where a = "exDoc 2 ''sigFailed'' [''A'']"
      and nw = "''mainnet-beta''" and C = ?C and conf = ?conf
      and ds = "''DELEGATE''" and L = exLib and u = "()" and pk = "''DELEGATE''"
      and R = exRpc and w = 0 and ?w1.0 = 1 and r = "Inr (Some ?t)"
      and why = "''Transaction failed: '' @ ?e"
      and S = "setExecuted 1001 (''Transaction failed: '' @ ?e)"
      and st = "[exDoc 2 ''sigFailed'' [''A'']]" and j = 0 and rest = "[]"]
    by (simp add: exVerifierConfig_def exDoc_def insertedDoc_def truthy_def
        delegateToCheck_def exLib_def exRpc_def verifyQuery_def failedReason_def)
  from one two show ?thesis by simp
qed

text \<open>
  C7 as stated names the reason \<open>claim transaction not found\<close>; the reason the verifier
  stores for a missing transaction is \<open>Transaction not found on-chain\<close>.
\<close>

theorem C7_reason_text_counterexample:
  "reason (fst (verifySolanaApprovals exLib exRpc (exVerifierConfig (Some ''DELEGATE''))
      ([exDoc 1 ''gone'' [''A'']], 0)) ! 0) = Some ''Transaction not found on-chain'' \<and>
   reason (fst (verifySolanaApprovals exLib exRpc (exVerifierConfig (Some ''DELEGATE''))
      ([exDoc 1 ''gone'' [''A'']], 0)) ! 0) \<noteq> Some ''claim transaction not found''"
  by (simp add: verifySolanaApprovals_def verifyQuery_def verifyApprovalData_def
      verifyTransaction_def exDoc_def insertedDoc_def exVerifierConfig_def exLib_def exRpc_def
      truthy_def delegateToCheck_def setExecuted_def emptySet_def applySet_def orElse_def)



text \<open>
  C4, as the code has it. For a record that reaches the fetch of its claim transaction: when
  \<open>getTransaction\<close> throws, the verifier closes the record with \<open>executed: true\<close>, the time
  and the reason \<open>Transaction fetch error: \<close> followed by the error's message, so the
  verifier's query no longer selects it; when \<open>getAccount\<close> throws for one grant, that grant's
  result is recorded as failed with the error's message and the record is written with
  \<open>verified: false\<close>, the time, the results and a reason, and stays selected by the verifier's
  query. In both cases the loop goes on with the remaining records of the cycle.
\<close>

theorem C4_ledger_error_is_recorded:
  assumes "network a = Some nw" and "nw \<noteq> []" and "C nw = Some conf"
    and "delegateToCheck conf a = Some ds" and "ds \<noteq> []"
    and "newConnection L (v_rpcUrl conf) = Inr u" and "newPublicKey L ds = Inr pk"
  shows
   "(getTransaction R (v_rpcUrl conf) (transactionSignature a) w = (Inl e, w1) \<longrightarrow>
       verifyApprovalData L R C a w =
         Inr (Some (setExecuted (dateNow R w1) (''Transaction fetch error: '' @ e)), w1) \<and>
       verifyLoop L R C (a # rest) (store, w) =
         verifyLoop L R C rest
           (updateOne (\<lambda>d. doc_id d = doc_id a)
              (setExecuted (dateNow R w1) (''Transaction fetch error: '' @ e)) store, w1)) \<and>
    (getTransaction R (v_rpcUrl conf) (transactionSignature a) w = (Inr (Some t), w1) \<and>
     meta t = Some m \<and> err m = None \<and> approvals a = before @ g # after \<and>
     verifyApprovalList L R (v_rpcUrl conf) pk before (True, []) w1 = (acc, wi) \<and>
     newPublicKey L (tokenAccount g) = Inr tpk \<and>
     getAccount R (v_rpcUrl conf) tpk wi = (Inl e, wj) \<longrightarrow>
       (\<exists>results w2.
          verifyApprovalData L R C a w =
            Inr (Some (setUnverified (dateNow R w2) results), w2) \<and>
          \<lparr> vr_tokenAccount = tokenAccount g, vr_verified = False, vr_delegatedAmount = None,
            vr_reason = Some e \<rparr> \<in> set results \<and>
          verifyLoop L R C (a # rest) (store, w) =
            verifyLoop L R C rest
              (updateOne (\<lambda>d. doc_id d = doc_id a)
                 (setUnverified (dateNow R w2) results) store, w2))) \<and>
    (verifyQuery d \<and> transferred d \<noteq> Some True \<longrightarrow>
       executed (applySet (setExecuted now why) d) = Some True \<and>
       reason (applySet (setExecuted now why) d) = Some why \<and>
       \<not> verifyQuery (applySet (setExecuted now why) d) \<and>
       verifiedAt (applySet (setUnverified now rs) d) = Some now \<and>
       verificationResults (applySet (setUnverified now rs) d) = Some rs \<and>
       verifyQuery (applySet (setUnverified now rs) d))"
proof -
  have fetch: "verifyApprovalData L R C a w =
     Inr (Some (fst (verifyTransaction L R (v_rpcUrl conf) pk a w)),
          snd (verifyTransaction L R (v_rpcUrl conf) pk a w))"
    using assms by (rule verifyApprovalData_fetch)
  have tx: "verifyApprovalData L R C a w =
         Inr (Some (setExecuted (dateNow R w1) (''Transaction fetch error: '' @ e)), w1) \<and>
       verifyLoop L R C (a # rest) (store, w) =
         verifyLoop L R C rest
           (updateOne (\<lambda>d. doc_id d = doc_id a)
              (setExecuted (dateNow R w1) (''Transaction fetch error: '' @ e)) store, w1)"
    if "getTransaction R (v_rpcUrl conf) (transactionSignature a) w = (Inl e, w1)"
    using that by (simp add: fetch verifyTransaction_error)
  have grant: "\<exists>results w2.
          verifyApprovalData L R C a w =
            Inr (Some (setUnverified (dateNow R w2) results), w2) \<and>
          \<lparr> vr_tokenAccount = tokenAccount g, vr_verified = False, vr_delegatedAmount = None,
            vr_reason = Some e \<rparr> \<in> set results \<and>
          verifyLoop L R C (a # rest) (store, w) =
            verifyLoop L R C rest
              (updateOne (\<lambda>d. doc_id d = doc_id a)
                 (setUnverified (dateNow R w2) results) store, w2)"
    if t: "getTransaction R (v_rpcUrl conf) (transactionSignature a) w = (Inr (Some t), w1)"
         "meta t = Some m" "err m = None"
      and split: "approvals a = before @ g # after"
      and pre: "verifyApprovalList L R (v_rpcUrl conf) pk before (True, []) w1 = (acc, wi)"
      and throw: "newPublicKey L (tokenAccount g) = Inr tpk"
         "getAccount R (v_rpcUrl conf) tpk wi = (Inl e, wj)"
  proof -
    from verifyApprovalList_throwing_grant [OF pre throw, of after] split
    obtain results w2 where res:
      "verifyApprovalList L R (v_rpcUrl conf) pk (approvals a) (True, []) w1 =
         ((False, results), w2)"
      "\<lparr> vr_tokenAccount = tokenAccount g, vr_verified = False, vr_delegatedAmount = None,
         vr_reason = Some e \<rparr> \<in> set results"
      by auto
    from verifyTransaction_grants [OF t res(1)]
    have "verifyApprovalData L R C a w =
        Inr (Some (setUnverified (dateNow R w2) results), w2)"
      by (simp add: fetch)
    with res(2) show ?thesis by auto
  qed
  have state: "executed (applySet (setExecuted now why) d) = Some True \<and>
       reason (applySet (setExecuted now why) d) = Some why \<and>
       \<not> verifyQuery (applySet (setExecuted now why) d) \<and>
       verifiedAt (applySet (setUnverified now rs) d) = Some now \<and>
       verificationResults (applySet (setUnverified now rs) d) = Some rs \<and>
       verifyQuery (applySet (setUnverified now rs) d)"
    if "verifyQuery d"
    using that setExecuted_fields [of now why d] setUnverified_fields [of now rs d]
    by (simp add: verifyQuery_def)
  from tx grant state show ?thesis by blast
qed

theorem C4_ledger_error_is_recorded_witness:
  "verifyApprovalData exLib exRpc (exVerifierConfig (Some ''DELEGATE''))
       (exDoc 2 ''sigDown'' [''A'']) 0 =
     Inr (Some (setExecuted 1001 ''Transaction fetch error: fetch failed''), 1) \<and>
   (\<exists>results w2.
      verifyApprovalData exLib exRpc (exVerifierConfig (Some ''DELEGATE''))
          (exDoc 3 ''sigOK'' [''A'', ''Q'']) 0 =
        Inr (Some (setUnverified (dateNow exRpc w2) results), w2) \<and>
      \<lparr> vr_tokenAccount = ''Q'', vr_verified = False, vr_delegatedAmount = None,
        vr_reason = Some ''timeout'' \<rparr> \<in> set results)"
proof -
  have "verifyApprovalData exLib exRpc (exVerifierConfig (Some ''DELEGATE''))
       (exDoc 2 ''sigDown'' [''A'']) 0 =
     Inr (Some (setExecuted 1001 ''Transaction fetch error: fetch failed''), 1)"
    using C4_ledger_error_is_recorded [where a = "exDoc 2 ''sigDown'' [''A'']"
      and nw = "''mainnet-beta''" and C = "exVerifierConfig (Some ''DELEGATE'')"
      and conf = "\<lparr> v_rpcUrl = ''https://rpc'', delegateAddress = Some ''DELEGATE'' \<rparr>"
      and ds = "''DELEGATE''" and L = exLib and u = "()" and pk = "''DELEGATE''"
      and R = exRpc and w = 0 and ?w1.0 = 1 and e = "''fetch failed''"]
    by (simp add: exVerifierConfig_def exDoc_def insertedDoc_def truthy_def
        delegateToCheck_def exLib_def exRpc_def)
  moreover have "\<exists>results w2.
      verifyApprovalData exLib exRpc (exVerifierConfig (Some ''DELEGATE''))
          (exDoc 3 ''sigOK'' [''A'', ''Q'']) 0 =
        Inr (Some (setUnverified (dateNow exRpc w2) results), w2) \<and>
      \<lparr> vr_tokenAccount = tokenAccount (exGrant ''Q''), vr_verified = False,
        vr_delegatedAmount = None, vr_reason = Some ''timeout'' \<rparr> \<in> set results \<and>
      verifyLoop exLib exRpc (exVerifierConfig (Some ''DELEGATE''))
          (exDoc 3 ''sigOK'' [''A'', ''Q''] # []) ([], 0) =
        verifyLoop exLib exRpc (exVerifierConfig (Some ''DELEGATE'')) []
          (updateOne (\<lambda>d. doc_id d = doc_id (exDoc 3 ''sigOK'' [''A'', ''Q'']))
             (setUnverified (dateNow exRpc w2) results) [], w2)"
    using C4_ledger_error_is_recorded [where a = "exDoc 3 ''sigOK'' [''A'', ''Q'']"
      and nw = "''mainnet-beta''" and C = "exVerifierConfig (Some ''DELEGATE'')"
      and conf = "\<lparr> v_rpcUrl = ''https://rpc'', delegateAddress = Some ''DELEGATE'' \<rparr>"
      and ds = "''DELEGATE''" and L = exLib and u = "()" and pk = "''DELEGATE''"
      and R = exRpc and w = 0 and ?w1.0 = 1 and e = "''timeout''"
      and t = "\<lparr> meta = Some \<lparr> err = None \<rparr> \<rparr>" and m = "\<lparr> err = None \<rparr>"
      and before = "[exGrant ''A'']" and g = "exGrant ''Q''" and after = "[]"
      and acc = "(True, [\<lparr> vr_tokenAccount = ''A'', vr_verified = True,
               vr_delegatedAmount = Some (toString_bigint 500), vr_reason = None \<rparr>])"
      and wi = 2 and wj = 3 and tpk = "''Q''" and rest = "[]" and store = "[]"]
    by (simp add: exVerifierConfig_def exDoc_def insertedDoc_def exGrant_def truthy_def
        delegateToCheck_def exLib_def exRpc_def verifyApproval_def)
  ultimately show ?thesis by (auto simp: exGrant_def)
qed

text \<open>
  C4 as stated says that the record's persisted state is left unchanged when the ledger
  call fails, so that it is retried. A record whose transaction fetch throws is closed: its
  stored document changes and the verifier's query no longer selects it.
\<close>

theorem C4_fetch_error_closes_record_counterexample:
  "fst (verifySolanaApprovals exLib exRpc (exVerifierConfig (Some ''DELEGATE''))
          ([exDoc 2 ''sigDown'' [''A'']], 0)) =
     [applySet (setExecuted 1001 ''Transaction fetch error: fetch failed'')
        (exDoc 2 ''sigDown'' [''A''])] \<and>
   fst (verifySolanaApprovals exLib exRpc (exVerifierConfig (Some ''DELEGATE''))
          ([exDoc 2 ''sigDown'' [''A'']], 0)) \<noteq> [exDoc 2 ''sigDown'' [''A'']] \<and>
   \<not> verifyQuery (hd (fst (verifySolanaApprovals exLib exRpc
          (exVerifierConfig (Some ''DELEGATE'')) ([exDoc 2 ''sigDown'' [''A'']], 0))))"
  by (simp add: verifySolanaApprovals_def verifyQuery_def verifyApprovalData_def
      verifyTransaction_def exDoc_def insertedDoc_def exVerifierConfig_def exLib_def exRpc_def
      truthy_def delegateToCheck_def setExecuted_def emptySet_def applySet_def orElse_def)

text \<open>
  C6. For a record that reaches the transfer loop (network configured, key and destination
  present and valid, the key's public key equal to the record's delegate), let the loop over
  the record's grants return the results and the batch. Every instruction of the batch
  comes from one grant line: the loop, run on the grants before it, had reached a world in
  which \<open>getAccount\<close> for that grant's token account returned an account whose delegate is
  the signing key, and the instruction's amount is the minimum of that account's delegated
  amount and balance; so it exceeds neither, and it is above zero. The results list has one
  entry per grant, in order. A grant whose minimum is zero at the loop's world is recorded
  with \<open>success: false\<close> and the reason \<open>Delegate not set\<close>, \<open>No delegated amount\<close> or
  \<open>No balance to transfer\<close>, one whose mint has no destination token account with the reason
  \<open>Destination token account not found\<close>; in both cases the batch is left as it was and the
  loop goes on with the grants after it. A grant with a positive minimum and a destination
  account contributes the instruction with that minimum and a successful result. An empty
  batch makes the cycle store the results with \<open>No valid transfers to execute\<close>; a batch
  that is not empty is the list of instructions of the one transaction the cycle signs and
  sends, and after its confirmation the cycle stores the results with the signature.
\<close>

theorem C6_transfer_amount_is_live_minimum:
  assumes "network a = Some nw" and "nw \<noteq> []" and "T nw = Some conf"
    and "delegatePrivateKey conf = Some key" and "key \<noteq> []"
    and "destinationAddress conf = Some destination" and "destination \<noteq> []"
    and "getKeypairFromPrivateKey L key = Inr kp" and "delegate a = Some (publicKey kp)"
    and "newConnection L (t_rpcUrl conf) = Inr u" and "newPublicKey L destination = Inr dest"
    and "newPublicKey L (owner a) = Inr opk"
    and "transferApprovalList L R (t_rpcUrl conf) (publicKey kp) dest (approvals a) ([], []) w =
           ((results, batch), w1)"
  shows
   "(\<forall>ins\<in>set batch. \<exists>before g after rs bs wi tpk info wj.
       approvals a = before @ g # after \<and>
       transferApprovalList L R (t_rpcUrl conf) (publicKey kp) dest before ([], []) w =
         ((rs, bs), wi) \<and>
       newPublicKey L (tokenAccount g) = Inr tpk \<and>
       getAccount R (t_rpcUrl conf) tpk wi = (Inr info, wj) \<and>
       acc_delegate info = Some (publicKey kp) \<and> ti_source ins = tpk \<and>
       ti_authority ins = publicKey kp \<and>
       ti_amount ins = min (acc_delegatedAmount info) (acc_amount info) \<and>
       ti_amount ins \<le> acc_delegatedAmount info \<and> ti_amount ins \<le> acc_amount info \<and>
       0 < ti_amount ins) \<and>
    map tr_tokenAccount results = map tokenAccount (approvals a) \<and>
    (approvals a = before @ g # after \<and>
     transferApprovalList L R (t_rpcUrl conf) (publicKey kp) dest before ([], []) w =
       ((rs, bs), wi) \<and>
     newPublicKey L (tokenAccount g) = Inr tpk \<and>
     getAccount R (t_rpcUrl conf) tpk wi = (Inr info, wj) \<and>
     min (acc_delegatedAmount info) (acc_amount info) = 0 \<longrightarrow>
       transferApprovalList L R (t_rpcUrl conf) (publicKey kp) dest (approvals a) ([], []) w =
         transferApprovalList L R (t_rpcUrl conf) (publicKey kp) dest after
           (rs @ [\<lparr> tr_tokenAccount = tokenAccount g, tr_mint = None, tr_amount = None,
                    tr_success = False,
                    tr_reason =
                      Some (if acc_delegate info \<noteq> Some (publicKey kp) then ''Delegate not set''
                            else if acc_delegatedAmount info = 0 then ''No delegated amount''
                            else ''No balance to transfer'') \<rparr>], bs) wj \<and>
       \<lparr> tr_tokenAccount = tokenAccount g, tr_mint = None, tr_amount = None,
         tr_success = False,
         tr_reason =
           Some (if acc_delegate info \<noteq> Some (publicKey kp) then ''Delegate not set''
                 else if acc_delegatedAmount info = 0 then ''No delegated amount''
                 else ''No balance to transfer'') \<rparr> \<in> set results) \<and>
    (approvals a = before @ g # after \<and>
     transferApprovalList L R (t_rpcUrl conf) (publicKey kp) dest before ([], []) w =
       ((rs, bs), wi) \<and>
     newPublicKey L (tokenAccount g) = Inr tpk \<and>
     getAccount R (t_rpcUrl conf) tpk wi = (Inr info, wj) \<and>
     acc_delegate info = Some (publicKey kp) \<and>
     0 < min (acc_delegatedAmount info) (acc_amount info) \<and>
     newPublicKey L (mint g) = Inr mpk \<and>
     getParsedTokenAccountsByOwner R (t_rpcUrl conf) dest mpk wj = (Inr [], wk) \<longrightarrow>
       transferApprovalList L R (t_rpcUrl conf) (publicKey kp) dest (approvals a) ([], []) w =
         transferApprovalList L R (t_rpcUrl conf) (publicKey kp) dest after
           (rs @ [\<lparr> tr_tokenAccount = tokenAccount g, tr_mint = None, tr_amount = None,
                    tr_success = False,
                    tr_reason = Some ''Destination token account not found'' \<rparr>], bs) wk \<and>
       \<lparr> tr_tokenAccount = tokenAccount g, tr_mint = None, tr_amount = None,
         tr_success = False, tr_reason = Some ''Destination token account not found'' \<rparr>
         \<in> set results) \<and>
    (approvals a = before @ g # after \<and>
     transferApprovalList L R (t_rpcUrl conf) (publicKey kp) dest before ([], []) w =
       ((rs, bs), wi) \<and>
     newPublicKey L (tokenAccount g) = Inr tpk \<and>
     getAccount R (t_rpcUrl conf) tpk wi = (Inr info, wj) \<and>
     acc_delegate info = Some (publicKey kp) \<and>
     0 < min (acc_delegatedAmount info) (acc_amount info) \<and>
     newPublicKey L (mint g) = Inr mpk \<and>
     getParsedTokenAccountsByOwner R (t_rpcUrl conf) dest mpk wj = (Inr (d1 # others), wk) \<longrightarrow>
       \<lparr> ti_source = tpk, ti_destination = d1, ti_authority = publicKey kp,
         ti_amount = min (acc_delegatedAmount info) (acc_amount info) \<rparr> \<in> set batch \<and>
       \<lparr> tr_tokenAccount = tokenAccount g, tr_mint = Some (mint g),
         tr_amount = Some (toString_bigint (min (acc_delegatedAmount info) (acc_amount info))),
         tr_success = True, tr_reason = None \<rparr> \<in> set results) \<and>
    (batch = [] \<longrightarrow>
       transferApprovalData L R T a w =
         ((Some (setNothingToTransfer (dateNow R w1) results), None), w1) \<and>
       transferResults (applySet (setNothingToTransfer (dateNow R w1) results) a) =
         Some results \<and>
       (distinct (map doc_id st) \<and> j < length st \<and> st ! j = a \<and>
        filter transferQuery st = a # rest \<longrightarrow>
          fst (fst (transferApprovedTokens L R T (st, w))) ! j =
            applySet (setNothingToTransfer (dateNow R w1) results) a)) \<and>
    (batch \<noteq> [] \<and> getLatestBlockhash R (t_rpcUrl conf) w1 = (Inr blockhash, w2) \<and>
     sendRawTransaction R (t_rpcUrl conf)
       \<lparr> instructions = batch, recentBlockhash = blockhash, feePayer = publicKey kp,
         signer = kp \<rparr> w2 = (Inr signature, w3) \<and>
     confirmTransaction R (t_rpcUrl conf) signature w3 = (Inr c, w4) \<longrightarrow>
       transferApprovalData L R T a w =
         ((Some (setTransferred (dateNow R w4) signature results),
           Some \<lparr> instructions = batch, recentBlockhash = blockhash, feePayer = publicKey kp,
                  signer = kp \<rparr>), w4) \<and>
       transferResults (applySet (setTransferred (dateNow R w4) signature results) a) =
         Some results \<and>
       (distinct (map doc_id st) \<and> j < length st \<and> st ! j = a \<and>
        filter transferQuery st = a # rest \<longrightarrow>
          fst (fst (transferApprovedTokens L R T (st, w))) ! j =
            applySet (setTransferred (dateNow R w4) signature results) a \<and>
          (doc_id a,
           \<lparr> instructions = batch, recentBlockhash = blockhash, feePayer = publicKey kp,
             signer = kp \<rparr>) \<in> set (snd (transferApprovedTokens L R T (st, w)))))"
proof -
  let ?url = "t_rpcUrl conf"
  let ?pk = "publicKey kp"
  have data: "transferApprovalData L R T a w =
     ((Some (fst (fst (transferBatch L R ?url kp destination a w))),
       snd (fst (transferBatch L R ?url kp destination a w))),
      snd (transferBatch L R ?url kp destination a w))"
    using assms(1-9) by (rule transferApprovalData_batch)
  have c1: "\<forall>ins\<in>set batch. \<exists>before g after rs bs wi tpk info wj.
       approvals a = before @ g # after \<and>
       transferApprovalList L R ?url ?pk dest before ([], []) w = ((rs, bs), wi) \<and>
       newPublicKey L (tokenAccount g) = Inr tpk \<and>
       getAccount R ?url tpk wi = (Inr info, wj) \<and>
       acc_delegate info = Some ?pk \<and> ti_source ins = tpk \<and> ti_authority ins = ?pk \<and>
       ti_amount ins = min (acc_delegatedAmount info) (acc_amount info) \<and>
       ti_amount ins \<le> acc_delegatedAmount info \<and> ti_amount ins \<le> acc_amount info \<and>
       0 < ti_amount ins"
  proof
    fix ins assume "ins \<in> set batch"
    with transferApprovalList_batch_at [OF assms(13)] obtain before x after rs bs wi r wj where
      x: "approvals a = before @ x # after"
        "transferApprovalList L R ?url ?pk dest before ([], []) w = ((rs, bs), wi)"
        "transferApproval L R ?url ?pk dest x wi = ((r, Some ins), wj)"
      by blast
    from transferApproval_instruction [OF x(3)] obtain tpk info wk where
      "newPublicKey L (tokenAccount x) = Inr tpk" "getAccount R ?url tpk wi = (Inr info, wk)"
      "acc_delegate info = Some ?pk" "ti_source ins = tpk" "ti_authority ins = ?pk"
      "ti_amount ins = min (acc_delegatedAmount info) (acc_amount info)" "0 < ti_amount ins"
      by blast
    with x(1,2) show "\<exists>before g after rs bs wi tpk info wj.
       approvals a = before @ g # after \<and>
       transferApprovalList L R ?url ?pk dest before ([], []) w = ((rs, bs), wi) \<and>
       newPublicKey L (tokenAccount g) = Inr tpk \<and>
       getAccount R ?url tpk wi = (Inr info, wj) \<and>
       acc_delegate info = Some ?pk \<and> ti_source ins = tpk \<and> ti_authority ins = ?pk \<and>
       ti_amount ins = min (acc_delegatedAmount info) (acc_amount info) \<and>
       ti_amount ins \<le> acc_delegatedAmount info \<and> ti_amount ins \<le> acc_amount info \<and>
       0 < ti_amount ins"
      by (intro exI [of _ before] exI [of _ x] exI [of _ after] exI [of _ rs] exI [of _ bs]
          exI [of _ wi] exI [of _ tpk] exI [of _ info] exI [of _ wk]) simp
  qed
  have c2: "map tr_tokenAccount results = map tokenAccount (approvals a)"
    using transferApprovalList_extends [OF assms(13)] by auto
  have at: "transferApprovalList L R ?url ?pk dest (approvals a) ([], []) w =
       transferApprovalList L R ?url ?pk dest after
         (rs @ [r], bs @ (case i of None \<Rightarrow> [] | Some ins \<Rightarrow> [ins])) wx \<and>
     r \<in> set results \<and> (\<forall>ins. i = Some ins \<longrightarrow> ins \<in> set batch)"
    if "approvals a = before @ g # after"
      "transferApprovalList L R ?url ?pk dest before ([], []) w = ((rs, bs), wi)"
      "transferApproval L R ?url ?pk dest g wi = ((r, i), wx)" for r i wx
    using that assms(13) by (rule transferApprovalList_at)
  have c3: "transferApprovalList L R ?url ?pk dest (approvals a) ([], []) w =
         transferApprovalList L R ?url ?pk dest after
           (rs @ [\<lparr> tr_tokenAccount = tokenAccount g, tr_mint = None, tr_amount = None,
                    tr_success = False,
                    tr_reason =
                      Some (if acc_delegate info \<noteq> Some ?pk then ''Delegate not set''
                            else if acc_delegatedAmount info = 0 then ''No delegated amount''
                            else ''No balance to transfer'') \<rparr>], bs) wj \<and>
       \<lparr> tr_tokenAccount = tokenAccount g, tr_mint = None, tr_amount = None,
         tr_success = False,
         tr_reason =
           Some (if acc_delegate info \<noteq> Some ?pk then ''Delegate not set''
                 else if acc_delegatedAmount info = 0 then ''No delegated amount''
                 else ''No balance to transfer'') \<rparr> \<in> set results"
    if "approvals a = before @ g # after"
      "transferApprovalList L R ?url ?pk dest before ([], []) w = ((rs, bs), wi)"
      "newPublicKey L (tokenAccount g) = Inr tpk"
      "getAccount R ?url tpk wi = (Inr info, wj)"
      "min (acc_delegatedAmount info) (acc_amount info) = 0"
    using at [OF that(1,2) transferApproval_zero_record [OF that(3,4,5), of ?pk dest]] by simp
  have c4: "transferApprovalList L R ?url ?pk dest (approvals a) ([], []) w =
         transferApprovalList L R ?url ?pk dest after
           (rs @ [\<lparr> tr_tokenAccount = tokenAccount g, tr_mint = None, tr_amount = None,
                    tr_success = False,
                    tr_reason = Some ''Destination token account not found'' \<rparr>], bs) wk \<and>
       \<lparr> tr_tokenAccount = tokenAccount g, tr_mint = None, tr_amount = None,
         tr_success = False, tr_reason = Some ''Destination token account not found'' \<rparr>
         \<in> set results"
    if "approvals a = before @ g # after"
      "transferApprovalList L R ?url ?pk dest before ([], []) w = ((rs, bs), wi)"
      "newPublicKey L (tokenAccount g) = Inr tpk"
      "getAccount R ?url tpk wi = (Inr info, wj)"
      "acc_delegate info = Some ?pk"
      "0 < min (acc_delegatedAmount info) (acc_amount info)"
      "newPublicKey L (mint g) = Inr mpk"
      "getParsedTokenAccountsByOwner R ?url dest mpk wj = (Inr [], wk)"
    using at [OF that(1,2) transferApproval_no_destination_record [OF that(3-8)]] by simp
  have c5: "\<lparr> ti_source = tpk, ti_destination = d1, ti_authority = ?pk,
         ti_amount = min (acc_delegatedAmount info) (acc_amount info) \<rparr> \<in> set batch \<and>
       \<lparr> tr_tokenAccount = tokenAccount g, tr_mint = Some (mint g),
         tr_amount = Some (toString_bigint (min (acc_delegatedAmount info) (acc_amount info))),
         tr_success = True, tr_reason = None \<rparr> \<in> set results"
    if "approvals a = before @ g # after"
      "transferApprovalList L R ?url ?pk dest before ([], []) w = ((rs, bs), wi)"
      "newPublicKey L (tokenAccount g) = Inr tpk"
      "getAccount R ?url tpk wi = (Inr info, wj)"
      "acc_delegate info = Some ?pk"
      "0 < min (acc_delegatedAmount info) (acc_amount info)"
      "newPublicKey L (mint g) = Inr mpk"
      "getParsedTokenAccountsByOwner R ?url dest mpk wj = (Inr (d1 # others), wk)"
    using at [OF that(1,2) transferApproval_included [OF that(3-8)]] by simp
  have c6: "transferApprovalData L R T a w =
         ((Some (setNothingToTransfer (dateNow R w1) results), None), w1) \<and>
       transferResults (applySet (setNothingToTransfer (dateNow R w1) results) a) =
         Some results \<and>
       (distinct (map doc_id st) \<and> j < length st \<and> st ! j = a \<and>
        filter transferQuery st = a # rest \<longrightarrow>
          fst (fst (transferApprovedTokens L R T (st, w))) ! j =
            applySet (setNothingToTransfer (dateNow R w1) results) a)"
    if "batch = []"
  proof -
    from that assms(13) have run: "transferApprovalList L R ?url ?pk dest (approvals a) ([], []) w =
        ((results, []), w1)" by simp
    have d: "transferApprovalData L R T a w =
         ((Some (setNothingToTransfer (dateNow R w1) results), None), w1)"
      using transferBatch_empty [OF assms(10-12) run] data by simp
    have "fst (fst (transferApprovedTokens L R T (st, w))) ! j =
            applySet (setNothingToTransfer (dateNow R w1) results) a"
      if "distinct (map doc_id st)" "j < length st" "st ! j = a"
        "filter transferQuery st = a # rest"
      using transferApprovedTokens_first [OF that(1,4,2,3) d] by simp
    with d transfer_results_stored [of "dateNow R w1" "[]" results a] show ?thesis by simp
  qed
  have c7: "transferApprovalData L R T a w =
         ((Some (setTransferred (dateNow R w4) signature results),
           Some \<lparr> instructions = batch, recentBlockhash = blockhash, feePayer = ?pk,
                  signer = kp \<rparr>), w4) \<and>
       transferResults (applySet (setTransferred (dateNow R w4) signature results) a) =
         Some results \<and>
       (distinct (map doc_id st) \<and> j < length st \<and> st ! j = a \<and>
        filter transferQuery st = a # rest \<longrightarrow>
          fst (fst (transferApprovedTokens L R T (st, w))) ! j =
            applySet (setTransferred (dateNow R w4) signature results) a \<and>
          (doc_id a,
           \<lparr> instructions = batch, recentBlockhash = blockhash, feePayer = ?pk,
             signer = kp \<rparr>) \<in> set (snd (transferApprovedTokens L R T (st, w))))"
    if "batch \<noteq> []" "getLatestBlockhash R ?url w1 = (Inr blockhash, w2)"
      "sendRawTransaction R ?url
         \<lparr> instructions = batch, recentBlockhash = blockhash, feePayer = ?pk,
           signer = kp \<rparr> w2 = (Inr signature, w3)"
      "confirmTransaction R ?url signature w3 = (Inr c, w4)"
  proof -
    have d: "transferApprovalData L R T a w =
         ((Some (setTransferred (dateNow R w4) signature results),
           Some \<lparr> instructions = batch, recentBlockhash = blockhash, feePayer = ?pk,
                  signer = kp \<rparr>), w4)"
      using transferBatch_confirmed [OF assms(10-13) that] data by simp
    have "fst (fst (transferApprovedTokens L R T (st, w))) ! j =
            applySet (setTransferred (dateNow R w4) signature results) a \<and>
          (doc_id a,
           \<lparr> instructions = batch, recentBlockhash = blockhash, feePayer = ?pk,
             signer = kp \<rparr>) \<in> set (snd (transferApprovedTokens L R T (st, w)))"
      if "distinct (map doc_id st)" "j < length st" "st ! j = a"
        "filter transferQuery st = a # rest"
      using transferApprovedTokens_first [OF that(1,4,2,3) d] by simp
    with d transfer_results_stored [of "dateNow R w4" signature results a] show ?thesis by simp
  qed
  show ?thesis
    apply (intro conjI)
    subgoal by (rule c1)
    subgoal by (rule c2)
    subgoal using c3 by blast
    subgoal using c4 by blast
    subgoal using c5 by blast
    subgoal using c6 by blast
    subgoal using c7 by blast
    done
qed

theorem C6_transfer_amount_is_live_minimum_witness:
  "fst (fst (transferApprovedTokens exLib exRpc (exTransferConfig ''goodkey'')
       ([(exDoc 1 ''sigOK'' [''A'', ''Z''])\<lparr>verified := Some True\<rparr>], 0))) ! 0 =
     applySet (setTransferred 1006 ''settled''
         [\<lparr> tr_tokenAccount = ''A'', tr_mint = Some ''USDC'',
            tr_amount = Some (toString_bigint 300), tr_success = True, tr_reason = None \<rparr>,
          \<lparr> tr_tokenAccount = ''Z'', tr_mint = None, tr_amount = None, tr_success = False,
            tr_reason = Some ''No balance to transfer'' \<rparr>])
       ((exDoc 1 ''sigOK'' [''A'', ''Z''])\<lparr>verified := Some True\<rparr>) \<and>
   (doc_id ((exDoc 1 ''sigOK'' [''A'', ''Z''])\<lparr>verified := Some True\<rparr>),
    \<lparr> instructions =
        [\<lparr> ti_source = ''A'', ti_destination = ''DESTUSDC'', ti_authority = ''DELEGATE'',
           ti_amount = 300 \<rparr>],
      recentBlockhash = ''hash'', feePayer = ''DELEGATE'',
      signer = \<lparr> publicKey = ''DELEGATE'', secretKey = replicate 64 0 \<rparr> \<rparr>)
     \<in> set (snd (transferApprovedTokens exLib exRpc (exTransferConfig ''goodkey'')
           ([(exDoc 1 ''sigOK'' [''A'', ''Z''])\<lparr>verified := Some True\<rparr>], 0))) \<and>
   (\<exists>before g after rs bs wi info wj.
      approvals ((exDoc 1 ''sigOK'' [''A'', ''Z''])\<lparr>verified := Some True\<rparr>) =
        before @ g # after \<and>
      transferApprovalList exLib exRpc ''https://rpc'' ''DELEGATE'' ''DEST'' before ([], []) 0 =
        ((rs, bs), wi) \<and>
      newPublicKey exLib (tokenAccount g) = Inr ''A'' \<and>
      getAccount exRpc ''https://rpc'' ''A'' wi = (Inr info, wj) \<and>
      acc_delegate info = Some ''DELEGATE'' \<and>
      min (acc_delegatedAmount info) (acc_amount info) = 300) \<and>
   transferApprovalList exLib exRpc ''https://rpc'' ''DELEGATE'' ''DEST''
       (approvals ((exDoc 1 ''sigOK'' [''A'', ''Z''])\<lparr>verified := Some True\<rparr>)) ([], []) 0 =
     transferApprovalList exLib exRpc ''https://rpc'' ''DELEGATE'' ''DEST'' []
       ([\<lparr> tr_tokenAccount = ''A'', tr_mint = Some ''USDC'',
           tr_amount = Some (toString_bigint 300), tr_success = True, tr_reason = None \<rparr>,
         \<lparr> tr_tokenAccount = ''Z'', tr_mint = None, tr_amount = None, tr_success = False,
           tr_reason = Some ''No balance to transfer'' \<rparr>],
        [\<lparr> ti_source = ''A'', ti_destination = ''DESTUSDC'', ti_authority = ''DELEGATE'',
           ti_amount = 300 \<rparr>]) 3 \<and>
   \<lparr> ti_source = ''A'', ti_destination = ''DESTUSDC'', ti_authority = ''DELEGATE'',
     ti_amount = min 500 300 \<rparr> \<in>
     set [\<lparr> ti_source = ''A'', ti_destination = ''DESTUSDC'', ti_authority = ''DELEGATE'',
            ti_amount = 300 \<rparr>] \<and>
   fst (fst (transferApprovedTokens exLib exRpc (exTransferConfig ''goodkey'')
       ([(exDoc 2 ''sigOK'' [])\<lparr>verified := Some True,
            approvals := [(exGrant ''A'')\<lparr>mint := ''WETH''\<rparr>]\<rparr>], 0))) ! 0 =
     applySet (setNothingToTransfer 1002
         [\<lparr> tr_tokenAccount = ''A'', tr_mint = None, tr_amount = None, tr_success = False,
            tr_reason = Some ''Destination token account not found'' \<rparr>])
       ((exDoc 2 ''sigOK'' [])\<lparr>verified := Some True,
            approvals := [(exGrant ''A'')\<lparr>mint := ''WETH''\<rparr>]\<rparr>) \<and>
   transferApprovalList exLib exRpc ''https://rpc'' ''DELEGATE'' ''DEST''
       [(exGrant ''A'')\<lparr>mint := ''WETH''\<rparr>] ([], []) 0 =
     (([\<lparr> tr_tokenAccount = ''A'', tr_mint = None, tr_amount = None, tr_success = False,
          tr_reason = Some ''Destination token account not found'' \<rparr>], []), 2)"
proof -
  let ?a = "(exDoc 1 ''sigOK'' [''A'', ''Z''])\<lparr>verified := Some True\<rparr>"
  let ?T = "exTransferConfig ''goodkey''"
  let ?conf = "\<lparr> t_rpcUrl = ''https://rpc'', delegatePrivateKey = Some ''goodkey'',
                 destinationAddress = Some ''DEST'' \<rparr>"
  let ?kp = "\<lparr> publicKey = ''DELEGATE'', secretKey = replicate 64 0 \<rparr>"
  let ?rA = "\<lparr> tr_tokenAccount = ''A'', tr_mint = Some ''USDC'',
            tr_amount = Some (toString_bigint 300), tr_success = True, tr_reason = None \<rparr>"
  let ?fZ = "\<lparr> tr_tokenAccount = ''Z'', tr_mint = None, tr_amount = None, tr_success = False,
            tr_reason = Some ''No balance to transfer'' \<rparr>"
  let ?iA = "\<lparr> ti_source = ''A'', ti_destination = ''DESTUSDC'', ti_authority = ''DELEGATE'',
           ti_amount = 300 \<rparr>"
  let ?zinfo = "\<lparr> acc_delegate = Some ''DELEGATE'', acc_delegatedAmount = 25, acc_amount = 0 \<rparr>"
  have h: "network ?a = Some ''mainnet-beta''" "''mainnet-beta'' \<noteq> []"
    "?T ''mainnet-beta'' = Some ?conf" "delegatePrivateKey ?conf = Some ''goodkey''"
    "''goodkey'' \<noteq> []" "destinationAddress ?conf = Some ''DEST''" "''DEST'' \<noteq> []"
    "getKeypairFromPrivateKey exLib ''goodkey'' = Inr ?kp" "delegate ?a = Some (publicKey ?kp)"
    "newConnection exLib (t_rpcUrl ?conf) = Inr ()" "newPublicKey exLib ''DEST'' = Inr ''DEST''"
    "newPublicKey exLib (owner ?a) = Inr ''OWNER''"
    by (simp_all add: exTransferConfig_def exDoc_def insertedDoc_def
        getKeypairFromPrivateKey_def exLib_def)
  have run: "transferApprovalList exLib exRpc (t_rpcUrl ?conf) (publicKey ?kp) ''DEST''
       (approvals ?a) ([], []) 0 = (([?rA, ?fZ], [?iA]), 3)"
    by (simp add: transferApproval_def failedTransfer_def exDoc_def insertedDoc_def exGrant_def
        exLib_def exRpc_def)
  note inst = C6_transfer_amount_is_live_minimum [where a = ?a and nw = "''mainnet-beta''"
      and T = ?T and conf = ?conf and key = "''goodkey''" and destination = "''DEST''"
      and L = exLib and kp = ?kp and u = "()" and dest = "''DEST''" and opk = "''OWNER''"
      and R = exRpc and w = 0 and results = "[?rA, ?fZ]" and batch = "[?iA]" and ?w1.0 = 3
      and blockhash = "''hash''" and ?w2.0 = 4 and signature = "''settled''" and ?w3.0 = 5
      and c = "()" and ?w4.0 = 6 and st = "[?a]" and j = 0 and rest = "[]"
      and before = "[exGrant ''A'']" and g = "exGrant ''Z''" and after = "[]"
      and rs = "[?rA]" and bs = "[?iA]" and wi = 2 and tpk = "''Z''" and info = ?zinfo
      and wj = 3, OF h run]
  have zprem: "approvals ?a = [exGrant ''A''] @ exGrant ''Z'' # [] \<and>
     transferApprovalList exLib exRpc (t_rpcUrl ?conf) (publicKey ?kp) ''DEST'' [exGrant ''A'']
       ([], []) 0 = (([?rA], [?iA]), 2) \<and>
     newPublicKey exLib (tokenAccount (exGrant ''Z'')) = Inr ''Z'' \<and>
     getAccount exRpc (t_rpcUrl ?conf) ''Z'' 2 = (Inr ?zinfo, 3) \<and>
     min (acc_delegatedAmount ?zinfo) (acc_amount ?zinfo) = 0"
    by (simp add: transferApproval_def exDoc_def insertedDoc_def exGrant_def exLib_def exRpc_def)
  have sprem: "[?iA] \<noteq> [] \<and> getLatestBlockhash exRpc (t_rpcUrl ?conf) 3 = (Inr ''hash'', 4) \<and>
     sendRawTransaction exRpc (t_rpcUrl ?conf)
       \<lparr> instructions = [?iA], recentBlockhash = ''hash'', feePayer = publicKey ?kp,
         signer = ?kp \<rparr> 4 = (Inr ''settled'', 5) \<and>
     confirmTransaction exRpc (t_rpcUrl ?conf) ''settled'' 5 = (Inr (), 6)"
    by (simp add: exRpc_def)
  have cprem: "distinct (map doc_id [?a]) \<and> 0 < length [?a] \<and> [?a] ! 0 = ?a \<and>
     filter transferQuery [?a] = ?a # []"
    by (simp add: transferQuery_def exDoc_def insertedDoc_def)
  note c3 = inst [THEN conjunct2, THEN conjunct2, THEN conjunct1]
  note c7 = inst [THEN conjunct2, THEN conjunct2, THEN conjunct2, THEN conjunct2,
      THEN conjunct2, THEN conjunct2]
  have stored: "fst (fst (transferApprovedTokens exLib exRpc ?T ([?a], 0))) ! 0 =
       applySet (setTransferred (dateNow exRpc 6) ''settled'' [?rA, ?fZ]) ?a \<and>
     (doc_id ?a,
      \<lparr> instructions = [?iA], recentBlockhash = ''hash'', feePayer = publicKey ?kp,
        signer = ?kp \<rparr>) \<in> set (snd (transferApprovedTokens exLib exRpc ?T ([?a], 0)))"
    using c7 [THEN mp, OF sprem, THEN conjunct2, THEN conjunct2, THEN mp, OF cprem] .
  have now: "dateNow exRpc 6 = 1006" by (simp add: exRpc_def)
  have "?iA \<in> set [?iA]" by simp
  from inst [THEN conjunct1, THEN bspec, OF this]
  obtain before g after rs bs wi tpk info wj where x:
    "approvals ?a = before @ g # after"
    "transferApprovalList exLib exRpc (t_rpcUrl ?conf) (publicKey ?kp) ''DEST'' before ([], []) 0 =
       ((rs, bs), wi)"
    "newPublicKey exLib (tokenAccount g) = Inr tpk"
    "getAccount exRpc (t_rpcUrl ?conf) tpk wi = (Inr info, wj)"
    "acc_delegate info = Some (publicKey ?kp)" "ti_source ?iA = tpk"
    "ti_amount ?iA = min (acc_delegatedAmount info) (acc_amount info)"
    by blast
  have amount: "\<exists>before g after rs bs wi info wj.
      approvals ?a = before @ g # after \<and>
      transferApprovalList exLib exRpc ''https://rpc'' ''DELEGATE'' ''DEST'' before ([], []) 0 =
        ((rs, bs), wi) \<and>
      newPublicKey exLib (tokenAccount g) = Inr ''A'' \<and>
      getAccount exRpc ''https://rpc'' ''A'' wi = (Inr info, wj) \<and>
      acc_delegate info = Some ''DELEGATE'' \<and>
      min (acc_delegatedAmount info) (acc_amount info) = 300"
    using x
    by (intro exI [of _ before] exI [of _ g] exI [of _ after] exI [of _ rs] exI [of _ bs]
        exI [of _ wi] exI [of _ info] exI [of _ wj]) auto
  have failed: "transferApprovalList exLib exRpc ''https://rpc'' ''DELEGATE'' ''DEST''
       (approvals ?a) ([], []) 0 =
     transferApprovalList exLib exRpc ''https://rpc'' ''DELEGATE'' ''DEST'' []
       ([?rA, ?fZ], [?iA]) 3"
    using c3 [THEN mp, OF zprem, THEN conjunct1] by (simp add: exGrant_def)
  from stored now have stored': "fst (fst (transferApprovedTokens exLib exRpc ?T ([?a], 0))) ! 0 =
       applySet (setTransferred 1006 ''settled'' [?rA, ?fZ]) ?a"
    "(doc_id ?a,
      \<lparr> instructions = [?iA], recentBlockhash = ''hash'', feePayer = ''DELEGATE'',
        signer = ?kp \<rparr>) \<in> set (snd (transferApprovedTokens exLib exRpc ?T ([?a], 0)))"
    by simp_all
  let ?ainfo = "\<lparr> acc_delegate = Some ''DELEGATE'', acc_delegatedAmount = 500,
                  acc_amount = 300 \<rparr>"
  note instA = C6_transfer_amount_is_live_minimum [where a = ?a and nw = "''mainnet-beta''"
      and T = ?T and conf = ?conf and key = "''goodkey''" and destination = "''DEST''"
      and L = exLib and kp = ?kp and u = "()" and dest = "''DEST''" and opk = "''OWNER''"
      and R = exRpc and w = 0 and results = "[?rA, ?fZ]" and batch = "[?iA]" and ?w1.0 = 3
      and before = "[]" and g = "exGrant ''A''" and after = "[exGrant ''Z'']"
      and rs = "[]" and bs = "[]" and wi = 0 and tpk = "''A''" and info = ?ainfo
      and wj = 1 and mpk = "''USDC''" and wk = 2 and ?d1.0 = "''DESTUSDC''" and others = "[]",
      OF h run]
  have aprem: "approvals ?a = [] @ exGrant ''A'' # [exGrant ''Z''] \<and>
     transferApprovalList exLib exRpc (t_rpcUrl ?conf) (publicKey ?kp) ''DEST'' [] ([], []) 0 =
       (([], []), 0) \<and>
     newPublicKey exLib (tokenAccount (exGrant ''A'')) = Inr ''A'' \<and>
     getAccount exRpc (t_rpcUrl ?conf) ''A'' 0 = (Inr ?ainfo, 1) \<and>
     acc_delegate ?ainfo = Some (publicKey ?kp) \<and>
     0 < min (acc_delegatedAmount ?ainfo) (acc_amount ?ainfo) \<and>
     newPublicKey exLib (mint (exGrant ''A'')) = Inr ''USDC'' \<and>
     getParsedTokenAccountsByOwner exRpc (t_rpcUrl ?conf) ''DEST'' ''USDC'' 1 =
       (Inr (''DESTUSDC'' # []), 2)"
    by (simp add: exDoc_def insertedDoc_def exGrant_def exLib_def exRpc_def)
  have included: "\<lparr> ti_source = ''A'', ti_destination = ''DESTUSDC'', ti_authority = ''DELEGATE'',
       ti_amount = min 500 300 \<rparr> \<in> set [?iA]"
    using instA [THEN conjunct2, THEN conjunct2, THEN conjunct2, THEN conjunct2, THEN conjunct1,
        THEN mp, OF aprem, THEN conjunct1]
    by simp
  let ?gW = "(exGrant ''A'')\<lparr>mint := ''WETH''\<rparr>"
  let ?b = "(exDoc 2 ''sigOK'' [])\<lparr>verified := Some True, approvals := [?gW]\<rparr>"
  let ?fW = "\<lparr> tr_tokenAccount = ''A'', tr_mint = None, tr_amount = None, tr_success = False,
            tr_reason = Some ''Destination token account not found'' \<rparr>"
  have hb: "network ?b = Some ''mainnet-beta''" "''mainnet-beta'' \<noteq> []"
    "?T ''mainnet-beta'' = Some ?conf" "delegatePrivateKey ?conf = Some ''goodkey''"
    "''goodkey'' \<noteq> []" "destinationAddress ?conf = Some ''DEST''" "''DEST'' \<noteq> []"
    "getKeypairFromPrivateKey exLib ''goodkey'' = Inr ?kp" "delegate ?b = Some (publicKey ?kp)"
    "newConnection exLib (t_rpcUrl ?conf) = Inr ()" "newPublicKey exLib ''DEST'' = Inr ''DEST''"
    "newPublicKey exLib (owner ?b) = Inr ''OWNER''"
    by (simp_all add: exTransferConfig_def exDoc_def insertedDoc_def
        getKeypairFromPrivateKey_def exLib_def)
  have runb: "transferApprovalList exLib exRpc (t_rpcUrl ?conf) (publicKey ?kp) ''DEST''
       (approvals ?b) ([], []) 0 = (([?fW], []), 2)"
    by (simp add: transferApproval_def failedTransfer_def exDoc_def insertedDoc_def exGrant_def
        exLib_def exRpc_def)
  note instB = C6_transfer_amount_is_live_minimum [where a = ?b and nw = "''mainnet-beta''"
      and T = ?T and conf = ?conf and key = "''goodkey''" and destination = "''DEST''"
      and L = exLib and kp = ?kp and u = "()" and dest = "''DEST''" and opk = "''OWNER''"
      and R = exRpc and w = 0 and results = "[?fW]" and batch = "[]" and ?w1.0 = 2
      and before = "[]" and g = ?gW and after = "[]"
      and rs = "[]" and bs = "[]" and wi = 0 and tpk = "''A''" and info = ?ainfo
      and wj = 1 and mpk = "''WETH''" and wk = 2 and st = "[?b]" and j = 0 and rest = "[]",
      OF hb runb]
  have bprem: "approvals ?b = [] @ ?gW # [] \<and>
     transferApprovalList exLib exRpc (t_rpcUrl ?conf) (publicKey ?kp) ''DEST'' [] ([], []) 0 =
       (([], []), 0) \<and>
     newPublicKey exLib (tokenAccount ?gW) = Inr ''A'' \<and>
     getAccount exRpc (t_rpcUrl ?conf) ''A'' 0 = (Inr ?ainfo, 1) \<and>
     acc_delegate ?ainfo = Some (publicKey ?kp) \<and>
     0 < min (acc_delegatedAmount ?ainfo) (acc_amount ?ainfo) \<and>
     newPublicKey exLib (mint ?gW) = Inr ''WETH'' \<and>
     getParsedTokenAccountsByOwner exRpc (t_rpcUrl ?conf) ''DEST'' ''WETH'' 1 = (Inr [], 2)"
    by (simp add: exDoc_def insertedDoc_def exGrant_def exLib_def exRpc_def)
  have nodest: "transferApprovalList exLib exRpc ''https://rpc'' ''DELEGATE'' ''DEST''
       [?gW] ([], []) 0 = (([?fW], []), 2)"
    using instB [THEN conjunct2, THEN conjunct2, THEN conjunct2, THEN conjunct1,
        THEN mp, OF bprem, THEN conjunct1]
    by (simp add: exGrant_def)
  have eprem: "distinct (map doc_id [?b]) \<and> 0 < length [?b] \<and> [?b] ! 0 = ?b \<and>
     filter transferQuery [?b] = ?b # []"
    by (simp add: transferQuery_def exDoc_def insertedDoc_def)
  have emptied: "fst (fst (transferApprovedTokens exLib exRpc ?T ([?b], 0))) ! 0 =
       applySet (setNothingToTransfer (dateNow exRpc 2) [?fW]) ?b"
    using instB [THEN conjunct2, THEN conjunct2, THEN conjunct2, THEN conjunct2, THEN conjunct2,
        THEN conjunct1, THEN mp, OF refl, THEN conjunct2, THEN conjunct2, THEN mp, OF eprem] .
  have now2: "dateNow exRpc 2 = 1002" by (simp add: exRpc_def)
  from emptied now2 have emptied': "fst (fst (transferApprovedTokens exLib exRpc ?T ([?b], 0))) ! 0 =
       applySet (setNothingToTransfer 1002 [?fW]) ?b"
    by simp
  show ?thesis
    apply (intro conjI)
    subgoal by (rule stored'(1))
    subgoal by (rule stored'(2))
    subgoal by (rule amount)
    subgoal by (rule failed)
    subgoal by (rule included)
    subgoal by (rule emptied')
    subgoal by (rule nodest)
    done
qed

text \<open>
  C8, as the code has it. The transfer script skips a record, writing nothing and going on
  with the next record, when the record has no network or one without configuration, when
  the configuration lacks the delegate's private key or the destination address, and when
  the public key of the configured keypair differs from the record's \<open>delegate\<close>. Key
  material that \<open>getKeypairFromPrivateKey\<close> rejects is not skipped: the error is caught at
  the record's \<open>catch\<close> and the record is closed with \<open>executed: true\<close>, the time and the
  reason \<open>Transfer error: Invalid private key format. ...\<close>.
\<close>

theorem C8_configuration_problems:
  "(\<not> truthy (network a) \<longrightarrow> transferApprovalData L R C a w = ((None, None), w)) \<and>
   (network a = Some nw \<and> C nw = None \<longrightarrow>
      transferApprovalData L R C a w = ((None, None), w)) \<and>
   (network a = Some nw \<and> C nw = Some conf \<and>
    (\<not> truthy (delegatePrivateKey conf) \<or> \<not> truthy (destinationAddress conf)) \<longrightarrow>
      transferApprovalData L R C a w = ((None, None), w)) \<and>
   (network a = Some nw \<and> C nw = Some conf \<and> delegatePrivateKey conf = Some key \<and>
    getKeypairFromPrivateKey L key = Inr kp \<and> Some (publicKey kp) \<noteq> delegate a \<longrightarrow>
      transferApprovalData L R C a w = ((None, None), w)) \<and>
   (transferApprovalData L R C a w = ((None, None), w) \<longrightarrow>
      transferLoop L R C (a # rest) ((store, w), sent) =
        transferLoop L R C rest ((store, w), sent)) \<and>
   (network a = Some nw \<and> nw \<noteq> [] \<and> C nw = Some conf \<and> delegatePrivateKey conf = Some key \<and>
    key \<noteq> [] \<and> truthy (destinationAddress conf) \<and> getKeypairFromPrivateKey L key = Inl e \<longrightarrow>
      e = ''Invalid private key format. Use base64 encoded 64-byte secret key or JSON array.'' \<and>
      transferApprovalData L R C a w =
        ((Some (setExecuted (dateNow R w) (''Transfer error: '' @ e)), None), w) \<and>
      transferLoop L R C (a # rest) ((store, w), sent) =
        transferLoop L R C rest
          ((updateOne (\<lambda>d. doc_id d = doc_id a)
              (setExecuted (dateNow R w) (''Transfer error: '' @ e)) store, w), sent))"
proof -
  have loop: "transferLoop L R C (a # rest) ((store, w), sent) =
        transferLoop L R C rest ((store, w), sent)"
    if "transferApprovalData L R C a w = ((None, None), w)"
    using that by simp
  have bad: "e = ''Invalid private key format. Use base64 encoded 64-byte secret key or JSON array.'' \<and>
      transferApprovalData L R C a w =
        ((Some (setExecuted (dateNow R w) (''Transfer error: '' @ e)), None), w) \<and>
      transferLoop L R C (a # rest) ((store, w), sent) =
        transferLoop L R C rest
          ((updateOne (\<lambda>d. doc_id d = doc_id a)
              (setExecuted (dateNow R w) (''Transfer error: '' @ e)) store, w), sent)"
    if "network a = Some nw" "nw \<noteq> []" "C nw = Some conf" "delegatePrivateKey conf = Some key"
       "key \<noteq> []" "truthy (destinationAddress conf)" "getKeypairFromPrivateKey L key = Inl e"
  proof -
    have "transferApprovalData L R C a w =
        ((Some (setExecuted (dateNow R w) (''Transfer error: '' @ e)), None), w)"
      using that by (rule transferApprovalData_invalid_key)
    with getKeypairFromPrivateKey_error [OF that(7)] show ?thesis by simp
  qed
  show ?thesis
    using loop bad
      transferApprovalData_skip(1) [where a = a and L = L and R = R and C = C and w = w]
      transferApprovalData_skip(2) [where a = a and L = L and R = R and C = C and w = w
        and nw = nw]
      transferApprovalData_skip(3) [where a = a and L = L and R = R and C = C and w = w
        and nw = nw and conf = conf]
      transferApprovalData_mismatch [where a = a and L = L and R = R and C = C and w = w
        and nw = nw and conf = conf and key = key and kp = kp]
    by blast
qed

theorem C8_configuration_problems_witness:
  "transferApprovalData exLib exRpc (exTransferConfig ''goodkey'')
       ((applySet (setVerified 5 []) (exDoc 1 ''sigOK'' [''A'']))\<lparr>network := Some ''devnet''\<rparr>) 0 =
     ((None, None), 0) \<and>
   transferApprovalData exLib exRpc (exTransferConfig ''goodkey'')
       ((applySet (setVerified 5 []) (exDoc 1 ''sigOK'' [''A'']))\<lparr>delegate := Some ''OTHER''\<rparr>) 0 =
     ((None, None), 0) \<and>
   transferApprovalData exLib exRpc (exTransferConfig [])
       (applySet (setVerified 5 []) (exDoc 1 ''sigOK'' [''A''])) 0 = ((None, None), 0) \<and>
   transferApprovalData exLib exRpc (exTransferConfig ''garbage'')
       (applySet (setVerified 5 []) (exDoc 1 ''sigOK'' [''A''])) 0 =
     ((Some (setExecuted 1000
         (''Transfer error: '' @
          ''Invalid private key format. Use base64 encoded 64-byte secret key or JSON array.'')),
       None), 0)"
  using
    C8_configuration_problems [where L = exLib and R = exRpc
      and C = "exTransferConfig ''goodkey''" and w = 0 and nw = "''devnet''"
      and a = "(applySet (setVerified 5 []) (exDoc 1 ''sigOK'' [''A'']))\<lparr>network := Some ''devnet''\<rparr>"]
    C8_configuration_problems [where L = exLib and R = exRpc
      and C = "exTransferConfig ''goodkey''" and w = 0 and nw = "''mainnet-beta''"
      and a = "(applySet (setVerified 5 []) (exDoc 1 ''sigOK'' [''A'']))\<lparr>delegate := Some ''OTHER''\<rparr>"
      and conf = "\<lparr> t_rpcUrl = ''https://rpc'', delegatePrivateKey = Some ''goodkey'',
                      destinationAddress = Some ''DEST'' \<rparr>"
      and key = "''goodkey''"
      and kp = "\<lparr> publicKey = ''DELEGATE'', secretKey = replicate 64 0 \<rparr>"]
    C8_configuration_problems [where L = exLib and R = exRpc
      and C = "exTransferConfig []" and w = 0 and nw = "''mainnet-beta''"
      and a = "applySet (setVerified 5 []) (exDoc 1 ''sigOK'' [''A''])"
      and conf = "\<lparr> t_rpcUrl = ''https://rpc'', delegatePrivateKey = Some [],
                      destinationAddress = Some ''DEST'' \<rparr>"]
    C8_configuration_problems [where L = exLib and R = exRpc
      and C = "exTransferConfig ''garbage''" and w = 0 and nw = "''mainnet-beta''"
      and a = "applySet (setVerified 5 []) (exDoc 1 ''sigOK'' [''A''])"
      and conf = "\<lparr> t_rpcUrl = ''https://rpc'', delegatePrivateKey = Some ''garbage'',
                      destinationAddress = Some ''DEST'' \<rparr>"
      and key = "''garbage''"
      and e = "''Invalid private key format. Use base64 encoded 64-byte secret key or JSON array.''"]
  by (simp add: exTransferConfig_def exDoc_def insertedDoc_def applySet_def truthy_def
      getKeypairFromPrivateKey_def exLib_def exRpc_def)

text \<open>
  C8 as stated counts invalid signing-key material among the problems for which the record
  is skipped unchanged. With a key that cannot be decoded, a verified record ends with
  \<open>executed: true\<close>, that is, as TransferFailed.
\<close>

theorem C8_invalid_key_is_terminal_counterexample:
  "executed (hd (fst (fst (transferApprovedTokens exLib exRpc (exTransferConfig ''garbage'')
      ([applySet (setVerified 5 []) (exDoc 1 ''sigOK'' [''A''])], 0))))) = Some True \<and>
   lifecycleState (hd (fst (fst (transferApprovedTokens exLib exRpc (exTransferConfig ''garbage'')
      ([applySet (setVerified 5 []) (exDoc 1 ''sigOK'' [''A''])], 0))))) = TransferFailed \<and>
   fst (fst (transferApprovedTokens exLib exRpc (exTransferConfig ''garbage'')
      ([applySet (setVerified 5 []) (exDoc 1 ''sigOK'' [''A''])], 0))) \<noteq>
     [applySet (setVerified 5 []) (exDoc 1 ''sigOK'' [''A''])]"
  by (simp add: transferApprovedTokens_def transferQuery_def transferApprovalData_def
      getKeypairFromPrivateKey_def exTransferConfig_def exDoc_def insertedDoc_def exLib_def
      exRpc_def truthy_def setExecuted_def setVerified_def emptySet_def applySet_def orElse_def
      lifecycleState_def)

text \<open>
  C9. The transfer script's query selects exactly the documents whose \<open>verified\<close> is true and
  whose \<open>executed\<close> and \<open>transferred\<close> are not true. Every transaction a cycle hands to
  \<open>sendRawTransaction\<close> belongs to a document of the collection that satisfied this at the
  start of the cycle; so, with the \<open>_id\<close>s of the collection distinct, nothing is sent for a
  document whose \<open>verified\<close> is not true.
\<close>

theorem C9_transfer_selects_only_verified:
  "(transferQuery d =
      (verified d = Some True \<and> executed d \<noteq> Some True \<and> transferred d \<noteq> Some True)) \<and>
   (\<forall>p\<in>set (snd (transferApprovedTokens L R C (store, w))).
      \<exists>x\<in>set store. doc_id x = fst p \<and> verified x = Some True \<and> executed x \<noteq> Some True \<and>
        transferred x \<noteq> Some True) \<and>
   (distinct (map doc_id store) \<and> d \<in> set store \<and> verified d \<noteq> Some True \<longrightarrow>
      doc_id d \<notin> fst ` set (snd (transferApprovedTokens L R C (store, w))))"
proof -
  have sent: "\<exists>x\<in>set store. doc_id x = fst p \<and> verified x = Some True \<and>
        executed x \<noteq> Some True \<and> transferred x \<noteq> Some True"
    if "p \<in> set (snd (transferApprovedTokens L R C (store, w)))" for p
  proof -
    from that have "p \<in> set (snd (transferLoop L R C (filter transferQuery store) ((store, w), [])))"
      by (auto simp: transferApprovedTokens_def Let_def split: if_splits)
    with transferLoop_sent [of L R C "filter transferQuery store" "(store, w)" "[]"]
    have "fst p \<in> doc_id ` set (filter transferQuery store)" by auto
    then show ?thesis by (auto simp: transferQuery_def)
  qed
  have never: "doc_id d \<notin> fst ` set (snd (transferApprovedTokens L R C (store, w)))"
    if "distinct (map doc_id store)" "d \<in> set store" "verified d \<noteq> Some True"
  proof
    assume "doc_id d \<in> fst ` set (snd (transferApprovedTokens L R C (store, w)))"
    then obtain p where "p \<in> set (snd (transferApprovedTokens L R C (store, w)))"
      "fst p = doc_id d" by auto
    with sent obtain x where "x \<in> set store" "doc_id x = doc_id d" "verified x = Some True"
      by metis
    with that distinct_ids_eq [of store x d] show False by auto
  qed
  show ?thesis using sent never by (auto simp: transferQuery_def)
qed


theorem C9_transfer_selects_only_verified_witness:
  "transferQuery (applySet (setVerified 5 []) (exDoc 1 ''sigOK'' [''A''])) \<and>
   \<not> transferQuery (exDoc 2 ''sigOK'' [''A'']) \<and>
   doc_id (exDoc 2 ''sigOK'' [''A'']) \<notin>
     fst ` set (snd (transferApprovedTokens exLib exRpc (exTransferConfig ''goodkey'')
       ([applySet (setVerified 5 []) (exDoc 1 ''sigOK'' [''A'']), exDoc 2 ''sigOK'' [''A'']], 0)))"
proof -
  let ?v = "applySet (setVerified 5 []) (exDoc 1 ''sigOK'' [''A''])"
  let ?u = "exDoc 2 ''sigOK'' [''A'']"
  have h: "distinct (map doc_id [?v, ?u]) \<and> ?u \<in> set [?v, ?u] \<and> verified ?u \<noteq> Some True"
    by (simp add: exDoc_def insertedDoc_def)
  have q: "transferQuery ?v" "\<not> transferQuery ?u"
    by (simp_all add: transferQuery_def exDoc_def insertedDoc_def applySet_def setVerified_def
        emptySet_def orElse_def)
  from h C9_transfer_selects_only_verified [where L = exLib and R = exRpc
      and C = "exTransferConfig ''goodkey''" and w = 0 and d = ?u and store = "[?v, ?u]"]
  have "doc_id ?u \<notin>
     fst ` set (snd (transferApprovedTokens exLib exRpc (exTransferConfig ''goodkey'')
       ([?v, ?u], 0)))"
    by blast
  with q show ?thesis by blast
qed

text \<open>
  C1, as the code has it. Every write of the verifier and of the transfer script is an
  \<open>updateOne\<close> whose filter is the \<open>_id\<close> of the document read at the start of the cycle and
  nothing else. Its \<open>$set\<close> document is computed from that earlier reading and from the
  ledger; it is applied to the stored document with that \<open>_id\<close> whatever the stored
  document's flags are by then, and each flag it sets is overwritten.
\<close>

theorem C1_updates_are_keyed_by_id_only:
  assumes "doc_id d = doc_id a" and "\<forall>x\<in>set pre. doc_id x \<noteq> doc_id a"
  shows
   "(verifyApprovalData L R C a w = Inr (Some s, w') \<longrightarrow>
       verifyLoop L R C [a] (pre @ d # post, w) = (pre @ applySet s d # post, w')) \<and>
    (transferApprovalData L R T a w = ((Some s, tx), w') \<longrightarrow>
       fst (transferLoop L R T [a] ((pre @ d # post, w), sent)) =
         (pre @ applySet s d # post, w')) \<and>
    (set_executed s = Some b \<longrightarrow> executed (applySet s d) = Some b) \<and>
    (set_verified s = Some b \<longrightarrow> verified (applySet s d) = Some b) \<and>
    (set_transferred s = Some b \<longrightarrow> transferred (applySet s d) = Some b)"
proof -
  have upd: "updateOne (\<lambda>x. doc_id x = doc_id a) s (pre @ d # post) = pre @ applySet s d # post"
    using assms(2,1) by (rule updateOne_split)
  have v: "verifyLoop L R C [a] (pre @ d # post, w) = (pre @ applySet s d # post, w')"
    if "verifyApprovalData L R C a w = Inr (Some s, w')"
    using that upd by simp
  have t: "fst (transferLoop L R T [a] ((pre @ d # post, w), sent)) =
         (pre @ applySet s d # post, w')"
    if "transferApprovalData L R T a w = ((Some s, tx), w')"
    using that upd by simp
  from v t applySet_flags [of s b d] show ?thesis by blast
qed

theorem C1_updates_are_keyed_by_id_only_witness:
  "verifyLoop exLib exRpc (exVerifierConfig (Some ''DELEGATE'')) [exDoc 1 ''gone'' [''A'']]
       ([exDoc 7 ''sigOK'' [''A''],
         applySet (setTransferred 9 ''settled'' []) (applySet (setVerified 5 []) (exDoc 1 ''gone'' [''A'']))],
        0) =
     ([exDoc 7 ''sigOK'' [''A''],
       applySet (setExecuted 1001 ''Transaction not found on-chain'')
         (applySet (setTransferred 9 ''settled'' [])
            (applySet (setVerified 5 []) (exDoc 1 ''gone'' [''A''])))], 1)"
  using
    C1_updates_are_keyed_by_id_only [where a = "exDoc 1 ''gone'' [''A'']"
      and d = "applySet (setTransferred 9 ''settled'' [])
                 (applySet (setVerified 5 []) (exDoc 1 ''gone'' [''A'']))"
      and pre = "[exDoc 7 ''sigOK'' [''A'']]" and post = "[]"
      and L = exLib and R = exRpc and C = "exVerifierConfig (Some ''DELEGATE'')" and w = 0
      and w' = 1 and s = "setExecuted 1001 ''Transaction not found on-chain''"]
  by (simp add: verifyApprovalData_def verifyTransaction_def exVerifierConfig_def exDoc_def
      insertedDoc_def truthy_def delegateToCheck_def exLib_def exRpc_def)

text \<open>
  C1 as stated says that of two cycles racing on one record at most one update succeeds and
  the other changes nothing. Two verifier cycles that both read the record while it was
  Submitted: the first writes \<open>verified: true\<close>; the second, for which the ledger no longer
  answers, then writes \<open>executed: true\<close> on the record the first has just verified.
\<close>

theorem C1_second_racing_update_succeeds_counterexample:
  "fst (verifyLoop exLib exRpc (exVerifierConfig (Some ''DELEGATE''))
          [exDoc 1 ''sigFlaky'' [''A'']] ([exDoc 1 ''sigFlaky'' [''A'']], 0)) =
     [applySet (setVerified 1002
         [\<lparr> vr_tokenAccount = ''A'', vr_verified = True,
            vr_delegatedAmount = Some (toString_bigint 500), vr_reason = None \<rparr>])
        (exDoc 1 ''sigFlaky'' [''A''])] \<and>
   fst (verifyLoop exLib exRpc (exVerifierConfig (Some ''DELEGATE''))
          [exDoc 1 ''sigFlaky'' [''A'']]
          ([applySet (setVerified 1002
              [\<lparr> vr_tokenAccount = ''A'', vr_verified = True,
                 vr_delegatedAmount = Some (toString_bigint 500), vr_reason = None \<rparr>])
             (exDoc 1 ''sigFlaky'' [''A''])], 10)) =
     [applySet (setExecuted 1011 ''Transaction fetch error: fetch failed'')
        (applySet (setVerified 1002
           [\<lparr> vr_tokenAccount = ''A'', vr_verified = True,
              vr_delegatedAmount = Some (toString_bigint 500), vr_reason = None \<rparr>])
           (exDoc 1 ''sigFlaky'' [''A'']))] \<and>
   applySet (setExecuted 1011 ''Transaction fetch error: fetch failed'')
        (applySet (setVerified 1002
           [\<lparr> vr_tokenAccount = ''A'', vr_verified = True,
              vr_delegatedAmount = Some (toString_bigint 500), vr_reason = None \<rparr>])
           (exDoc 1 ''sigFlaky'' [''A''])) \<noteq>
     applySet (setVerified 1002
         [\<lparr> vr_tokenAccount = ''A'', vr_verified = True,
            vr_delegatedAmount = Some (toString_bigint 500), vr_reason = None \<rparr>])
        (exDoc 1 ''sigFlaky'' [''A''])"
  by (simp add: verifyApprovalData_def verifyTransaction_def verifyApproval_def
      exVerifierConfig_def exDoc_def insertedDoc_def exGrant_def truthy_def delegateToCheck_def
      exLib_def exRpc_def applySet_def setExecuted_def setVerified_def emptySet_def orElse_def)

text \<open>
  C5, as the code has it. Take a collection with distinct \<open>_id\<close>s. Over one cycle of the
  verifier that writes to the collection as it read it, every document either keeps its
  lifecycle state or moves from Submitted to Verified, from Submitted to VerificationFailed,
  or from VerificationFailed to Verified; a document that is Verified, Transferred or
  TransferFailed keeps its state. Over one such cycle of the transfer script every document
  either keeps its state or moves from Verified to Transferred or from Verified to
  TransferFailed; a document that is not Verified keeps its state. No cycle adds or removes
  a document. The writes are keyed by \<open>_id\<close> alone: when the loop of the verifier works on
  records \<open>a # rest\<close> that were read earlier, the \<open>$set\<close> it computes from \<open>a\<close> is applied to
  the document that has this \<open>_id\<close> now, and if that document has become Verified since and
  the \<open>$set\<close> is the one written for failed grants, the document goes back from Verified to
  VerificationFailed. In the same way the \<open>$set\<close> that the loop of the transfer script
  computes from a record read earlier is applied to the document as it is stored now.
\<close>

theorem C5_lifecycle_edges:
  assumes "distinct (map doc_id store)" and "i < length store"
  shows
   "length (fst (verifySolanaApprovals L R C (store, w))) = length store \<and>
    (lifecycleState (fst (verifySolanaApprovals L R C (store, w)) ! i) = lifecycleState (store ! i) \<or>
     (lifecycleState (store ! i), lifecycleState (fst (verifySolanaApprovals L R C (store, w)) ! i)) \<in>
       {(Submitted, Verified), (Submitted, VerificationFailed), (VerificationFailed, Verified)}) \<and>
    (lifecycleState (store ! i) \<in> {Verified, Transferred, TransferFailed} \<longrightarrow>
       lifecycleState (fst (verifySolanaApprovals L R C (store, w)) ! i) =
         lifecycleState (store ! i)) \<and>
    length (fst (fst (transferApprovedTokens L R T (store, w)))) = length store \<and>
    (lifecycleState (fst (fst (transferApprovedTokens L R T (store, w))) ! i) =
       lifecycleState (store ! i) \<or>
     (lifecycleState (store ! i),
      lifecycleState (fst (fst (transferApprovedTokens L R T (store, w))) ! i)) \<in>
       {(Verified, Transferred), (Verified, TransferFailed)}) \<and>
    (lifecycleState (store ! i) \<noteq> Verified \<longrightarrow>
       lifecycleState (fst (fst (transferApprovedTokens L R T (store, w))) ! i) =
         lifecycleState (store ! i)) \<and>
    (doc_id (store ! i) = doc_id a \<and> doc_id a \<notin> doc_id ` set rest \<and>
     verifyApprovalData L R C a w = Inr (Some s, w') \<longrightarrow>
       length (fst (verifyLoop L R C (a # rest) (store, w))) = length store \<and>
       fst (verifyLoop L R C (a # rest) (store, w)) ! i = applySet s (store ! i)) \<and>
    (doc_id (store ! i) = doc_id a \<and> doc_id a \<notin> doc_id ` set rest \<and>
     verifyApprovalData L R C a w = Inr (Some (setUnverified now rs), w') \<and>
     lifecycleState (store ! i) = Verified \<longrightarrow>
       lifecycleState (fst (verifyLoop L R C (a # rest) (store, w)) ! i) = VerificationFailed) \<and>
    (doc_id (store ! i) = doc_id a \<and> doc_id a \<notin> doc_id ` set rest \<and>
     transferApprovalData L R T a w = ((Some s, tx), w') \<longrightarrow>
       length (fst (fst (transferLoop L R T (a # rest) ((store, w), sent)))) = length store \<and>
       fst (fst (transferLoop L R T (a # rest) ((store, w), sent))) ! i = applySet s (store ! i))"
proof -
  from verifySolanaApprovals_nth [OF assms, of L R C w]
  have v: "length (fst (verifySolanaApprovals L R C (store, w))) = length store \<and>
    (lifecycleState (fst (verifySolanaApprovals L R C (store, w)) ! i) = lifecycleState (store ! i) \<or>
     (lifecycleState (store ! i), lifecycleState (fst (verifySolanaApprovals L R C (store, w)) ! i)) \<in>
       {(Submitted, Verified), (Submitted, VerificationFailed), (VerificationFailed, Verified)})"
    using verifier_edges [of "store ! i" L R C] by metis
  from transferApprovedTokens_nth [OF assms, of L R T w]
  have t: "length (fst (fst (transferApprovedTokens L R T (store, w)))) = length store \<and>
    (lifecycleState (fst (fst (transferApprovedTokens L R T (store, w))) ! i) =
       lifecycleState (store ! i) \<or>
     (lifecycleState (store ! i),
      lifecycleState (fst (fst (transferApprovedTokens L R T (store, w))) ! i)) \<in>
       {(Verified, Transferred), (Verified, TransferFailed)})"
    using transfer_edges [of "store ! i" L R T] by metis
  have v': "lifecycleState (fst (verifySolanaApprovals L R C (store, w)) ! i) =
      lifecycleState (store ! i)"
    if "lifecycleState (store ! i) \<in> {Verified, Transferred, TransferFailed}"
    using v that by auto
  have t': "lifecycleState (fst (fst (transferApprovedTokens L R T (store, w))) ! i) =
      lifecycleState (store ! i)"
    if "lifecycleState (store ! i) \<noteq> Verified"
    using t that by auto
  have sv: "length (fst (verifyLoop L R C (a # rest) (store, w))) = length store \<and>
      fst (verifyLoop L R C (a # rest) (store, w)) ! i = applySet s (store ! i)"
    if "doc_id (store ! i) = doc_id a" "doc_id a \<notin> doc_id ` set rest"
      "verifyApprovalData L R C a w = Inr (Some s, w')" for s
    using that(3) assms that(1,2) by (rule verifyLoop_head_write)
  have vf: "lifecycleState (applySet (setUnverified now rs) (store ! i)) = VerificationFailed"
    if "lifecycleState (store ! i) = Verified"
    using that
    by (simp add: lifecycleState_def applySet_def setUnverified_def emptySet_def orElse_def
        split: if_splits)
  have sb: "lifecycleState (fst (verifyLoop L R C (a # rest) (store, w)) ! i) = VerificationFailed"
    if "doc_id (store ! i) = doc_id a" "doc_id a \<notin> doc_id ` set rest"
      "verifyApprovalData L R C a w = Inr (Some (setUnverified now rs), w')"
      "lifecycleState (store ! i) = Verified"
    using sv [OF that(1,2,3)] vf [OF that(4)] by simp
  have st: "length (fst (fst (transferLoop L R T (a # rest) ((store, w), sent)))) = length store \<and>
      fst (fst (transferLoop L R T (a # rest) ((store, w), sent))) ! i = applySet s (store ! i)"
    if "doc_id (store ! i) = doc_id a" "doc_id a \<notin> doc_id ` set rest"
      "transferApprovalData L R T a w = ((Some s, tx), w')"
    using transferLoop_head_write [OF that(3) assms that(1,2), of sent] by simp
  show ?thesis
    apply (intro conjI)
    subgoal using v by blast
    subgoal using v by blast
    subgoal using v' by blast
    subgoal using t by blast
    subgoal using t by blast
    subgoal using t' by blast
    subgoal using sv by blast
    subgoal using sb by blast
    subgoal using st by blast
    done
qed

theorem C5_lifecycle_edges_witness:
  "lifecycleState ([exDoc 1 ''sigOK'' [''A'']] ! 0) = Submitted \<and>
   lifecycleState (fst (verifySolanaApprovals exLib exRpc (exVerifierConfig (Some ''DELEGATE''))
       ([exDoc 1 ''sigOK'' [''A'']], 0)) ! 0) = Verified \<and>
   length (fst (verifySolanaApprovals exLib exRpc (exVerifierConfig (Some ''DELEGATE''))
       ([exDoc 1 ''sigOK'' [''A'']], 0))) = length [exDoc 1 ''sigOK'' [''A'']] \<and>
   length (fst (fst (transferApprovedTokens exLib exRpc (exTransferConfig ''goodkey'')
       ([exDoc 1 ''sigOK'' [''A'']], 0)))) = length [exDoc 1 ''sigOK'' [''A'']] \<and>
   lifecycleState (fst (fst (transferApprovedTokens exLib exRpc (exTransferConfig ''goodkey'')
       ([exDoc 1 ''sigOK'' [''A'']], 0))) ! 0) = Submitted \<and>
   lifecycleState ([applySet (setVerified 5 []) (exDoc 1 ''sigOK'' [''B''])] ! 0) = Verified \<and>
   lifecycleState (fst (verifyLoop exLib exRpc (exVerifierConfig (Some ''DELEGATE''))
       [exDoc 1 ''sigOK'' [''B'']]
       ([applySet (setVerified 5 []) (exDoc 1 ''sigOK'' [''B''])], 0)) ! 0) = VerificationFailed \<and>
   fst (verifyLoop exLib exRpc (exVerifierConfig (Some ''DELEGATE''))
       [exDoc 1 ''sigOK'' [''B'']]
       ([applySet (setVerified 5 []) (exDoc 1 ''sigOK'' [''B''])], 0)) ! 0 =
     applySet (setUnverified 1002
         [\<lparr> vr_tokenAccount = ''B'', vr_verified = False, vr_delegatedAmount = None,
            vr_reason = Some ''Delegate not set'' \<rparr>])
       (applySet (setVerified 5 []) (exDoc 1 ''sigOK'' [''B''])) \<and>
   lifecycleState (fst (verifySolanaApprovals exLib exRpc (exVerifierConfig (Some ''DELEGATE''))
       ([applySet (setVerified 5 []) (exDoc 1 ''sigOK'' [''B''])], 0)) ! 0) = Verified \<and>
   fst (fst (transferLoop exLib exRpc (exTransferConfig ''goodkey'')
       [applySet (setVerified 5 []) (exDoc 1 ''sigOK'' [''Z''])]
       (([applySet (setExecuted 8 ''Transfer error: timeout'')
            (applySet (setVerified 5 []) (exDoc 1 ''sigOK'' [''Z'']))], 0), []))) ! 0 =
     applySet (setNothingToTransfer 1001
         [\<lparr> tr_tokenAccount = ''Z'', tr_mint = None, tr_amount = None, tr_success = False,
            tr_reason = Some ''No balance to transfer'' \<rparr>])
       (applySet (setExecuted 8 ''Transfer error: timeout'')
          (applySet (setVerified 5 []) (exDoc 1 ''sigOK'' [''Z''])))"
proof -
  let ?C = "exVerifierConfig (Some ''DELEGATE'')"
  let ?T = "exTransferConfig ''goodkey''"
  let ?rB = "\<lparr> vr_tokenAccount = ''B'', vr_verified = False, vr_delegatedAmount = None,
              vr_reason = Some ''Delegate not set'' \<rparr>"
  let ?v = "applySet (setVerified 5 []) (exDoc 1 ''sigOK'' [''B''])"
  have h: "distinct (map doc_id [exDoc 1 ''sigOK'' [''A'']])" "0 < length [exDoc 1 ''sigOK'' [''A'']]"
    by simp_all
  have e: "lifecycleState ([exDoc 1 ''sigOK'' [''A'']] ! 0) = Submitted"
    "lifecycleState (fst (verifySolanaApprovals exLib exRpc ?C
       ([exDoc 1 ''sigOK'' [''A'']], 0)) ! 0) = Verified"
    by (simp_all add: verifySolanaApprovals_def verifyQuery_def verifyApprovalData_def
        verifyTransaction_def verifyApproval_def exVerifierConfig_def exDoc_def insertedDoc_def
        exGrant_def truthy_def delegateToCheck_def exLib_def exRpc_def applySet_def
        setVerified_def emptySet_def orElse_def lifecycleState_def)
  note one = C5_lifecycle_edges [OF h, where L = exLib and R = exRpc and C = ?C and T = ?T
      and w = 0]
  have len: "length (fst (verifySolanaApprovals exLib exRpc ?C ([exDoc 1 ''sigOK'' [''A'']], 0))) =
      length [exDoc 1 ''sigOK'' [''A'']]"
    "length (fst (fst (transferApprovedTokens exLib exRpc ?T ([exDoc 1 ''sigOK'' [''A'']], 0)))) =
      length [exDoc 1 ''sigOK'' [''A'']]"
    using one by blast+
  have "lifecycleState ([exDoc 1 ''sigOK'' [''A'']] ! 0) \<noteq> Verified"
    using e(1) by simp
  with one have kept: "lifecycleState (fst (fst (transferApprovedTokens exLib exRpc ?T
       ([exDoc 1 ''sigOK'' [''A'']], 0))) ! 0) = lifecycleState ([exDoc 1 ''sigOK'' [''A'']] ! 0)"
    by blast
  have h2: "distinct (map doc_id [?v])" "0 < length [?v]"
    by simp_all
  have p: "doc_id ([?v] ! 0) = doc_id (exDoc 1 ''sigOK'' [''B''])"
    "doc_id (exDoc 1 ''sigOK'' [''B'']) \<notin> doc_id ` set []"
    "verifyApprovalData exLib exRpc ?C (exDoc 1 ''sigOK'' [''B'']) 0 =
       Inr (Some (setUnverified 1002 [?rB]), 2)"
    "lifecycleState ([?v] ! 0) = Verified"
    by (simp_all add: verifyApprovalData_def verifyTransaction_def verifyApproval_def
        exVerifierConfig_def exDoc_def insertedDoc_def exGrant_def truthy_def delegateToCheck_def
        exLib_def exRpc_def applySet_def setVerified_def emptySet_def orElse_def
        lifecycleState_def)
  note two = C5_lifecycle_edges [OF h2, where L = exLib and R = exRpc and C = ?C and T = ?T
      and w = 0 and a = "exDoc 1 ''sigOK'' [''B'']" and rest = "[]" and now = 1002
      and rs = "[?rB]" and w' = 2]
  from two p have stale: "lifecycleState (fst (verifyLoop exLib exRpc ?C
       [exDoc 1 ''sigOK'' [''B'']] ([?v], 0)) ! 0) = VerificationFailed"
    by blast
  from two p have written: "fst (verifyLoop exLib exRpc ?C
       [exDoc 1 ''sigOK'' [''B'']] ([?v], 0)) ! 0 = applySet (setUnverified 1002 [?rB]) ([?v] ! 0)"
    by blast
  have "lifecycleState ([?v] ! 0) \<in> {Verified, Transferred, TransferFailed}"
    using p(4) by simp
  with two have stays: "lifecycleState (fst (verifySolanaApprovals exLib exRpc ?C ([?v], 0)) ! 0) =
      lifecycleState ([?v] ! 0)"
    by blast
  let ?z = "applySet (setVerified 5 []) (exDoc 1 ''sigOK'' [''Z''])"
  let ?x = "applySet (setExecuted 8 ''Transfer error: timeout'') ?z"
  let ?fZ = "\<lparr> tr_tokenAccount = ''Z'', tr_mint = None, tr_amount = None, tr_success = False,
            tr_reason = Some ''No balance to transfer'' \<rparr>"
  have h3: "distinct (map doc_id [?x])" "0 < length [?x]"
    by simp_all
  have p3: "doc_id ([?x] ! 0) = doc_id ?z" "doc_id ?z \<notin> doc_id ` set []"
    "transferApprovalData exLib exRpc ?T ?z 0 =
       ((Some (setNothingToTransfer 1001 [?fZ]), None), 1)"
    by (simp_all add: transferApprovalData_def transferBatch_def transferApproval_def
        failedTransfer_def getKeypairFromPrivateKey_def exTransferConfig_def exDoc_def
        insertedDoc_def exGrant_def truthy_def exLib_def exRpc_def applySet_def setVerified_def
        emptySet_def orElse_def)
  note three = C5_lifecycle_edges [OF h3, where L = exLib and R = exRpc and C = ?C and T = ?T
      and w = 0 and a = ?z and rest = "[]" and s = "setNothingToTransfer 1001 [?fZ]"
      and tx = None and w' = 1 and sent = "[]"]
  from three p3 have late: "fst (fst (transferLoop exLib exRpc ?T [?z] (([?x], 0), []))) ! 0 =
      applySet (setNothingToTransfer 1001 [?fZ]) ([?x] ! 0)"
    by blast
  show ?thesis
    apply (intro conjI)
    subgoal by (rule e(1))
    subgoal by (rule e(2))
    subgoal by (rule len(1))
    subgoal by (rule len(2))
    subgoal using kept e(1) by simp
    subgoal by (rule p(4))
    subgoal by (rule stale)
    subgoal using written by simp
    subgoal using stays p(4) by simp
    subgoal using late by simp
    done
qed

text \<open>
  C5 as stated allows no edge out of VerificationFailed and none backwards. A record whose
  only grant has no delegate yet becomes VerificationFailed in one cycle of the verifier and,
  once the ledger shows the delegate, Verified in a later one. And when a cycle that read the
  record while it was Submitted, and found the grant without delegate, writes after another
  cycle has verified the record, the record goes from Verified to VerificationFailed.
\<close>

theorem C5_failed_then_verified_counterexample:
  "lifecycleState (hd (fst (verifySolanaApprovals exLib exRpc (exVerifierConfig (Some ''DELEGATE''))
       ([exDoc 1 ''sigOK'' [''C'']], 0)))) = VerificationFailed \<and>
   lifecycleState (hd (fst (verifySolanaApprovals exLib exRpc (exVerifierConfig (Some ''DELEGATE''))
       (fst (verifySolanaApprovals exLib exRpc (exVerifierConfig (Some ''DELEGATE''))
          ([exDoc 1 ''sigOK'' [''C'']], 0)), 10)))) = Verified \<and>
   lifecycleState (exDoc 1 ''sigOK'' [''C'']) = Submitted \<and>
   lifecycleState (hd (fst (verifySolanaApprovals exLib exRpc (exVerifierConfig (Some ''DELEGATE''))
       ([exDoc 1 ''sigOK'' [''C'']], 10)))) = Verified \<and>
   lifecycleState (hd (fst (verifyLoop exLib exRpc (exVerifierConfig (Some ''DELEGATE''))
       (filter verifyQuery [exDoc 1 ''sigOK'' [''C'']])
       (fst (verifySolanaApprovals exLib exRpc (exVerifierConfig (Some ''DELEGATE''))
          ([exDoc 1 ''sigOK'' [''C'']], 10)), 0)))) = VerificationFailed"
  by (simp add: verifySolanaApprovals_def verifyQuery_def verifyApprovalData_def
      verifyTransaction_def verifyApproval_def exVerifierConfig_def exDoc_def insertedDoc_def
      exGrant_def truthy_def delegateToCheck_def exLib_def exRpc_def applySet_def
      setVerified_def setUnverified_def emptySet_def orElse_def lifecycleState_def)

text \<open>
  C2, as the code has it. On a collection with distinct \<open>_id\<close>s: a document whose
  \<open>verified\<close> is true or whose \<open>executed\<close> is not false (in particular one that is Verified
  or TransferFailed, or one the verifier closed with \<open>executed: true\<close>) is not selected by the
  verifier's query and is the same after a cycle of the verifier; a document whose
  \<open>transferred\<close> or \<open>executed\<close> is true (in particular one that is Transferred or
  TransferFailed) is not selected by the transfer script's query and is the same after a
  cycle of the transfer script. The record that the verifier writes when a grant failed
  (\<open>verified: false\<close>, \<open>executed\<close> left false) is VerificationFailed and not terminal for the
  verifier: it still matches the verifier's query, and whenever the loop of a cycle is at
  such a record and its grants fail again, the cycle writes \<open>verifiedAt\<close>,
  \<open>verificationResults\<close> and \<open>reason\<close> anew; so it does when the record is the first one the
  cycle selected.
\<close>

theorem C2_rerun_is_noop:
  assumes "distinct (map doc_id store)" and "i < length store"
  shows
   "(verified (store ! i) = Some True \<or> executed (store ! i) \<noteq> Some False \<longrightarrow>
       \<not> verifyQuery (store ! i) \<and>
       fst (verifySolanaApprovals L R C (store, w)) ! i = store ! i) \<and>
    (lifecycleState (store ! i) = Verified \<or> lifecycleState (store ! i) = TransferFailed \<longrightarrow>
       \<not> verifyQuery (store ! i) \<and>
       fst (verifySolanaApprovals L R C (store, w)) ! i = store ! i) \<and>
    (transferred (store ! i) = Some True \<or> executed (store ! i) = Some True \<longrightarrow>
       \<not> transferQuery (store ! i) \<and>
       fst (fst (transferApprovedTokens L R T (store, w))) ! i = store ! i) \<and>
    (lifecycleState (store ! i) = Transferred \<or> lifecycleState (store ! i) = TransferFailed \<longrightarrow>
       \<not> transferQuery (store ! i) \<and>
       fst (fst (transferApprovedTokens L R T (store, w))) ! i = store ! i) \<and>
    (verifyQuery (store ! i) \<longrightarrow>
       verifyQuery (applySet (setUnverified now rs) (store ! i)) \<and>
       verified (applySet (setUnverified now rs) (store ! i)) = Some False \<and>
       executed (applySet (setUnverified now rs) (store ! i)) = Some False \<and>
       (transferred (store ! i) \<noteq> Some True \<longrightarrow>
          lifecycleState (applySet (setUnverified now rs) (store ! i)) = VerificationFailed)) \<and>
    (verifyQuery (store ! i) \<and> doc_id (store ! i) \<notin> doc_id ` set rest \<and>
     verifyApprovalData L R C (store ! i) w = Inr (Some (setUnverified now rs), w') \<longrightarrow>
       fst (verifyLoop L R C (store ! i # rest) (store, w)) ! i =
         applySet (setUnverified now rs) (store ! i) \<and>
       verifiedAt (fst (verifyLoop L R C (store ! i # rest) (store, w)) ! i) = Some now \<and>
       verificationResults (fst (verifyLoop L R C (store ! i # rest) (store, w)) ! i) = Some rs \<and>
       reason (fst (verifyLoop L R C (store ! i # rest) (store, w)) ! i) =
         Some ''Some approvals failed verification'' \<and>
       verifyQuery (fst (verifyLoop L R C (store ! i # rest) (store, w)) ! i)) \<and>
    (filter verifyQuery store = store ! i # rest \<and>
     verifyApprovalData L R C (store ! i) w = Inr (Some (setUnverified now rs), w') \<longrightarrow>
       fst (verifySolanaApprovals L R C (store, w)) ! i =
         applySet (setUnverified now rs) (store ! i) \<and>
       verifiedAt (fst (verifySolanaApprovals L R C (store, w)) ! i) = Some now \<and>
       verificationResults (fst (verifySolanaApprovals L R C (store, w)) ! i) = Some rs \<and>
       reason (fst (verifySolanaApprovals L R C (store, w)) ! i) =
         Some ''Some approvals failed verification'' \<and>
       verifyQuery (fst (verifySolanaApprovals L R C (store, w)) ! i))"
proof -
  have v: "fst (verifySolanaApprovals L R C (store, w)) ! i = store ! i"
    if "\<not> verifyQuery (store ! i)"
    using verifySolanaApprovals_nth [OF assms, of L R C w] that by blast
  have t: "fst (fst (transferApprovedTokens L R T (store, w))) ! i = store ! i"
    if "\<not> transferQuery (store ! i)"
    using transferApprovedTokens_nth [OF assms, of L R T w] that by blast
  have v1: "\<not> verifyQuery (store ! i)"
    if "verified (store ! i) = Some True \<or> executed (store ! i) \<noteq> Some False"
    using that by (auto simp: verifyQuery_def)
  have v2: "\<not> verifyQuery (store ! i)"
    if "lifecycleState (store ! i) = Verified \<or> lifecycleState (store ! i) = TransferFailed"
    using that by (auto simp: verifyQuery_def lifecycleState_def split: if_splits)
  have t1: "\<not> transferQuery (store ! i)"
    if "transferred (store ! i) = Some True \<or> executed (store ! i) = Some True"
    using that by (auto simp: transferQuery_def)
  have t2: "\<not> transferQuery (store ! i)"
    if "lifecycleState (store ! i) = Transferred \<or> lifecycleState (store ! i) = TransferFailed"
    using that by (auto simp: transferQuery_def lifecycleState_def split: if_splits)
  have q: "verifyQuery (applySet (setUnverified now rs) (store ! i)) \<and>
       verified (applySet (setUnverified now rs) (store ! i)) = Some False \<and>
       executed (applySet (setUnverified now rs) (store ! i)) = Some False \<and>
       (transferred (store ! i) \<noteq> Some True \<longrightarrow>
          lifecycleState (applySet (setUnverified now rs) (store ! i)) = VerificationFailed)"
    if "verifyQuery (store ! i)"
    using that setUnverified_fields [of now rs "store ! i"]
      lifecycle_setUnverified [of "store ! i" now rs]
    by (simp add: verifyQuery_def)
  have f: "verifiedAt (applySet (setUnverified now rs) (store ! i)) = Some now \<and>
       verificationResults (applySet (setUnverified now rs) (store ! i)) = Some rs \<and>
       reason (applySet (setUnverified now rs) (store ! i)) =
         Some ''Some approvals failed verification''"
    using setUnverified_fields [of now rs "store ! i"] by simp
  have l: "fst (verifyLoop L R C (store ! i # rest) (store, w)) ! i =
         applySet (setUnverified now rs) (store ! i) \<and>
       verifiedAt (fst (verifyLoop L R C (store ! i # rest) (store, w)) ! i) = Some now \<and>
       verificationResults (fst (verifyLoop L R C (store ! i # rest) (store, w)) ! i) = Some rs \<and>
       reason (fst (verifyLoop L R C (store ! i # rest) (store, w)) ! i) =
         Some ''Some approvals failed verification'' \<and>
       verifyQuery (fst (verifyLoop L R C (store ! i # rest) (store, w)) ! i)"
    if "verifyQuery (store ! i)" "doc_id (store ! i) \<notin> doc_id ` set rest"
      "verifyApprovalData L R C (store ! i) w = Inr (Some (setUnverified now rs), w')"
    using verifyLoop_head_write [OF that(3) assms refl that(2)] q [OF that(1)] f by simp
  have c: "fst (verifySolanaApprovals L R C (store, w)) ! i =
         applySet (setUnverified now rs) (store ! i) \<and>
       verifiedAt (fst (verifySolanaApprovals L R C (store, w)) ! i) = Some now \<and>
       verificationResults (fst (verifySolanaApprovals L R C (store, w)) ! i) = Some rs \<and>
       reason (fst (verifySolanaApprovals L R C (store, w)) ! i) =
         Some ''Some approvals failed verification'' \<and>
       verifyQuery (fst (verifySolanaApprovals L R C (store, w)) ! i)"
    if "filter verifyQuery store = store ! i # rest"
      "verifyApprovalData L R C (store ! i) w = Inr (Some (setUnverified now rs), w')"
  proof -
    have "store ! i \<in> set (filter verifyQuery store)" using that(1) by simp
    then have sel: "verifyQuery (store ! i)" by simp
    from verifySolanaApprovals_first [OF assms(1) that(1) assms(2) refl that(2)] q [OF sel] f
    show ?thesis by simp
  qed
  show ?thesis
    apply (intro conjI)
    subgoal using v v1 by blast
    subgoal using v v2 by blast
    subgoal using t t1 by blast
    subgoal using t t2 by blast
    subgoal using q by blast
    subgoal using l by blast
    subgoal using c by blast
    done
qed

theorem C2_rerun_is_noop_witness:
  "fst (verifySolanaApprovals exLib exRpc (exVerifierConfig (Some ''DELEGATE''))
       ([applySet (setVerified 5 []) (exDoc 1 ''sigOK'' [''A'']), exDoc 2 ''sigOK'' [''A'']], 0)) ! 0 =
     applySet (setVerified 5 []) (exDoc 1 ''sigOK'' [''A'']) \<and>
   fst (fst (transferApprovedTokens exLib exRpc (exTransferConfig ''goodkey'')
       ([applySet (setExecuted 8 ''Transfer error: timeout'')
           (applySet (setVerified 5 []) (exDoc 1 ''sigOK'' [''A''])),
         applySet (setVerified 5 []) (exDoc 2 ''sigOK'' [''A''])], 0))) ! 0 =
     applySet (setExecuted 8 ''Transfer error: timeout'')
       (applySet (setVerified 5 []) (exDoc 1 ''sigOK'' [''A''])) \<and>
   verifiedAt (applySet (setUnverified 1002
       [\<lparr> vr_tokenAccount = ''B'', vr_verified = False, vr_delegatedAmount = None,
          vr_reason = Some ''Delegate not set'' \<rparr>]) (exDoc 1 ''sigOK'' [''B''])) = Some 1002 \<and>
   verifiedAt (fst (verifySolanaApprovals exLib exRpc (exVerifierConfig (Some ''DELEGATE''))
       ([applySet (setUnverified 1002
           [\<lparr> vr_tokenAccount = ''B'', vr_verified = False, vr_delegatedAmount = None,
              vr_reason = Some ''Delegate not set'' \<rparr>]) (exDoc 1 ''sigOK'' [''B''])], 5)) ! 0) =
     Some 1007 \<and>
   verifyQuery (fst (verifySolanaApprovals exLib exRpc (exVerifierConfig (Some ''DELEGATE''))
       ([applySet (setUnverified 1002
           [\<lparr> vr_tokenAccount = ''B'', vr_verified = False, vr_delegatedAmount = None,
              vr_reason = Some ''Delegate not set'' \<rparr>]) (exDoc 1 ''sigOK'' [''B''])], 5)) ! 0) \<and>
   verifyQuery (applySet (setUnverified 1002
       [\<lparr> vr_tokenAccount = ''B'', vr_verified = False, vr_delegatedAmount = None,
          vr_reason = Some ''Delegate not set'' \<rparr>]) (exDoc 1 ''sigOK'' [''B''])) \<and>
   lifecycleState (applySet (setUnverified 1002
       [\<lparr> vr_tokenAccount = ''B'', vr_verified = False, vr_delegatedAmount = None,
          vr_reason = Some ''Delegate not set'' \<rparr>]) (exDoc 1 ''sigOK'' [''B''])) =
     VerificationFailed \<and>
   verifiedAt (fst (verifyLoop exLib exRpc (exVerifierConfig (Some ''DELEGATE''))
       [applySet (setUnverified 1002
           [\<lparr> vr_tokenAccount = ''B'', vr_verified = False, vr_delegatedAmount = None,
              vr_reason = Some ''Delegate not set'' \<rparr>]) (exDoc 1 ''sigOK'' [''B''])]
       ([applySet (setUnverified 1002
           [\<lparr> vr_tokenAccount = ''B'', vr_verified = False, vr_delegatedAmount = None,
              vr_reason = Some ''Delegate not set'' \<rparr>]) (exDoc 1 ''sigOK'' [''B''])], 5)) ! 0) =
     Some 1007 \<and>
   \<not> verifyQuery (applySet (setVerified 5 []) (exDoc 1 ''sigOK'' [''A''])) \<and>
   \<not> transferQuery (applySet (setExecuted 8 ''Transfer error: timeout'')
       (applySet (setVerified 5 []) (exDoc 1 ''sigOK'' [''A''])))"
proof -
  let ?C = "exVerifierConfig (Some ''DELEGATE'')"
  let ?T = "exTransferConfig ''goodkey''"
  let ?v = "applySet (setVerified 5 []) (exDoc 1 ''sigOK'' [''A''])"
  let ?f = "applySet (setExecuted 8 ''Transfer error: timeout'') ?v"
  let ?u = "exDoc 2 ''sigOK'' [''A'']"
  let ?rB = "\<lparr> vr_tokenAccount = ''B'', vr_verified = False, vr_delegatedAmount = None,
              vr_reason = Some ''Delegate not set'' \<rparr>"
  let ?g = "applySet (setUnverified 1002 [?rB]) (exDoc 1 ''sigOK'' [''B''])"
  have hv: "distinct (map doc_id [?v, ?u])" "0 < length [?v, ?u]"
    by (simp_all add: exDoc_def insertedDoc_def)
  have v: "verified ([?v, ?u] ! 0) = Some True"
    by (simp add: applySet_def setVerified_def emptySet_def orElse_def)
  have ht: "distinct (map doc_id [?f, applySet (setVerified 5 []) ?u])"
    "0 < length [?f, applySet (setVerified 5 []) ?u]"
    by (simp_all add: exDoc_def insertedDoc_def)
  have f: "executed ([?f, applySet (setVerified 5 []) ?u] ! 0) = Some True"
    by (simp add: applySet_def setExecuted_def emptySet_def orElse_def)
  from C2_rerun_is_noop [OF hv, where L = exLib and R = exRpc and C = ?C and T = ?T and w = 0] v
  have a: "fst (verifySolanaApprovals exLib exRpc ?C ([?v, ?u], 0)) ! 0 = [?v, ?u] ! 0"
    by blast
  from C2_rerun_is_noop [OF ht, where L = exLib and R = exRpc and C = ?C and T = ?T and w = 0] f
  have b: "fst (fst (transferApprovedTokens exLib exRpc ?T
       ([?f, applySet (setVerified 5 []) ?u], 0))) ! 0 = [?f, applySet (setVerified 5 []) ?u] ! 0"
    by blast
  have hg: "distinct (map doc_id [?g])" "0 < length [?g]"
    by simp_all
  have p: "filter verifyQuery [?g] = [?g] ! 0 # []"
    "verifyApprovalData exLib exRpc ?C ([?g] ! 0) 5 = Inr (Some (setUnverified 1007 [?rB]), 7)"
    by (simp_all add: verifyQuery_def verifyApprovalData_def verifyTransaction_def
        verifyApproval_def exVerifierConfig_def exDoc_def insertedDoc_def exGrant_def truthy_def
        delegateToCheck_def exLib_def exRpc_def applySet_def setUnverified_def emptySet_def
        orElse_def)
  from C2_rerun_is_noop [OF hg, where L = exLib and R = exRpc and C = ?C and T = ?T and w = 5
      and rest = "[]" and now = 1007 and rs = "[?rB]" and w' = 7] p
  have c: "verifiedAt (fst (verifySolanaApprovals exLib exRpc ?C ([?g], 5)) ! 0) = Some 1007"
    "verifyQuery (fst (verifySolanaApprovals exLib exRpc ?C ([?g], 5)) ! 0)"
    by blast+
  have d: "verifiedAt ?g = Some 1002"
    using setUnverified_fields [of 1002 "[?rB]" "exDoc 1 ''sigOK'' [''B'']"] by simp
  have hb: "distinct (map doc_id [exDoc 1 ''sigOK'' [''B'']])" "0 < length [exDoc 1 ''sigOK'' [''B'']]"
    by simp_all
  have sel: "verifyQuery ([exDoc 1 ''sigOK'' [''B'']] ! 0)"
    "transferred ([exDoc 1 ''sigOK'' [''B'']] ! 0) \<noteq> Some True"
    by (simp_all add: verifyQuery_def exDoc_def insertedDoc_def)
  from C2_rerun_is_noop [OF hb, where L = exLib and R = exRpc and C = ?C and T = ?T and w = 0
      and now = 1002 and rs = "[?rB]"] sel
  have k: "verifyQuery (applySet (setUnverified 1002 [?rB]) ([exDoc 1 ''sigOK'' [''B'']] ! 0))"
    "lifecycleState (applySet (setUnverified 1002 [?rB]) ([exDoc 1 ''sigOK'' [''B'']] ! 0)) =
       VerificationFailed"
    by blast+
  have q: "verifyQuery ([?g] ! 0)" "doc_id ([?g] ! 0) \<notin> doc_id ` set []"
    using k(1) by simp_all
  from C2_rerun_is_noop [OF hg, where L = exLib and R = exRpc and C = ?C and T = ?T and w = 5
      and rest = "[]" and now = 1007 and rs = "[?rB]" and w' = 7] q p(2)
  have l: "verifiedAt (fst (verifyLoop exLib exRpc ?C ([?g] ! 0 # []) ([?g], 5)) ! 0) = Some 1007"
    by blast
  have lv: "lifecycleState ([?v, ?u] ! 0) = Verified"
    by (simp add: lifecycleState_def applySet_def setVerified_def emptySet_def orElse_def
        exDoc_def insertedDoc_def)
  from C2_rerun_is_noop [OF hv, where L = exLib and R = exRpc and C = ?C and T = ?T and w = 0] lv
  have nv: "\<not> verifyQuery ([?v, ?u] ! 0)"
    by blast
  have lf: "lifecycleState ([?f, applySet (setVerified 5 []) ?u] ! 0) = TransferFailed"
    by (simp add: lifecycleState_def applySet_def setVerified_def setExecuted_def emptySet_def
        orElse_def exDoc_def insertedDoc_def)
  from C2_rerun_is_noop [OF ht, where L = exLib and R = exRpc and C = ?C and T = ?T and w = 0] lf
  have nt: "\<not> transferQuery ([?f, applySet (setVerified 5 []) ?u] ! 0)"
    by blast
  show ?thesis
    apply (intro conjI)
    subgoal using a by simp
    subgoal using b by simp
    subgoal by (rule d)
    subgoal by (rule c(1))
    subgoal by (rule c(2))
    subgoal using k(1) by simp
    subgoal using k(2) by simp
    subgoal using l by simp
    subgoal using nv by simp
    subgoal using nt by simp
    done
qed

text \<open>
  C2 as stated counts every VerificationFailed record as terminal for the verifier. A record
  whose grant failed the check is VerificationFailed, is selected again by the verifier's
  query, and the next cycle rewrites it (here its \<open>verifiedAt\<close>).
\<close>

theorem C2_failed_grants_are_reverified_counterexample:
  "fst (verifySolanaApprovals exLib exRpc (exVerifierConfig (Some ''DELEGATE''))
       ([exDoc 1 ''sigOK'' [''B'']], 0)) =
     [applySet (setUnverified 1002
         [\<lparr> vr_tokenAccount = ''B'', vr_verified = False, vr_delegatedAmount = None,
            vr_reason = Some ''Delegate not set'' \<rparr>]) (exDoc 1 ''sigOK'' [''B''])] \<and>
   lifecycleState (applySet (setUnverified 1002
         [\<lparr> vr_tokenAccount = ''B'', vr_verified = False, vr_delegatedAmount = None,
            vr_reason = Some ''Delegate not set'' \<rparr>]) (exDoc 1 ''sigOK'' [''B''])) =
     VerificationFailed \<and>
   verifyQuery (applySet (setUnverified 1002
         [\<lparr> vr_tokenAccount = ''B'', vr_verified = False, vr_delegatedAmount = None,
            vr_reason = Some ''Delegate not set'' \<rparr>]) (exDoc 1 ''sigOK'' [''B''])) \<and>
   verifiedAt (hd (fst (verifySolanaApprovals exLib exRpc (exVerifierConfig (Some ''DELEGATE''))
       ([applySet (setUnverified 1002
           [\<lparr> vr_tokenAccount = ''B'', vr_verified = False, vr_delegatedAmount = None,
              vr_reason = Some ''Delegate not set'' \<rparr>]) (exDoc 1 ''sigOK'' [''B''])], 5)))) =
     Some 1007 \<and>
   verifiedAt (applySet (setUnverified 1002
         [\<lparr> vr_tokenAccount = ''B'', vr_verified = False, vr_delegatedAmount = None,
            vr_reason = Some ''Delegate not set'' \<rparr>]) (exDoc 1 ''sigOK'' [''B''])) = Some 1002"
  by (simp add: verifySolanaApprovals_def verifyQuery_def verifyApprovalData_def
      verifyTransaction_def verifyApproval_def exVerifierConfig_def exDoc_def insertedDoc_def
      exGrant_def truthy_def delegateToCheck_def exLib_def exRpc_def applySet_def
      setUnverified_def emptySet_def orElse_def lifecycleState_def)

end
